theory Spec2Isabelle
  imports Main "HOL-Library.AList" "HOL-Library.Char_ord" "HOL-Library.List_Lexorder"
begin

section \<open>Python values, errors and library functions used by genvp.py\<close>

text \<open>
  Every exception of the script ends the run. \<open>Log.f(msg)\<close> prints the message and raises
  \<open>Exception(msg)\<close>: that is the script's fatal error, and its message tells the kinds of
  fatal error apart. The other constructors are the exceptions that the Python runtime raises
  by itself.
\<close>

datatype error =
    Fatal string
  | TypeError
  | AttributeError
  | KeyError string
  | IndexError

text \<open>
  \<open>Log.f\<close> is declared with the single parameter \<open>msg\<close>. The model takes the list of
  positional arguments of a call, since a call with any other number of arguments raises
  \<open>TypeError\<close> before the body runs.
\<close>

fun Log_f :: "string list \<Rightarrow> error" where
  "Log_f [msg] = Fatal msg"
| "Log_f args = TypeError"

text \<open>The text \<open>'{0}'\<close> of a format string, filled in: the argument between single quotes.\<close>

definition quoted :: "string \<Rightarrow> string" where
  "quoted s = CHR 0x27 # s @ [CHR 0x27]"

text \<open>A \<open>for\<close> loop over a list that updates a state and stops at the first exception.\<close>

fun for_each :: "('a \<Rightarrow> 's \<Rightarrow> error + 's) \<Rightarrow> 'a list \<Rightarrow> 's \<Rightarrow> error + 's" where
  "for_each f [] s = Inr s"
| "for_each f (x # xs) s = (case f x s of Inl e \<Rightarrow> Inl e | Inr s' \<Rightarrow> for_each f xs s')"

text \<open>
  Dictionaries keep insertion order: an association list with distinct keys, where
  \<open>d[k] = v\<close> is \<open>AList.update k v d\<close> (the value is replaced in place when the key is
  there, and appended otherwise) and \<open>k in d\<close>, \<open>d.get(k)\<close> are \<open>map_of d k\<close>.
\<close>

definition is_digit :: "char \<Rightarrow> bool" where
  "is_digit c = (c \<in> set ''0123456789'')"

definition is_nonzero_digit :: "char \<Rightarrow> bool" where
  "is_nonzero_digit c = (c \<in> set ''123456789'')"

text \<open>
  The anchor \<open>$\<close> of a Python regular expression (without flags) matches at the end of the
  string and just before a newline that is the last character.
\<close>

definition at_dollar :: "string \<Rightarrow> bool" where
  "at_dollar s = (s = [] \<or> s = [CHR 0x0A])"

text \<open>
  \<open>re.search(r"^[1-9][0-9]*\.[0-9]+$", s) != None\<close>. Each run of digits is followed by a
  character that is no digit, so the greedy runs are the maximal ones.
\<close>

definition search_version_number :: "string \<Rightarrow> bool" where
  "search_version_number s =
     (case s of
        [] \<Rightarrow> False
      | c # cs \<Rightarrow>
          is_nonzero_digit c \<and>
          (case dropWhile is_digit cs of
             [] \<Rightarrow> False
           | d # ds \<Rightarrow>
               d = CHR ''.'' \<and> takeWhile is_digit ds \<noteq> [] \<and> at_dollar (dropWhile is_digit ds)))"

text \<open>
  \<open>.*$\<close>: any characters but newlines, up to the end of the string or to a last newline.
\<close>

definition dot_star_dollar :: "string \<Rightarrow> bool" where
  "dot_star_dollar s = at_dollar (dropWhile (\<lambda>c. c \<noteq> CHR 0x0A) s)"

text \<open>
  \<open>re.search(r"^([1-9][0-9]*\.[0-9]+)[^0-9].*$", s)\<close>: \<open>None\<close> when there is no match,
  group 1 of the match otherwise.
\<close>

definition search_api_version :: "string \<Rightarrow> string option" where
  "search_api_version s =
     (case s of
        [] \<Rightarrow> None
      | c # cs \<Rightarrow>
          if \<not> is_nonzero_digit c then None
          else
            (case dropWhile is_digit cs of
               [] \<Rightarrow> None
             | d # ds \<Rightarrow>
                 if d \<noteq> CHR ''.'' \<or> takeWhile is_digit ds = [] then None
                 else
                   (case dropWhile is_digit ds of
                      [] \<Rightarrow> None
                    | e # es \<Rightarrow>
                        if dot_star_dollar es
                        then Some (c # takeWhile is_digit cs @ ''.'' @ takeWhile is_digit ds)
                        else None)))"

text \<open>\<open>s.startswith(p)\<close>, which is also \<open>re.search('^' + p + '.*', s) != None\<close> for a literal \<open>p\<close>.\<close>

definition startswith :: "string \<Rightarrow> string \<Rightarrow> bool" where
  "startswith s p = (take (length p) s = p)"

definition endswith :: "string \<Rightarrow> string \<Rightarrow> bool" where
  "endswith s p = (length p \<le> length s \<and> drop (length s - length p) s = p)"

text \<open>\<open>s.split(',')\<close>: the pieces between the commas, at least one piece.\<close>

fun split_comma :: "string \<Rightarrow> string list" where
  "split_comma [] = [[]]"
| "split_comma (c # cs) =
     (if c = CHR '','' then [] # split_comma cs
      else (case split_comma cs of p # ps \<Rightarrow> (c # p) # ps | [] \<Rightarrow> [[c]]))"

text \<open>\<open>s.replace(".", ", ")\<close>.\<close>

fun replace_dot :: "string \<Rightarrow> string" where
  "replace_dot [] = []"
| "replace_dot (c # cs) = (if c = CHR ''.'' then '', '' @ replace_dot cs else c # replace_dot cs)"

text \<open>\<open>str(n)\<close> of an integer.\<close>

fun str_nat :: "nat \<Rightarrow> string" where
  "str_nat n =
     (if n < 10 then [''0123456789'' ! n]
      else str_nat (n div 10) @ [''0123456789'' ! (n mod 10)])"

declare str_nat.simps [simp del]

definition str_int :: "int \<Rightarrow> string" where
  "str_int i = (if i < 0 then CHR ''-'' # str_nat (nat (- i)) else str_nat (nat i))"

section \<open>The registry document\<close>

text \<open>
  The registry is read with \<open>xml.etree\<close>; the model starts from the parsed document. An
  attribute that the script reads with \<open>get\<close> is a \<open>string option\<close> (\<open>None\<close> when the
  attribute is absent), except the \<open>name\<close> attributes of types and extensions, which every
  registry has. The \<open>require/enum\<close> and \<open>require/type\<close> children of a feature or of an extension
  are listed in document order.
\<close>

record xml_enum =
  enum_name :: "string option"
  enum_value :: "string option"
  enum_alias :: "string option"

record xml_platform =
  platform_name :: "string option"
  platform_protect :: "string option"

record xml_feature =
  feature_name :: "string option"
  feature_number :: "string option"
  feature_enums :: "xml_enum list"
  feature_types :: "string option list"

record xml_extension =
  extension_name :: string
  extension_supported :: "string option"
  extension_type :: "string option"
  extension_platform :: "string option"
  extension_enums :: "xml_enum list"
  extension_types :: "string option list"

text \<open>
  A \<open>member\<close> child of a struct type: the text of its \<open>name\<close> and \<open>type\<close> children, the
  text that follows the \<open>name\<close> child (\<open>tail\<close>), and the attributes \<open>limittype\<close> and
  \<open>values\<close>.
\<close>

record xml_member =
  xm_name :: string
  xm_tail :: "string option"
  xm_type :: string
  xm_limittype :: "string option"
  xm_values :: "string option"

record xml_type =
  xt_name :: string
  xt_alias :: "string option"
  xt_structextends :: "string option"
  xt_members :: "xml_member list"

text \<open>
  \<open>xml_features\<close> are the \<open>./feature\<close> nodes, \<open>xml_extensions\<close> the
  \<open>./extensions/extension\<close> nodes and \<open>xml_types\<close> the \<open>./types/type\<close> nodes of category
  \<open>struct\<close>.
\<close>

record xml_registry =
  xml_platforms :: "xml_platform list"
  xml_features :: "xml_feature list"
  xml_extensions :: "xml_extension list"
  xml_types :: "xml_type list"

section \<open>The registry model\<close>

record VulkanPlatform =
  plat_name :: "string option"
  plat_protect :: "string option"

record VulkanStructMember =
  member_name :: string
  member_type :: string
  limittype :: "string option"
  isArray :: bool

text \<open>
  \<open>parseAliases\<close> makes an alias share the \<open>members\<close> dictionary and the \<open>aliases\<close> list
  of its base struct, and both are mutated afterwards. So a struct holds the addresses of the
  two objects, and the registry holds the objects. The objects that \<open>VulkanStruct(name)\<close>
  creates get the address \<open>name\<close>.
\<close>

record VulkanStruct =
  struct_name :: string
  sType :: "string option"
  extends :: "string list"
  members :: string
  aliases :: string
  definedByVersion :: "string option"
  definedByExtensions :: "string list"

record VulkanVersion =
  version_name :: "string option"
  version_number :: "string option"
  version_sTypeAliases :: "(string \<times> string) list"

record VulkanExtension =
  ext_name :: string
  upperCaseName :: string
  ext_type :: "string option"
  ext_platform :: "string option"
  ext_sTypeAliases :: "(string \<times> string) list"

record VulkanRegistry =
  platforms :: "(string option \<times> VulkanPlatform) list"
  versions :: "(string \<times> VulkanVersion) list"
  extensions :: "(string \<times> VulkanExtension) list"
  structs :: "(string \<times> VulkanStruct) list"
  member_dicts :: "string \<Rightarrow> (string \<times> VulkanStructMember) list"
  alias_lists :: "string \<Rightarrow> string list"

definition empty_registry :: VulkanRegistry where
  "empty_registry =
     \<lparr>platforms = [], versions = [], extensions = [], structs = [],
      member_dicts = (\<lambda>a. []), alias_lists = (\<lambda>a. [])\<rparr>"

text \<open>\<open>structDef.members\<close>: the dictionary at the address that the struct holds.\<close>

definition members_of :: "VulkanRegistry \<Rightarrow> VulkanStruct \<Rightarrow> (string \<times> VulkanStructMember) list" where
  "members_of reg sd = member_dicts reg (members sd)"

definition aliases_of :: "VulkanRegistry \<Rightarrow> VulkanStruct \<Rightarrow> string list" where
  "aliases_of reg sd = alias_lists reg (aliases sd)"

subsection \<open>Platforms and versions\<close>

definition parsePlatformInfo :: "xml_registry \<Rightarrow> VulkanRegistry \<Rightarrow> VulkanRegistry" where
  "parsePlatformInfo xml reg =
     reg\<lparr>platforms :=
       fold (\<lambda>plat d. AList.update (platform_name plat)
                        \<lparr>plat_name = platform_name plat, plat_protect = platform_protect plat\<rparr> d)
            (xml_platforms xml) []\<rparr>"

text \<open>
  \<open>VulkanDefinitionScope.parseAliases\<close>: of the \<open>require/enum\<close> children that have an
  \<open>alias\<close> attribute, those whose name starts with \<open>VK_STRUCTURE_TYPE_\<close> are recorded under
  their alias. \<open>re.search\<close> on an absent name raises \<open>TypeError\<close>.
\<close>

definition scope_alias_step :: "xml_enum \<Rightarrow> (string \<times> string) list \<Rightarrow> error + (string \<times> string) list" where
  "scope_alias_step en d =
     (case enum_alias en of
        None \<Rightarrow> Inr d
      | Some al \<Rightarrow>
          (case enum_name en of
             None \<Rightarrow> Inl TypeError
           | Some n \<Rightarrow> if startswith n ''VK_STRUCTURE_TYPE_'' then Inr (AList.update al n d) else Inr d))"

definition scope_parseAliases :: "xml_enum list \<Rightarrow> error + (string \<times> string) list" where
  "scope_parseAliases enums = for_each scope_alias_step enums []"

definition new_VulkanVersion :: "xml_feature \<Rightarrow> error + VulkanVersion" where
  "new_VulkanVersion feature =
     (case scope_parseAliases (feature_enums feature) of
        Inl e \<Rightarrow> Inl e
      | Inr al \<Rightarrow>
          Inr \<lparr>version_name = feature_name feature, version_number = feature_number feature,
               version_sTypeAliases = al\<rparr>)"

text \<open>
  One iteration of the loop of \<open>parseVersionInfo\<close>. The \<open>else\<close> branch calls \<open>Log.f\<close> with
  two arguments, the format string and the number.
\<close>

definition parseVersionInfo_step ::
  "xml_feature \<Rightarrow> (string \<times> VulkanVersion) list \<Rightarrow> error + (string \<times> VulkanVersion) list" where
  "parseVersionInfo_step feature vs =
     (case feature_number feature of
        None \<Rightarrow> Inl TypeError
      | Some number \<Rightarrow>
          if search_version_number number
          then (case new_VulkanVersion feature of
                  Inl e \<Rightarrow> Inl e
                | Inr v \<Rightarrow> Inr (AList.update number v vs))
          else Inl (Log_f [''Unsupported feature with number '' @ quoted ''{0}'', number]))"

definition parseVersionInfo :: "xml_registry \<Rightarrow> VulkanRegistry \<Rightarrow> error + VulkanRegistry" where
  "parseVersionInfo xml reg =
     (case for_each parseVersionInfo_step (xml_features xml) [] of
        Inl e \<Rightarrow> Inl e
      | Inr vs \<Rightarrow> Inr (reg\<lparr>versions := vs\<rparr>))"

subsection \<open>Extensions\<close>

text \<open>
  The name enum of an extension: the first \<open>require/enum\<close> child whose value is the quoted
  extension name and whose name ends with \<open>_EXTENSION_NAME\<close>. \<open>endswith\<close> on an absent
  name raises \<open>AttributeError\<close>.
\<close>

fun find_name_enum :: "xml_enum list \<Rightarrow> error + string option" where
  "find_name_enum [] = Inr None"
| "find_name_enum (m # ms) =
     (case enum_name m of
        None \<Rightarrow> Inl AttributeError
      | Some n \<Rightarrow> if endswith n ''_EXTENSION_NAME'' then Inr (Some n) else find_name_enum ms)"

definition new_VulkanExtension :: "xml_extension \<Rightarrow> string \<Rightarrow> error + VulkanExtension" where
  "new_VulkanExtension ext upperCase =
     (case scope_parseAliases (extension_enums ext) of
        Inl e \<Rightarrow> Inl e
      | Inr al \<Rightarrow>
          Inr \<lparr>ext_name = extension_name ext, upperCaseName = upperCase,
               ext_type = extension_type ext, ext_platform = extension_platform ext,
               ext_sTypeAliases = al\<rparr>)"

definition parseExtensionInfo_step ::
  "xml_extension \<Rightarrow> (string \<times> VulkanExtension) list \<Rightarrow> error + (string \<times> VulkanExtension) list" where
  "parseExtensionInfo_step ext es =
     (if extension_supported ext = Some ''vulkan'' then
        (let name = extension_name ext;
             matches = filter (\<lambda>en. enum_value en = Some (CHR 0x22 # name @ [CHR 0x22]))
                              (extension_enums ext)
         in case find_name_enum matches of
              Inl e \<Rightarrow> Inl e
            | Inr None \<Rightarrow>
                Inl (Log_f [''Cannot find name enum for extension '' @ quoted name])
            | Inr (Some n) \<Rightarrow>
                (case new_VulkanExtension ext (take (length n - length ''_EXTENSION_NAME'') n) of
                   Inl e \<Rightarrow> Inl e
                 | Inr x \<Rightarrow> Inr (AList.update name x es)))
      else Inr es)"

definition parseExtensionInfo :: "xml_registry \<Rightarrow> VulkanRegistry \<Rightarrow> error + VulkanRegistry" where
  "parseExtensionInfo xml reg =
     (case for_each parseExtensionInfo_step (xml_extensions xml) [] of
        Inl e \<Rightarrow> Inl e
      | Inr es \<Rightarrow> Inr (reg\<lparr>extensions := es\<rparr>))"

subsection \<open>Structs\<close>

text \<open>
  One \<open>member\<close> child: \<open>sType\<close> and \<open>pNext\<close> are skipped; a member is an array when the
  text after its name starts with \<open>[\<close> (\<open>tail[0]\<close> of an empty text raises \<open>IndexError\<close>).
\<close>

definition parseStructInfo_member ::
  "xml_member \<Rightarrow> (string \<times> VulkanStructMember) list \<Rightarrow> error + (string \<times> VulkanStructMember) list" where
  "parseStructInfo_member member d =
     (let name = xm_name member in
      if name \<noteq> ''sType'' \<and> name \<noteq> ''pNext'' then
        (let md = \<lparr>member_name = name, member_type = xm_type member,
                   limittype = xm_limittype member, isArray = False\<rparr>
         in case xm_tail member of
              None \<Rightarrow> Inr (AList.update name md d)
            | Some [] \<Rightarrow> Inl IndexError
            | Some (c # cs) \<Rightarrow>
                if c = CHR ''[''
                then Inr (AList.update name (md\<lparr>isArray := True\<rparr>) d)
                else Inr (AList.update name md d))
      else Inr d)"

text \<open>
  One struct type: \<open>VulkanStruct(name)\<close> with a new \<open>members\<close> dictionary and a new
  \<open>aliases\<close> list holding the name, then \<open>extends\<close>, \<open>sType\<close> (the \<open>values\<close> attribute of
  the first member called \<open>sType\<close>) and the members.
\<close>

definition parseStructInfo_step :: "xml_type \<Rightarrow> VulkanRegistry \<Rightarrow> error + VulkanRegistry" where
  "parseStructInfo_step struct reg =
     (let name = xt_name struct;
          structDef =
            \<lparr>struct_name = name,
             sType = (case find (\<lambda>m. xm_name m = ''sType'') (xt_members struct) of
                        None \<Rightarrow> None | Some m \<Rightarrow> xm_values m),
             extends = (case xt_structextends struct of None \<Rightarrow> [] | Some ex \<Rightarrow> split_comma ex),
             members = name, aliases = name,
             definedByVersion = None, definedByExtensions = []\<rparr>
      in case for_each parseStructInfo_member (xt_members struct) [] of
           Inl e \<Rightarrow> Inl e
         | Inr md \<Rightarrow>
             Inr (reg\<lparr>structs := AList.update name structDef (structs reg),
                      member_dicts := (member_dicts reg)(name := md),
                      alias_lists := (alias_lists reg)(name := [name])\<rparr>))"

definition parseStructInfo :: "xml_registry \<Rightarrow> VulkanRegistry \<Rightarrow> error + VulkanRegistry" where
  "parseStructInfo xml reg =
     for_each parseStructInfo_step (xml_types xml) (reg\<lparr>structs := []\<rparr>)"

subsection \<open>Prerequisites\<close>

text \<open>\<open>self.structs[name].field = value\<close> for a struct that the caller has found.\<close>

definition update_struct :: "string \<Rightarrow> (VulkanStruct \<Rightarrow> VulkanStruct) \<Rightarrow> VulkanRegistry \<Rightarrow> VulkanRegistry" where
  "update_struct name f reg = reg\<lparr>structs := AList.map_entry name f (structs reg)\<rparr>"

definition require_type_version :: "string option \<Rightarrow> string option \<Rightarrow> VulkanRegistry \<Rightarrow> VulkanRegistry" where
  "require_type_version number tn reg =
     (case tn of
        None \<Rightarrow> reg
      | Some n \<Rightarrow>
          (case map_of (structs reg) n of
             None \<Rightarrow> reg
           | Some sd \<Rightarrow> update_struct n (\<lambda>sd. sd\<lparr>definedByVersion := number\<rparr>) reg))"

definition require_type_extension :: "string \<Rightarrow> string option \<Rightarrow> VulkanRegistry \<Rightarrow> VulkanRegistry" where
  "require_type_extension ename tn reg =
     (case tn of
        None \<Rightarrow> reg
      | Some n \<Rightarrow>
          (case map_of (structs reg) n of
             None \<Rightarrow> reg
           | Some sd \<Rightarrow>
               update_struct n (\<lambda>sd. sd\<lparr>definedByExtensions := definedByExtensions sd @ [ename]\<rparr>) reg))"

definition parsePrerequisites :: "xml_registry \<Rightarrow> VulkanRegistry \<Rightarrow> VulkanRegistry" where
  "parsePrerequisites xml reg =
     (let reg1 = fold (\<lambda>feature. fold (require_type_version (feature_number feature))
                                       (feature_types feature))
                      (xml_features xml) reg
      in fold (\<lambda>extension. fold (require_type_extension (extension_name extension))
                                 (extension_types extension))
              (xml_extensions xml) reg1)"

subsection \<open>Struct aliases\<close>

text \<open>
  The search for the sType alias in the core versions: the versions in the order of the
  dictionary, those whose number is at most the alias's \<open>definedByVersion\<close> (a comparison
  of strings), up to the first one that has an entry for the base's \<open>sType\<close>.
\<close>

fun find_sTypeAlias_versions :: "(string \<times> VulkanVersion) list \<Rightarrow> string \<Rightarrow> string \<Rightarrow> string option" where
  "find_sTypeAlias_versions [] dv st = None"
| "find_sTypeAlias_versions ((version, v) # rest) dv st =
     (if version \<le> dv then
        (case map_of (version_sTypeAliases v) st of
           Some a \<Rightarrow> Some a
         | None \<Rightarrow> find_sTypeAlias_versions rest dv st)
      else find_sTypeAlias_versions rest dv st)"

text \<open>
  The search in the extensions that define the alias; \<open>self.extensions[extName]\<close> raises
  \<open>KeyError\<close> for an extension that was not registered.
\<close>

fun find_sTypeAlias_extensions ::
  "(string \<times> VulkanExtension) list \<Rightarrow> string list \<Rightarrow> string \<Rightarrow> error + string option" where
  "find_sTypeAlias_extensions exts [] st = Inr None"
| "find_sTypeAlias_extensions exts (extName # rest) st =
     (case map_of exts extName of
        None \<Rightarrow> Inl (KeyError extName)
      | Some x \<Rightarrow>
          (case map_of (ext_sTypeAliases x) st of
             Some a \<Rightarrow> Inr (Some a)
           | None \<Rightarrow> find_sTypeAlias_extensions exts rest st))"

definition find_sTypeAlias :: "VulkanRegistry \<Rightarrow> VulkanStruct \<Rightarrow> string \<Rightarrow> error + string option" where
  "find_sTypeAlias reg aliasStructDef st =
     (case (case definedByVersion aliasStructDef of
              None \<Rightarrow> None
            | Some dv \<Rightarrow> find_sTypeAlias_versions (versions reg) dv st) of
        Some a \<Rightarrow> Inr (Some a)
      | None \<Rightarrow> find_sTypeAlias_extensions (extensions reg) (definedByExtensions aliasStructDef) st)"

text \<open>
  One struct type of \<open>parseAliases\<close>. The alias takes the \<open>extends\<close> list of the base and
  the addresses of its \<open>members\<close> and \<open>aliases\<close>; its name is appended to the shared
  \<open>aliases\<close> list; its \<open>sType\<close> becomes the alias found for the base's \<open>sType\<close>.
\<close>

definition parseAliases_step :: "xml_type \<Rightarrow> VulkanRegistry \<Rightarrow> error + VulkanRegistry" where
  "parseAliases_step struct reg =
     (case xt_alias struct of
        None \<Rightarrow> Inr reg
      | Some alias \<Rightarrow>
          (case map_of (structs reg) alias of
             None \<Rightarrow>
               Inl (Log_f [''Failed to find alias '' @ quoted alias @ '' of struct ''
                           @ quoted (xt_name struct)])
           | Some baseStructDef \<Rightarrow>
               (case map_of (structs reg) (xt_name struct) of
                  None \<Rightarrow> Inl (KeyError (xt_name struct))
                | Some aliasStructDef0 \<Rightarrow>
                    (let aliasStructDef =
                           aliasStructDef0\<lparr>extends := extends baseStructDef,
                                            members := members baseStructDef,
                                            aliases := aliases baseStructDef\<rparr>;
                         al = (alias_lists reg)
                                (aliases baseStructDef :=
                                   alias_lists reg (aliases baseStructDef) @ [xt_name struct])
                     in case sType baseStructDef of
                          None \<Rightarrow>
                            Inr (reg\<lparr>structs := AList.update (xt_name struct) aliasStructDef (structs reg),
                                     alias_lists := al\<rparr>)
                        | Some st \<Rightarrow>
                            (case find_sTypeAlias reg aliasStructDef st of
                               Inl e \<Rightarrow> Inl e
                             | Inr None \<Rightarrow>
                                 Inl (Log_f [''Could not find sType enum of alias '' @ quoted alias
                                             @ '' of struct '' @ quoted (xt_name struct)])
                             | Inr (Some sTypeAlias) \<Rightarrow>
                                 Inr (reg\<lparr>structs :=
                                            AList.update (xt_name struct)
                                              (aliasStructDef\<lparr>sType := Some sTypeAlias\<rparr>) (structs reg),
                                          alias_lists := al\<rparr>))))))"

definition parseAliases :: "xml_registry \<Rightarrow> VulkanRegistry \<Rightarrow> error + VulkanRegistry" where
  "parseAliases xml reg = for_each parseAliases_step (xml_types xml) reg"

subsection \<open>Workarounds\<close>

text \<open>
  \<open>self.structs[s].members[m].limittype = lt\<close>; a missing struct or member raises
  \<open>KeyError\<close>.
\<close>

definition set_limittype :: "string \<times> string \<times> string \<Rightarrow> VulkanRegistry \<Rightarrow> error + VulkanRegistry" where
  "set_limittype w reg =
     (case w of (s, m, lt) \<Rightarrow>
        (case map_of (structs reg) s of
           None \<Rightarrow> Inl (KeyError s)
         | Some sd \<Rightarrow>
             (case map_of (members_of reg sd) m of
                None \<Rightarrow> Inl (KeyError m)
              | Some md \<Rightarrow>
                  Inr (reg\<lparr>member_dicts :=
                             (member_dicts reg)
                               (members sd :=
                                  AList.update m (md\<lparr>limittype := Some lt\<rparr>) (members_of reg sd))\<rparr>))))"

text \<open>The assignments of the first part of \<open>applyWorkarounds\<close>, in the order of the source.\<close>

definition workaround_table :: "(string \<times> string \<times> string) list" where
  "workaround_table =
     [(''VkPhysicalDeviceLimits'', ''bufferImageGranularity'', ''min''),
      (''VkPhysicalDeviceLimits'', ''subPixelPrecisionBits'', ''max''),
      (''VkPhysicalDeviceLimits'', ''subTexelPrecisionBits'', ''max''),
      (''VkPhysicalDeviceLimits'', ''mipmapPrecisionBits'', ''max''),
      (''VkPhysicalDeviceLimits'', ''viewportSubPixelBits'', ''max''),
      (''VkPhysicalDeviceLimits'', ''minMemoryMapAlignment'', ''max''),
      (''VkPhysicalDeviceLimits'', ''minTexelBufferOffsetAlignment'', ''min''),
      (''VkPhysicalDeviceLimits'', ''minUniformBufferOffsetAlignment'', ''min''),
      (''VkPhysicalDeviceLimits'', ''minStorageBufferOffsetAlignment'', ''min''),
      (''VkPhysicalDeviceLimits'', ''subPixelInterpolationOffsetBits'', ''max''),
      (''VkPhysicalDeviceLimits'', ''timestampPeriod'', ''IGNORE''),
      (''VkPhysicalDeviceLimits'', ''nonCoherentAtomSize'', ''min''),
      (''VkPhysicalDeviceLimits'', ''maxColorAttachments'', ''max''),
      (''VkPhysicalDeviceLimits'', ''pointSizeGranularity'', ''min''),
      (''VkPhysicalDeviceLimits'', ''lineWidthGranularity'', ''min''),
      (''VkPhysicalDeviceVulkan11Properties'', ''subgroupSize'', ''IGNORE''),
      (''VkPhysicalDevicePortabilitySubsetPropertiesKHR'', ''minVertexInputBindingStrideAlignment'', ''min'')]"

text \<open>
  The second part: in every struct, a member of type \<open>VkBool32\<close> whose limittype is
  \<open>bitmask\<close> gets \<open>noauto\<close>. The loop over the keys of a \<open>members\<close> dictionary, which reads
  and patches the entry of each key, is a map over its entries.
\<close>

definition patch_member :: "VulkanStructMember \<Rightarrow> VulkanStructMember" where
  "patch_member memberDef =
     (if limittype memberDef = Some ''bitmask'' \<and> member_type memberDef = ''VkBool32''
      then memberDef\<lparr>limittype := Some ''noauto''\<rparr> else memberDef)"

definition patch_members :: "(string \<times> VulkanStructMember) list \<Rightarrow> (string \<times> VulkanStructMember) list" where
  "patch_members d = map (\<lambda>(memberName, memberDef). (memberName, patch_member memberDef)) d"

definition patch_struct :: "string \<times> VulkanStruct \<Rightarrow> VulkanRegistry \<Rightarrow> VulkanRegistry" where
  "patch_struct entry reg =
     reg\<lparr>member_dicts :=
           (member_dicts reg)(members (snd entry) := patch_members (members_of reg (snd entry)))\<rparr>"

definition patch_bool_bitmasks :: "VulkanRegistry \<Rightarrow> VulkanRegistry" where
  "patch_bool_bitmasks reg = fold patch_struct (structs reg) reg"

definition applyWorkarounds :: "VulkanRegistry \<Rightarrow> error + VulkanRegistry" where
  "applyWorkarounds reg =
     (case for_each set_limittype workaround_table reg of
        Inl e \<Rightarrow> Inl e
      | Inr reg1 \<Rightarrow> Inr (patch_bool_bitmasks reg1))"

subsection \<open>Loading the registry\<close>

definition VulkanRegistry_init :: "xml_registry \<Rightarrow> error + VulkanRegistry" where
  "VulkanRegistry_init xml =
     (case parseVersionInfo xml (parsePlatformInfo xml empty_registry) of
        Inl e \<Rightarrow> Inl e
      | Inr r1 \<Rightarrow>
          (case parseExtensionInfo xml r1 of
             Inl e \<Rightarrow> Inl e
           | Inr r2 \<Rightarrow>
               (case parseStructInfo xml r2 of
                  Inl e \<Rightarrow> Inl e
                | Inr r3 \<Rightarrow>
                    (case parseAliases xml (parsePrerequisites xml r3) of
                       Inl e \<Rightarrow> Inl e
                     | Inr r4 \<Rightarrow> applyWorkarounds r4))))"

section \<open>Profile files\<close>

text \<open>
  The values that \<open>json.load\<close> returns. A float is held by its \<open>repr\<close>; the script never
  computes with one. The type of a value is what \<open>type(v)\<close> compares.
\<close>

datatype json =
    JNull
  | JBool bool
  | JInt int
  | JFloat string
  | JStr string
  | JList "json list"
  | JObj "(string \<times> json) list"

datatype py_type = NoneType | T_bool | T_int | T_float | T_str | T_list | T_dict

fun type_of :: "json \<Rightarrow> py_type" where
  "type_of JNull = NoneType"
| "type_of (JBool b) = T_bool"
| "type_of (JInt i) = T_int"
| "type_of (JFloat f) = T_float"
| "type_of (JStr s) = T_str"
| "type_of (JList vs) = T_list"
| "type_of (JObj kvs) = T_dict"

fun type_name :: "py_type \<Rightarrow> string" where
  "type_name NoneType = ''NoneType''"
| "type_name T_bool = ''bool''"
| "type_name T_int = ''int''"
| "type_name T_float = ''float''"
| "type_name T_str = ''str''"
| "type_name T_list = ''list''"
| "type_name T_dict = ''dict''"

text \<open>\<open>str(type(v))\<close>, as in \<open><class 'dict'>\<close>.\<close>

definition str_type :: "py_type \<Rightarrow> string" where
  "str_type t = ''<class '' @ quoted (type_name t) @ ''>''"

text \<open>\<open>str(v)\<close> of an optional string: \<open>None\<close> prints as \<open>None\<close>.\<close>

definition str_opt :: "string option \<Rightarrow> string" where
  "str_opt v = (case v of None \<Rightarrow> ''None'' | Some s \<Rightarrow> s)"

text \<open>
  The input of the profile loader is typed as the file format has it. A capability fragment
  has the optional keys \<open>extensions\<close> (name to integer), \<open>features\<close>, \<open>properties\<close>,
  \<open>formats\<close>, \<open>memoryProperties\<close> (any value; \<open>JNull\<close> stands for \<open>data.get(key) == None\<close>,
  a key that is absent or null) and \<open>queueFamiliesProperties\<close> (a list of objects). A profile
  entry has \<open>version\<close>, \<open>api-version\<close>, \<open>capabilities\<close>, the optional \<open>fallback\<close>, and
  \<open>name\<close>, a key that the format does not have but that one error message reads.
\<close>

record CapabilityFragment =
  frag_extensions :: "(string \<times> int) list option"
  frag_features :: json
  frag_properties :: json
  frag_formats :: json
  frag_queueFamiliesProperties :: "(string \<times> json) list list option"
  frag_memoryProperties :: json

record profile_data =
  pd_name :: "string option"
  pd_version :: int
  pd_api_version :: string
  pd_fallback :: "string list option"
  pd_capabilities :: "string list"

record profile_file =
  pf_profiles :: "(string \<times> profile_data) list"
  pf_capabilities :: "(string \<times> CapabilityFragment) list"

section \<open>Merging capabilities\<close>

record VulkanProfileCapabilities =
  cap_extensions :: "(string \<times> int) list"
  instanceExtensions :: "(string \<times> int) list"
  deviceExtensions :: "(string \<times> int) list"
  features :: json
  properties :: json
  formats :: json
  queueFamiliesProperties :: "(string \<times> json) list list"
  memoryProperties :: json

definition conflict_msg :: "json \<Rightarrow> json \<Rightarrow> string" where
  "conflict_msg src dst =
     ''Data type confict during profile capability data merge (src is ''
       @ quoted (str_type (type_of src)) @ '', dst is '' @ quoted (str_type (type_of dst)) @ '')''"

definition unexpected_msg :: "json \<Rightarrow> json \<Rightarrow> string" where
  "unexpected_msg src dst =
     ''Unexpected data type during profile capability data merge (src is ''
       @ quoted (str_type (type_of src)) @ '', dst is '' @ quoted (str_type (type_of dst)) @ '')''"

text \<open>
  \<open>mergeProfileCapData(dst, src)\<close> changes \<open>dst\<close> in place; the model returns the new
  \<open>dst\<close>. \<open>merge_items dst items\<close> is the loop over \<open>src.items()\<close> for a dictionary
  \<open>dst\<close>. For an object value, \<open>dst[key]\<close> is created empty when absent and merged into.
  For a list value, \<open>dst[key]\<close> is created empty when absent and extended; \<open>extend\<close> is a
  method of lists only, so on any other existing value Python raises \<open>AttributeError\<close>.
  Any other value replaces \<open>dst[key]\<close>, after the check of the types.
\<close>

fun mergeProfileCapData :: "json \<Rightarrow> json \<Rightarrow> error + json"
  and merge_items :: "(string \<times> json) list \<Rightarrow> (string \<times> json) list \<Rightarrow> error + (string \<times> json) list" where
  "mergeProfileCapData dst (JObj items) =
     (case dst of
        JObj d \<Rightarrow> (case merge_items d items of Inl e \<Rightarrow> Inl e | Inr d' \<Rightarrow> Inr (JObj d'))
      | _ \<Rightarrow> Inl (Log_f [conflict_msg (JObj items) dst]))"
| "mergeProfileCapData dst JNull =
     (if type_of JNull \<noteq> type_of dst then Inl (Log_f [conflict_msg JNull dst])
      else Inl (Log_f [unexpected_msg JNull dst]))"
| "mergeProfileCapData dst (JBool b) =
     (if type_of (JBool b) \<noteq> type_of dst then Inl (Log_f [conflict_msg (JBool b) dst])
      else Inl (Log_f [unexpected_msg (JBool b) dst]))"
| "mergeProfileCapData dst (JInt i) =
     (if type_of (JInt i) \<noteq> type_of dst then Inl (Log_f [conflict_msg (JInt i) dst])
      else Inl (Log_f [unexpected_msg (JInt i) dst]))"
| "mergeProfileCapData dst (JFloat f) =
     (if type_of (JFloat f) \<noteq> type_of dst then Inl (Log_f [conflict_msg (JFloat f) dst])
      else Inl (Log_f [unexpected_msg (JFloat f) dst]))"
| "mergeProfileCapData dst (JStr s) =
     (if type_of (JStr s) \<noteq> type_of dst then Inl (Log_f [conflict_msg (JStr s) dst])
      else Inl (Log_f [unexpected_msg (JStr s) dst]))"
| "mergeProfileCapData dst (JList vs) =
     (if type_of (JList vs) \<noteq> type_of dst then Inl (Log_f [conflict_msg (JList vs) dst])
      else Inl (Log_f [unexpected_msg (JList vs) dst]))"
| "merge_items dst [] = Inr dst"
| "merge_items dst ((key, JObj kvs) # rest) =
     (case mergeProfileCapData (case map_of dst key of None \<Rightarrow> JObj [] | Some v \<Rightarrow> v) (JObj kvs) of
        Inl e \<Rightarrow> Inl e
      | Inr m \<Rightarrow> merge_items (AList.update key m dst) rest)"
| "merge_items dst ((key, JList vs) # rest) =
     (case (case map_of dst key of None \<Rightarrow> JList [] | Some v \<Rightarrow> v) of
        JList old \<Rightarrow> merge_items (AList.update key (JList (old @ vs)) dst) rest
      | _ \<Rightarrow> Inl AttributeError)"
| "merge_items dst ((key, val) # rest) =
     (case map_of dst key of
        None \<Rightarrow> merge_items (AList.update key val dst) rest
      | Some old \<Rightarrow>
          if type_of old \<noteq> type_of val then Inl (Log_f [conflict_msg val old])
          else merge_items (AList.update key val dst) rest)"

definition mergeProfileExtensions_step ::
  "VulkanRegistry \<Rightarrow> string \<times> int \<Rightarrow> VulkanProfileCapabilities \<Rightarrow> error + VulkanProfileCapabilities" where
  "mergeProfileExtensions_step registry entry caps =
     (case entry of (extName, specVer) \<Rightarrow>
        (case map_of (extensions registry) extName of
           None \<Rightarrow> Inl (Log_f [''Extension '' @ quoted extName @ '' does not exist''])
         | Some extInfo \<Rightarrow>
             (let caps1 = caps\<lparr>cap_extensions := AList.update extName specVer (cap_extensions caps)\<rparr>
              in if ext_type extInfo = Some ''instance'' then
                   Inr (caps1\<lparr>instanceExtensions :=
                                AList.update extName specVer (instanceExtensions caps1)\<rparr>)
                 else if ext_type extInfo = Some ''device'' then
                   Inr (caps1\<lparr>deviceExtensions :=
                                AList.update extName specVer (deviceExtensions caps1)\<rparr>)
                 else
                   Inl (Log_f [''Extension '' @ quoted extName @ '' has invalid type ''
                               @ quoted (str_opt (ext_type extInfo))]))))"

definition mergeProfileExtensions ::
  "VulkanRegistry \<Rightarrow> CapabilityFragment \<Rightarrow> VulkanProfileCapabilities \<Rightarrow> error + VulkanProfileCapabilities" where
  "mergeProfileExtensions registry data caps =
     (case frag_extensions data of
        None \<Rightarrow> Inr caps
      | Some exts \<Rightarrow> for_each (mergeProfileExtensions_step registry) exts caps)"

definition mergeProfileFeatures :: "CapabilityFragment \<Rightarrow> VulkanProfileCapabilities \<Rightarrow> error + VulkanProfileCapabilities" where
  "mergeProfileFeatures data caps =
     (if frag_features data \<noteq> JNull then
        (case mergeProfileCapData (features caps) (frag_features data) of
           Inl e \<Rightarrow> Inl e | Inr v \<Rightarrow> Inr (caps\<lparr>features := v\<rparr>))
      else Inr caps)"

definition mergeProfileProperties :: "CapabilityFragment \<Rightarrow> VulkanProfileCapabilities \<Rightarrow> error + VulkanProfileCapabilities" where
  "mergeProfileProperties data caps =
     (if frag_properties data \<noteq> JNull then
        (case mergeProfileCapData (properties caps) (frag_properties data) of
           Inl e \<Rightarrow> Inl e | Inr v \<Rightarrow> Inr (caps\<lparr>properties := v\<rparr>))
      else Inr caps)"

definition mergeProfileFormats :: "CapabilityFragment \<Rightarrow> VulkanProfileCapabilities \<Rightarrow> error + VulkanProfileCapabilities" where
  "mergeProfileFormats data caps =
     (if frag_formats data \<noteq> JNull then
        (case mergeProfileCapData (formats caps) (frag_formats data) of
           Inl e \<Rightarrow> Inl e | Inr v \<Rightarrow> Inr (caps\<lparr>formats := v\<rparr>))
      else Inr caps)"

definition mergeProfileQueueFamiliesProperties ::
  "CapabilityFragment \<Rightarrow> VulkanProfileCapabilities \<Rightarrow> error + VulkanProfileCapabilities" where
  "mergeProfileQueueFamiliesProperties data caps =
     (case frag_queueFamiliesProperties data of
        None \<Rightarrow> Inr caps
      | Some qs \<Rightarrow> Inr (caps\<lparr>queueFamiliesProperties := queueFamiliesProperties caps @ qs\<rparr>))"

definition mergeProfileMemoryProperties ::
  "CapabilityFragment \<Rightarrow> VulkanProfileCapabilities \<Rightarrow> error + VulkanProfileCapabilities" where
  "mergeProfileMemoryProperties data caps =
     (if frag_memoryProperties data \<noteq> JNull then
        (case mergeProfileCapData (memoryProperties caps) (frag_memoryProperties data) of
           Inl e \<Rightarrow> Inl e | Inr v \<Rightarrow> Inr (caps\<lparr>memoryProperties := v\<rparr>))
      else Inr caps)"

definition mergeCaps ::
  "VulkanRegistry \<Rightarrow> CapabilityFragment \<Rightarrow> VulkanProfileCapabilities \<Rightarrow> error + VulkanProfileCapabilities" where
  "mergeCaps registry caps self =
     (case mergeProfileExtensions registry caps self of Inl e \<Rightarrow> Inl e | Inr s1 \<Rightarrow>
     (case mergeProfileFeatures caps s1 of Inl e \<Rightarrow> Inl e | Inr s2 \<Rightarrow>
     (case mergeProfileProperties caps s2 of Inl e \<Rightarrow> Inl e | Inr s3 \<Rightarrow>
     (case mergeProfileFormats caps s3 of Inl e \<Rightarrow> Inl e | Inr s4 \<Rightarrow>
     (case mergeProfileQueueFamiliesProperties caps s4 of Inl e \<Rightarrow> Inl e | Inr s5 \<Rightarrow>
      mergeProfileMemoryProperties caps s5)))))"

definition empty_capabilities :: VulkanProfileCapabilities where
  "empty_capabilities =
     \<lparr>cap_extensions = [], instanceExtensions = [], deviceExtensions = [],
      features = JObj [], properties = JObj [], formats = JObj [],
      queueFamiliesProperties = [], memoryProperties = JObj []\<rparr>"

text \<open>
  One capability name of the constructor's loop. The message for a missing capability reads
  \<open>data['name']\<close>, which raises \<open>KeyError\<close> when the profile entry has no such key.
\<close>

definition merge_capability ::
  "VulkanRegistry \<Rightarrow> profile_data \<Rightarrow> (string \<times> CapabilityFragment) list \<Rightarrow> string
     \<Rightarrow> VulkanProfileCapabilities \<Rightarrow> error + VulkanProfileCapabilities" where
  "merge_capability registry data caps capName self =
     (case map_of caps capName of
        Some fragment \<Rightarrow> mergeCaps registry fragment self
      | None \<Rightarrow>
          (case pd_name data of
             None \<Rightarrow> Inl (KeyError ''name'')
           | Some n \<Rightarrow>
               Inl (Log_f [''Capability '' @ quoted capName @ '' needed by profile ''
                           @ quoted n @ '' is missing''])))"

definition VulkanProfileCapabilities_init ::
  "VulkanRegistry \<Rightarrow> profile_data \<Rightarrow> (string \<times> CapabilityFragment) list \<Rightarrow> error + VulkanProfileCapabilities" where
  "VulkanProfileCapabilities_init registry data caps =
     for_each (merge_capability registry data caps) (pd_capabilities data) empty_capabilities"

section \<open>Profiles\<close>

record VulkanProfile =
  profile_name :: string
  profile_version :: int
  apiVersion :: string
  fallback :: "string list option"
  requirements :: "string list"
  capabilities :: VulkanProfileCapabilities

text \<open>
  \<open>collectCompileTimeRequirements\<close>: the name of the registry version whose number is the
  \<open>major.minor\<close> prefix of the API version, then the name of every merged extension. The
  name of a version is the \<open>name\<close> attribute of its feature node; it is formatted into the
  header as it is, so an absent one is carried as \<open>None\<close>.
\<close>

definition require_version :: "VulkanRegistry \<Rightarrow> VulkanProfile \<Rightarrow> error + VulkanProfile" where
  "require_version registry self =
     (case search_api_version (apiVersion self) of
        Some versionNumber \<Rightarrow>
          (case map_of (versions registry) versionNumber of
             Some v \<Rightarrow> Inr (self\<lparr>requirements := requirements self @ [str_opt (version_name v)]\<rparr>)
           | None \<Rightarrow>
               Inl (Log_f [''No version '' @ quoted versionNumber
                           @ '' found in registry required by profile ''
                           @ quoted (profile_name self)]))
      | None \<Rightarrow>
          Inl (Log_f [''Invalid version number '' @ quoted (apiVersion self) @ '' in profile ''
                      @ quoted (profile_name self)]))"

definition require_extension :: "VulkanRegistry \<Rightarrow> string \<Rightarrow> VulkanProfile \<Rightarrow> error + VulkanProfile" where
  "require_extension registry extName self =
     (case map_of (extensions registry) extName of
        Some x \<Rightarrow> Inr (self\<lparr>requirements := requirements self @ [extName]\<rparr>)
      | None \<Rightarrow>
          Inl (Log_f [''Extension '' @ quoted extName @ '' required by profile ''
                      @ quoted (profile_name self) @ '' does not exist'']))"

definition collectCompileTimeRequirements :: "VulkanRegistry \<Rightarrow> VulkanProfile \<Rightarrow> error + VulkanProfile" where
  "collectCompileTimeRequirements registry self =
     (case require_version registry self of
        Inl e \<Rightarrow> Inl e
      | Inr self1 \<Rightarrow>
          for_each (require_extension registry) (map fst (cap_extensions (capabilities self1))) self1)"

text \<open>
  \<open>validateStructDependency\<close>: the struct is registered, and its defining version is at
  most the profile's API version (Python's \<open>\<le>\<close> on the two strings) or one of its defining
  extensions is among the merged extensions. The result is the unit value or the exception.
\<close>

definition validateStructDependency :: "VulkanRegistry \<Rightarrow> VulkanProfile \<Rightarrow> string \<Rightarrow> error + unit" where
  "validateStructDependency registry self structName =
     (case map_of (structs registry) structName of
        Some structDef \<Rightarrow>
          (let depFound =
                 ((case definedByVersion structDef of
                     None \<Rightarrow> False
                   | Some dv \<Rightarrow> dv \<le> apiVersion self)
                  \<or> (\<exists>definedByExtension \<in> set (definedByExtensions structDef).
                        map_of (cap_extensions (capabilities self)) definedByExtension \<noteq> None))
           in if \<not> depFound then
                Inl (Log_f [''Unexpected required struct '' @ quoted structName @ '' in profile ''
                            @ quoted (profile_name self)])
              else Inr ())
      | None \<Rightarrow>
          Inl (Log_f [''Struct '' @ quoted structName @ '' in profile ''
                      @ quoted (profile_name self) @ '' does not exist in the registry'']))"

text \<open>The keys of a dictionary that the merge has built (it is always an object).\<close>

definition keys_of :: "json \<Rightarrow> string list" where
  "keys_of v = (case v of JObj kvs \<Rightarrow> map fst kvs | _ \<Rightarrow> [])"

definition validate_all :: "VulkanRegistry \<Rightarrow> VulkanProfile \<Rightarrow> string list \<Rightarrow> error + unit" where
  "validate_all registry self names =
     for_each (\<lambda>structName u. validateStructDependency registry self structName) names ()"

definition validateStructDependencies :: "VulkanRegistry \<Rightarrow> VulkanProfile \<Rightarrow> error + unit" where
  "validateStructDependencies registry self =
     validate_all registry self
       (keys_of (features (capabilities self))
        @ keys_of (properties (capabilities self))
        @ concat (map (map fst) (queueFamiliesProperties (capabilities self)))
        @ keys_of (memoryProperties (capabilities self)))"

definition validate :: "VulkanRegistry \<Rightarrow> VulkanProfile \<Rightarrow> error + unit" where
  "validate registry self = validateStructDependencies registry self"

definition VulkanProfile_init ::
  "VulkanRegistry \<Rightarrow> string \<Rightarrow> profile_data \<Rightarrow> (string \<times> CapabilityFragment) list \<Rightarrow> error + VulkanProfile" where
  "VulkanProfile_init registry name data caps =
     (case VulkanProfileCapabilities_init registry data caps of
        Inl e \<Rightarrow> Inl e
      | Inr c \<Rightarrow>
          (case collectCompileTimeRequirements registry
                  \<lparr>profile_name = name, profile_version = pd_version data,
                   apiVersion = pd_api_version data, fallback = pd_fallback data,
                   requirements = [], capabilities = c\<rparr> of
             Inl e \<Rightarrow> Inl e
           | Inr self \<Rightarrow>
               (case validate registry self of
                  Inl e \<Rightarrow> Inl e
                | Inr u \<Rightarrow> Inr self)))"

text \<open>
  \<open>gen_extensionData\<close>: the array of the merged extensions whose registry kind is \<open>type\<close>,
  or nothing when there is none.
\<close>

definition gen_extensionData_line :: "VulkanRegistry \<Rightarrow> string \<Rightarrow> string \<times> int \<Rightarrow> error + string" where
  "gen_extensionData_line registry type entry =
     (case entry of (extName, specVer) \<Rightarrow>
        (case map_of (extensions registry) extName of
           None \<Rightarrow> Inl (KeyError extName)
         | Some extInfo \<Rightarrow>
             if ext_type extInfo = Some type then
               Inr (''    VkExtensionProperties{ '' @ upperCaseName extInfo @ ''_EXTENSION_NAME, ''
                    @ str_int specVer @ '' },'' @ [CHR 0x0A])
             else Inr []))"

fun gen_extensionData_lines :: "VulkanRegistry \<Rightarrow> string \<Rightarrow> (string \<times> int) list \<Rightarrow> error + string list" where
  "gen_extensionData_lines registry type [] = Inr []"
| "gen_extensionData_lines registry type (entry # rest) =
     (case gen_extensionData_line registry type entry of
        Inl e \<Rightarrow> Inl e
      | Inr l \<Rightarrow>
          (case gen_extensionData_lines registry type rest of
             Inl e \<Rightarrow> Inl e
           | Inr ls \<Rightarrow> Inr (l # ls)))"

definition gen_extensionData :: "VulkanRegistry \<Rightarrow> VulkanProfile \<Rightarrow> string \<Rightarrow> error + string" where
  "gen_extensionData registry self type =
     (case gen_extensionData_lines registry type (cap_extensions (capabilities self)) of
        Inl e \<Rightarrow> Inl e
      | Inr ls \<Rightarrow>
          if \<exists>l \<in> set ls. l \<noteq> [] then
            Inr ([CHR 0x0A] @ ''static const VkExtensionProperties _'' @ type @ ''Extensions[] = {''
                 @ [CHR 0x0A] @ concat ls @ ''};'' @ [CHR 0x0A])
          else Inr [])"

section \<open>Loading the profiles\<close>

text \<open>
  \<open>parseProfiles\<close> stores every profile entry of a file under its name in the dictionary
  that \<open>loadFromDir\<close> passes from file to file.
\<close>

definition parseProfiles_step ::
  "VulkanRegistry \<Rightarrow> (string \<times> CapabilityFragment) list \<Rightarrow> string \<times> profile_data
     \<Rightarrow> (string \<times> VulkanProfile) list \<Rightarrow> error + (string \<times> VulkanProfile) list" where
  "parseProfiles_step registry caps entry profiles =
     (case entry of (name, data) \<Rightarrow>
        (case VulkanProfile_init registry name data caps of
           Inl e \<Rightarrow> Inl e
         | Inr p \<Rightarrow> Inr (AList.update name p profiles)))"

definition parseProfiles ::
  "VulkanRegistry \<Rightarrow> (string \<times> VulkanProfile) list \<Rightarrow> (string \<times> profile_data) list
     \<Rightarrow> (string \<times> CapabilityFragment) list \<Rightarrow> error + (string \<times> VulkanProfile) list" where
  "parseProfiles registry profiles json caps =
     for_each (parseProfiles_step registry caps) json profiles"

text \<open>
  An entry of the profiles directory, in the order of \<open>os.listdir\<close>: its name, whether it is
  a regular file, and what \<open>json.load\<close> returns for it. \<open>splitext_ext\<close> is the extension
  that \<open>os.path.splitext\<close> gives for a file name: from the last dot on, if a character
  other than a dot comes before it.
\<close>

record dir_entry =
  de_filename :: string
  de_isfile :: bool
  de_json :: profile_file

definition splitext_ext :: "string \<Rightarrow> string" where
  "splitext_ext p =
     (case dropWhile (\<lambda>c. c \<noteq> CHR ''.'') (rev p) of
        [] \<Rightarrow> []
      | d # before \<Rightarrow>
          if \<exists>c \<in> set before. c \<noteq> CHR ''.''
          then CHR ''.'' # rev (takeWhile (\<lambda>c. c \<noteq> CHR ''.'') (rev p))
          else [])"

definition loadFromDir_step ::
  "VulkanRegistry \<Rightarrow> dir_entry \<Rightarrow> (string \<times> VulkanProfile) list \<Rightarrow> error + (string \<times> VulkanProfile) list" where
  "loadFromDir_step registry file profiles =
     (if de_isfile file \<and> splitext_ext (de_filename file) = ''.json''
      then parseProfiles registry profiles (pf_profiles (de_json file)) (pf_capabilities (de_json file))
      else Inr profiles)"

definition loadFromDir :: "VulkanRegistry \<Rightarrow> dir_entry list \<Rightarrow> error + (string \<times> VulkanProfile) list" where
  "loadFromDir registry filenames = for_each (loadFromDir_step registry) filenames []"

section \<open>The emitter\<close>

subsection \<open>Profile definitions of the header\<close>

text \<open>
  The guard of a profile: one \<open>defined(...)\<close> per requirement, the first after \<open>#if\<close>, the
  others indented, joined by \<open>&&\<close> and a line continuation.
\<close>

definition gen_requirement :: "nat \<Rightarrow> nat \<times> string \<Rightarrow> string" where
  "gen_requirement n ir =
     (case ir of (i, requirement) \<Rightarrow>
        (if i = 0 then ''#if '' else ''    '')
        @ ''defined('' @ requirement @ '')''
        @ (if int i < int n - 1 then '' && '' @ [CHR 0x5C, CHR 0x0A] else [CHR 0x0A]))"

text \<open>
  The block of one profile. \<open>name.upper()\<close> is the method of Python's strings, which maps
  every character that has an upper case in Unicode; the emitter takes it as the parameter
  \<open>str_upper\<close>.
\<close>

definition gen_profileDef :: "(string \<Rightarrow> string) \<Rightarrow> string \<times> VulkanProfile \<Rightarrow> string" where
  "gen_profileDef str_upper entry =
     (case entry of (name, profile) \<Rightarrow>
        (let uname = str_upper name in
         [CHR 0x0A]
         @ concat (map (gen_requirement (length (requirements profile)))
                       (enumerate 0 (requirements profile)))
         @ ''#define '' @ name @ '' 1'' @ [CHR 0x0A]
         @ ''#define '' @ uname @ ''_NAME '' @ [CHR 0x22] @ name @ [CHR 0x22, CHR 0x0A]
         @ ''#define '' @ uname @ ''_SPEC_VERSION '' @ str_int (profile_version profile) @ [CHR 0x0A]
         @ ''#define '' @ uname @ ''_MIN_API_VERSION VK_MAKE_VERSION(''
             @ replace_dot (apiVersion profile) @ '')'' @ [CHR 0x0A]
         @ (if requirements profile \<noteq> [] then ''#endif'' @ [CHR 0x0A] else [])))"

definition gen_profileDefs :: "(string \<Rightarrow> string) \<Rightarrow> (string \<times> VulkanProfile) list \<Rightarrow> string" where
  "gen_profileDefs str_upper profiles = concat (map (gen_profileDef str_upper) profiles)"

subsection \<open>The comparison synthesizer\<close>

text \<open>
  The format strings of the predicates, and \<open>comparePredFmt\<close>, which is one format string
  or, for \<open>range\<close>, the list of two.
\<close>

datatype pred_fmt = Fmt_bitmask | Fmt_ge | Fmt_le | Fmt_eq

fun pred_format :: "pred_fmt \<Rightarrow> string \<Rightarrow> string \<Rightarrow> string" where
  "pred_format Fmt_bitmask d p = ''(('' @ d @ '' & '' @ p @ '') == '' @ p @ '')''"
| "pred_format Fmt_ge d p = ''('' @ d @ '' >= '' @ p @ '')''"
| "pred_format Fmt_le d p = ''('' @ d @ '' <= '' @ p @ '')''"
| "pred_format Fmt_eq d p = ''('' @ d @ '' == '' @ p @ '')''"

datatype compare_fmt = Str_fmt pred_fmt | List_fmt "pred_fmt list"

text \<open>\<open>fmt.format(x)\<close> for a format string \<open>fmt\<close> given by the text before and after \<open>{0}\<close>.\<close>

definition fmt_format :: "string \<times> string \<Rightarrow> string \<Rightarrow> string" where
  "fmt_format fmt x = fst fmt @ x @ snd fmt"

definition select_comparePredFmt :: "string option \<Rightarrow> string \<Rightarrow> VulkanStruct \<Rightarrow> error + compare_fmt" where
  "select_comparePredFmt lt member structDef =
     (if lt = Some ''bitmask'' then Inr (Str_fmt Fmt_bitmask)
      else if lt = Some ''max'' then Inr (Str_fmt Fmt_ge)
      else if lt = Some ''min'' then Inr (Str_fmt Fmt_le)
      else if lt = Some ''range'' then Inr (List_fmt [Fmt_le, Fmt_ge])
      else if lt = None \<or> lt = Some ''noauto'' \<or> lt = Some ''struct'' then Inr (Str_fmt Fmt_eq)
      else Inl (Log_f [''Unsupported limittype '' @ quoted (str_opt lt) @ '' in member ''
                       @ quoted member @ '' of structure '' @ quoted (struct_name structDef)]))"

text \<open>\<open>comparePredFmt.format(d, p)\<close>: a list has no method \<open>format\<close>.\<close>

definition format_direct :: "compare_fmt \<Rightarrow> string \<Rightarrow> string \<Rightarrow> error + string" where
  "format_direct cf d p =
     (case cf of Str_fmt f \<Rightarrow> Inr (pred_format f d p) | List_fmt fs \<Rightarrow> Inl AttributeError)"

text \<open>
  The predicate of index \<open>i\<close> of an array member: \<open>comparePredFmt[i]\<close> when the limittype is
  \<open>range\<close> (an index beyond the list raises \<open>IndexError\<close>), \<open>comparePredFmt\<close> otherwise.
\<close>

definition format_index ::
  "string option \<Rightarrow> compare_fmt \<Rightarrow> string \<times> string \<Rightarrow> string \<Rightarrow> string \<Rightarrow> string \<Rightarrow> nat \<Rightarrow> error + string" where
  "format_index lt cf fmt deviceVar profileVar member i =
     (let d = deviceVar @ member @ ''['' @ str_nat i @ '']'';
          p = profileVar @ member @ ''['' @ str_nat i @ '']''
      in if lt = Some ''range'' then
           (case cf of
              List_fmt fs \<Rightarrow>
                if i < length fs then Inr (fmt_format fmt (pred_format (fs ! i) d p))
                else Inl IndexError
            | Str_fmt f \<Rightarrow> Inl TypeError)
         else
           (case format_direct cf d p of Inl e \<Rightarrow> Inl e | Inr t \<Rightarrow> Inr (fmt_format fmt t)))"

fun format_indices ::
  "string option \<Rightarrow> compare_fmt \<Rightarrow> string \<times> string \<Rightarrow> string \<Rightarrow> string \<Rightarrow> string \<Rightarrow> nat list \<Rightarrow> error + string" where
  "format_indices lt cf fmt deviceVar profileVar member [] = Inr []"
| "format_indices lt cf fmt deviceVar profileVar member (i # rest) =
     (case format_index lt cf fmt deviceVar profileVar member i of
        Inl e \<Rightarrow> Inl e
      | Inr t \<Rightarrow>
          (case format_indices lt cf fmt deviceVar profileVar member rest of
             Inl e \<Rightarrow> Inl e
           | Inr ts \<Rightarrow> Inr (t @ ts)))"

text \<open>
  \<open>gen_compareStructVar\<close> over the items of the dictionary \<open>values\<close>. The text of a member
  is appended to the text of the members before it; an exception ends the run.
\<close>

fun gen_compareStructVar ::
  "VulkanRegistry \<Rightarrow> string \<times> string \<Rightarrow> VulkanStruct \<Rightarrow> string \<Rightarrow> string \<Rightarrow> (string \<times> json) list
     \<Rightarrow> error + string" where
  "gen_compareStructVar registry fmt structDef deviceVar profileVar [] = Inr []"
| "gen_compareStructVar registry fmt structDef deviceVar profileVar ((member, value) # rest) =
     (case map_of (members_of registry structDef) member of
        None \<Rightarrow>
          Inl (Log_f [''No member '' @ quoted member @ '' in structure ''
                      @ quoted (struct_name structDef)])
      | Some md \<Rightarrow>
          if limittype md = Some ''IGNORE'' then
            gen_compareStructVar registry fmt structDef deviceVar profileVar rest
          else
            (case select_comparePredFmt (limittype md) member structDef of
               Inl e \<Rightarrow> Inl e
             | Inr comparePredFmt \<Rightarrow>
                 (case (case value of
                          JObj nested \<Rightarrow>
                            (case map_of (structs registry) (member_type md) of
                               Some memberDef \<Rightarrow>
                                 gen_compareStructVar registry fmt memberDef
                                   (deviceVar @ member @ ''.'') (profileVar @ member @ ''.'') nested
                             | None \<Rightarrow>
                                 Inl (Log_f [''Member '' @ quoted member @ '' in structure ''
                                             @ quoted (struct_name structDef) @ '' is not a struct'']))
                        | JList vs \<Rightarrow>
                            if isArray md then
                              format_indices (limittype md) comparePredFmt fmt deviceVar profileVar
                                member [0 ..< length vs]
                            else
                              (case format_direct comparePredFmt (deviceVar @ member)
                                      (profileVar @ member) of
                                 Inl e \<Rightarrow> Inl e | Inr t \<Rightarrow> Inr (fmt_format fmt t))
                        | _ \<Rightarrow>
                            (case format_direct comparePredFmt (deviceVar @ member)
                                    (profileVar @ member) of
                               Inl e \<Rightarrow> Inl e | Inr t \<Rightarrow> Inr (fmt_format fmt t))) of
                    Inl e \<Rightarrow> Inl e
                  | Inr gen \<Rightarrow>
                      (case gen_compareStructVar registry fmt structDef deviceVar profileVar rest of
                         Inl e \<Rightarrow> Inl e
                       | Inr gen' \<Rightarrow> Inr (gen @ gen')))))"

section \<open>Concrete inputs\<close>

text \<open>
  What \<open>s.upper()\<close> returns for a string of ASCII characters: the letters a to z become
  A to Z and every other ASCII character is kept. It is the \<open>str_upper\<close> of the examples,
  whose profile names are ASCII.
\<close>

definition ascii_upper_char :: "char \<Rightarrow> char" where
  "ascii_upper_char c =
     (case map_of (zip ''abcdefghijklmnopqrstuvwxyz'' ''ABCDEFGHIJKLMNOPQRSTUVWXYZ'') c of
        None \<Rightarrow> c | Some u \<Rightarrow> u)"

definition ascii_upper :: "string \<Rightarrow> string" where
  "ascii_upper s = map ascii_upper_char s"

text \<open>A registry document whose only feature node has the number \<open>1.0.0\<close>.\<close>

definition xml_bad_number :: xml_registry where
  "xml_bad_number =
     \<lparr>xml_platforms = [],
      xml_features = [\<lparr>feature_name = Some ''VK_VERSION_1_0'', feature_number = Some ''1.0.0'',
                       feature_enums = [], feature_types = []\<rparr>],
      xml_extensions = [], xml_types = []\<rparr>"

section \<open>Predicates of the claims\<close>

text \<open>
  An API version string that is exactly a \<open>major.minor\<close> pair: digits, a dot, digits, and
  nothing after them.
\<close>

definition bare_major_minor :: "string \<Rightarrow> bool" where
  "bare_major_minor s =
     (takeWhile is_digit s \<noteq> [] \<and>
      (case dropWhile is_digit s of
         [] \<Rightarrow> False
       | d # ds \<Rightarrow> d = CHR ''.'' \<and> ds \<noteq> [] \<and> list_all is_digit ds))"

text \<open>A profile entry with the API version \<open>1.2\<close> and no capabilities.\<close>

definition data_bare_version :: profile_data where
  "data_bare_version =
     \<lparr>pd_name = None, pd_version = 1, pd_api_version = ''1.2'', pd_fallback = None,
      pd_capabilities = []\<rparr>"

text \<open>
  A profile entry with the API version \<open>1.2\<close> that names the capability \<open>baseline\<close>; as
  in the profile files, the entry has no \<open>name\<close> key.
\<close>

definition data_bare_version_baseline :: profile_data where
  "data_bare_version_baseline =
     \<lparr>pd_name = None, pd_version = 1, pd_api_version = ''1.2'', pd_fallback = None,
      pd_capabilities = [''baseline'']\<rparr>"

text \<open>
  A small registry: the core versions 1.0 and 1.2, an instance extension, a device
  extension and an extension whose node has no \<open>type\<close> attribute.
\<close>

definition registry_example :: VulkanRegistry where
  "registry_example =
     \<lparr>platforms = [],
      versions =
        [(''1.0'', \<lparr>version_name = Some ''VK_VERSION_1_0'', version_number = Some ''1.0'',
                    version_sTypeAliases = []\<rparr>),
         (''1.2'', \<lparr>version_name = Some ''VK_VERSION_1_2'', version_number = Some ''1.2'',
                    version_sTypeAliases = []\<rparr>)],
      extensions =
        [(''VK_KHR_surface'',
            \<lparr>ext_name = ''VK_KHR_surface'', upperCaseName = ''VK_KHR_SURFACE'',
             ext_type = Some ''instance'', ext_platform = None, ext_sTypeAliases = []\<rparr>),
         (''VK_KHR_swapchain'',
            \<lparr>ext_name = ''VK_KHR_swapchain'', upperCaseName = ''VK_KHR_SWAPCHAIN'',
             ext_type = Some ''device'', ext_platform = None, ext_sTypeAliases = []\<rparr>),
         (''VK_EXT_untyped'',
            \<lparr>ext_name = ''VK_EXT_untyped'', upperCaseName = ''VK_EXT_UNTYPED'',
             ext_type = None, ext_platform = None, ext_sTypeAliases = []\<rparr>)],
      structs = [], member_dicts = (\<lambda>a. []), alias_lists = (\<lambda>a. [])\<rparr>"

text \<open>
  Two profile files, \<open>a.json\<close> and \<open>b.json\<close>, that both define the profile \<open>VP_test\<close>
  for the API version \<open>1.2.0\<close>, without capabilities, as version 1 and as version 2; and
  the profile they resolve to.
\<close>

definition data_v :: "int \<Rightarrow> profile_data" where
  "data_v n = \<lparr>pd_name = None, pd_version = n, pd_api_version = ''1.2.0'', pd_fallback = None,
               pd_capabilities = []\<rparr>"

definition file_a :: dir_entry where
  "file_a = \<lparr>de_filename = ''a.json'', de_isfile = True,
             de_json = \<lparr>pf_profiles = [(''VP_test'', data_v 1)], pf_capabilities = []\<rparr>\<rparr>"

definition file_b :: dir_entry where
  "file_b = \<lparr>de_filename = ''b.json'', de_isfile = True,
             de_json = \<lparr>pf_profiles = [(''VP_test'', data_v 2)], pf_capabilities = []\<rparr>\<rparr>"

definition profile_v :: "int \<Rightarrow> VulkanProfile" where
  "profile_v n = \<lparr>profile_name = ''VP_test'', profile_version = n, apiVersion = ''1.2.0'',
                    fallback = None, requirements = [''VK_VERSION_1_2''],
                    capabilities = empty_capabilities\<rparr>"

text \<open>
  An extension that the registry does not have, or whose kind there is neither \<open>instance\<close>
  nor \<open>device\<close>.
\<close>

definition unclassifiable :: "VulkanRegistry \<Rightarrow> string \<Rightarrow> bool" where
  "unclassifiable registry extName =
     (case map_of (extensions registry) extName of
        None \<Rightarrow> True
      | Some x \<Rightarrow> ext_type x \<noteq> Some ''instance'' \<and> ext_type x \<noteq> Some ''device'')"

text \<open>
  The invariant of the three extension dictionaries of a profile: what is in the instance
  dictionary is an instance extension of the registry, what is in the device dictionary is a
  device extension, and every merged extension is in one of the two.
\<close>

definition classified :: "VulkanRegistry \<Rightarrow> VulkanProfileCapabilities \<Rightarrow> bool" where
  "classified registry c =
     (\<forall>n. (map_of (instanceExtensions c) n \<noteq> None
             \<longrightarrow> (\<exists>x. map_of (extensions registry) n = Some x \<and> ext_type x = Some ''instance''))
        \<and> (map_of (deviceExtensions c) n \<noteq> None
             \<longrightarrow> (\<exists>x. map_of (extensions registry) n = Some x \<and> ext_type x = Some ''device''))
        \<and> (map_of (cap_extensions c) n \<noteq> None
             \<longrightarrow> map_of (instanceExtensions c) n \<noteq> None \<or> map_of (deviceExtensions c) n \<noteq> None))"

text \<open>
  A fragment that only declares extensions, a profile entry that refers to the fragment
  \<open>baseline\<close>, a pool where \<open>baseline\<close> declares \<open>VK_KHR_swapchain\<close> and
  \<open>VK_KHR_surface\<close>, and the capabilities and the profile that result.
\<close>

definition fragment_extensions :: "(string \<times> int) list \<Rightarrow> CapabilityFragment" where
  "fragment_extensions exts =
     \<lparr>frag_extensions = Some exts, frag_features = JNull, frag_properties = JNull,
      frag_formats = JNull, frag_queueFamiliesProperties = None, frag_memoryProperties = JNull\<rparr>"

definition data_baseline :: profile_data where
  "data_baseline = \<lparr>pd_name = None, pd_version = 1, pd_api_version = ''1.2.0'', pd_fallback = None,
              pd_capabilities = [''baseline'']\<rparr>"

definition caps_swapchain :: "(string \<times> CapabilityFragment) list" where
  "caps_swapchain =
     [(''baseline'', fragment_extensions [(''VK_KHR_swapchain'', 70), (''VK_KHR_surface'', 25)])]"

definition capabilities_swapchain :: VulkanProfileCapabilities where
  "capabilities_swapchain =
        \<lparr>cap_extensions = [(''VK_KHR_swapchain'', 70), (''VK_KHR_surface'', 25)],
         instanceExtensions = [(''VK_KHR_surface'', 25)],
         deviceExtensions = [(''VK_KHR_swapchain'', 70)],
         features = JObj [], properties = JObj [], formats = JObj [],
         queueFamiliesProperties = [], memoryProperties = JObj []\<rparr>"

definition profile_swapchain :: VulkanProfile where
  "profile_swapchain =
     \<lparr>profile_name = ''VP_test'', profile_version = 1, apiVersion = ''1.2.0'', fallback = None,
      requirements = [''VK_VERSION_1_2'', ''VK_KHR_swapchain'', ''VK_KHR_surface''],
      capabilities = capabilities_swapchain\<rparr>"

text \<open>
  The order of versions as numbers, for the claim that a struct's defining version is at
  most the API version of the profile: the \<open>major.minor\<close> prefix of each string is read as
  a pair of numbers, and the pairs are compared by major, then minor.
\<close>

definition digit_value :: "char \<Rightarrow> nat" where
  "digit_value c = (case map_of (zip ''0123456789'' [0, 1, 2, 3, 4, 5, 6, 7, 8, 9]) c of None \<Rightarrow> 0 | Some d \<Rightarrow> d)"

definition digits_value :: "string \<Rightarrow> nat" where
  "digits_value s = foldl (\<lambda>n c. 10 * n + digit_value c) 0 s"

definition version_pair :: "string \<Rightarrow> (nat \<times> nat) option" where
  "version_pair s =
     (case dropWhile is_digit s of
        [] \<Rightarrow> None
      | d # rest \<Rightarrow>
          if d = CHR ''.'' \<and> takeWhile is_digit s \<noteq> [] \<and> takeWhile is_digit rest \<noteq> []
          then Some (digits_value (takeWhile is_digit s), digits_value (takeWhile is_digit rest))
          else None)"

definition version_at_most :: "string \<Rightarrow> string \<Rightarrow> bool" where
  "version_at_most v w =
     (case version_pair v of
        None \<Rightarrow> False
      | Some (a, b) \<Rightarrow>
          (case version_pair w of
             None \<Rightarrow> False
           | Some (c, d) \<Rightarrow> a < c \<or> (a = c \<and> b \<le> d)))"

text \<open>
  A registry with the core versions 1.2 and 1.10, where version 1.10 defines a feature
  struct; a fragment that requires a feature of that struct; and the profile that the entry
  \<open>data_baseline\<close> (API version \<open>1.2.0\<close>) resolves to with this fragment as \<open>baseline\<close>.
\<close>

definition registry_future :: VulkanRegistry where
  "registry_future =
     \<lparr>platforms = [],
      versions =
        [(''1.2'', \<lparr>version_name = Some ''VK_VERSION_1_2'', version_number = Some ''1.2'',
                    version_sTypeAliases = []\<rparr>),
         (''1.10'', \<lparr>version_name = Some ''VK_VERSION_1_10'', version_number = Some ''1.10'',
                    version_sTypeAliases = []\<rparr>)],
      extensions = [],
      structs =
        [(''VkPhysicalDeviceVulkan110Features'',
            \<lparr>struct_name = ''VkPhysicalDeviceVulkan110Features'',
             sType = Some ''VK_STRUCTURE_TYPE_PHYSICAL_DEVICE_VULKAN_1_10_FEATURES'',
             extends = [''VkPhysicalDeviceFeatures2'', ''VkDeviceCreateInfo''],
             members = ''VkPhysicalDeviceVulkan110Features'',
             aliases = ''VkPhysicalDeviceVulkan110Features'',
             definedByVersion = Some ''1.10'', definedByExtensions = []\<rparr>)],
      member_dicts =
        (\<lambda>a. if a = ''VkPhysicalDeviceVulkan110Features''
             then [(''newFeature'',
                     \<lparr>member_name = ''newFeature'', member_type = ''VkBool32'',
                      limittype = None, isArray = False\<rparr>)]
             else []),
      alias_lists =
        (\<lambda>a. if a = ''VkPhysicalDeviceVulkan110Features''
             then [''VkPhysicalDeviceVulkan110Features''] else [])\<rparr>"

definition fragment_future :: CapabilityFragment where
  "fragment_future =
     \<lparr>frag_extensions = None,
      frag_features =
        JObj [(''VkPhysicalDeviceVulkan110Features'', JObj [(''newFeature'', JBool True)])],
      frag_properties = JNull, frag_formats = JNull, frag_queueFamiliesProperties = None,
      frag_memoryProperties = JNull\<rparr>"

definition profile_future :: VulkanProfile where
  "profile_future =
     \<lparr>profile_name = ''VP_test'', profile_version = 1, apiVersion = ''1.2.0'', fallback = None,
      requirements = [''VK_VERSION_1_2''],
      capabilities =
        \<lparr>cap_extensions = [], instanceExtensions = [], deviceExtensions = [],
         features =
           JObj [(''VkPhysicalDeviceVulkan110Features'', JObj [(''newFeature'', JBool True)])],
         properties = JObj [], formats = JObj [], queueFamiliesProperties = [],
         memoryProperties = JObj []\<rparr>\<rparr>"

text \<open>
  Two fragments that set the same member of \<open>VkPhysicalDeviceLimits\<close>, the first to a
  number and the second to a list, and a profile entry that merges them in this order.
\<close>

definition fragment_properties :: "json \<Rightarrow> CapabilityFragment" where
  "fragment_properties v =
     \<lparr>frag_extensions = None, frag_features = JNull, frag_properties = v,
      frag_formats = JNull, frag_queueFamiliesProperties = None, frag_memoryProperties = JNull\<rparr>"

definition caps_scalar_then_list :: "(string \<times> CapabilityFragment) list" where
  "caps_scalar_then_list =
     [(''first'', fragment_properties
         (JObj [(''VkPhysicalDeviceLimits'', JObj [(''maxViewportDimensions'', JInt 4096)])])),
      (''second'', fragment_properties
         (JObj [(''VkPhysicalDeviceLimits'',
                  JObj [(''maxViewportDimensions'', JList [JInt 4096, JInt 4096])])]))]"

definition data_two_fragments :: profile_data where
  "data_two_fragments =
     \<lparr>pd_name = None, pd_version = 1, pd_api_version = ''1.2.0'', pd_fallback = None,
      pd_capabilities = [''first'', ''second'']\<rparr>"

text \<open>
  For the workarounds: member \<open>m\<close> of struct \<open>s\<close> exists and has the limittype \<open>lt\<close>;
  and the \<open>members\<close> dictionaries at the addresses \<open>A\<close> patched by the second part of
  the pass.
\<close>

definition has_limittype :: "VulkanRegistry \<Rightarrow> string \<times> string \<times> string \<Rightarrow> bool" where
  "has_limittype reg w =
     (case w of (s, m, lt) \<Rightarrow>
        (case map_of (structs reg) s of
           None \<Rightarrow> False
         | Some sd \<Rightarrow>
             (case map_of (members_of reg sd) m of
                None \<Rightarrow> False
              | Some md \<Rightarrow> limittype md = Some lt)))"

definition patch_dicts ::
  "string set \<Rightarrow> (string \<Rightarrow> (string \<times> VulkanStructMember) list)
     \<Rightarrow> (string \<Rightarrow> (string \<times> VulkanStructMember) list)" where
  "patch_dicts A h = (\<lambda>a. if a \<in> A then patch_members (h a) else h a)"

text \<open>
  A registry document with the three structs that the workarounds name: the limits with
  the members of the table, a \<open>VkBool32\<close> member and a flags member that the registry
  both declares as \<open>bitmask\<close>; the Vulkan 1.1 properties; the portability subset properties,
  defined by an extension.
\<close>

definition xml_member_of :: "string \<Rightarrow> string \<Rightarrow> string option \<Rightarrow> xml_member" where
  "xml_member_of type name lt =
     \<lparr>xm_name = name, xm_tail = None, xm_type = type, xm_limittype = lt, xm_values = None\<rparr>"

definition xml_limits :: xml_registry where
  "xml_limits =
     \<lparr>xml_platforms = [],
      xml_features =
        [\<lparr>feature_name = Some ''VK_VERSION_1_0'', feature_number = Some ''1.0'',
          feature_enums = [], feature_types = [Some ''VkPhysicalDeviceLimits'']\<rparr>,
         \<lparr>feature_name = Some ''VK_VERSION_1_2'', feature_number = Some ''1.2'',
          feature_enums = [], feature_types = [Some ''VkPhysicalDeviceVulkan11Properties'']\<rparr>],
      xml_extensions =
        [\<lparr>extension_name = ''VK_KHR_portability_subset'', extension_supported = Some ''vulkan'',
          extension_type = Some ''device'', extension_platform = None,
          extension_enums =
            [\<lparr>enum_name = Some ''VK_KHR_PORTABILITY_SUBSET_EXTENSION_NAME'',
              enum_value = Some (CHR 0x22 # ''VK_KHR_portability_subset'' @ [CHR 0x22]),
              enum_alias = None\<rparr>],
          extension_types = [Some ''VkPhysicalDevicePortabilitySubsetPropertiesKHR'']\<rparr>],
      xml_types =
        [\<lparr>xt_name = ''VkPhysicalDeviceLimits'', xt_alias = None, xt_structextends = None,
          xt_members =
            [xml_member_of ''VkDeviceSize'' ''bufferImageGranularity'' (Some ''noauto''),
             xml_member_of ''uint32_t'' ''subPixelPrecisionBits'' (Some ''noauto''),
             xml_member_of ''uint32_t'' ''subTexelPrecisionBits'' (Some ''noauto''),
             xml_member_of ''uint32_t'' ''mipmapPrecisionBits'' (Some ''noauto''),
             xml_member_of ''uint32_t'' ''viewportSubPixelBits'' (Some ''noauto''),
             xml_member_of ''size_t'' ''minMemoryMapAlignment'' (Some ''noauto''),
             xml_member_of ''VkDeviceSize'' ''minTexelBufferOffsetAlignment'' (Some ''noauto''),
             xml_member_of ''VkDeviceSize'' ''minUniformBufferOffsetAlignment'' (Some ''noauto''),
             xml_member_of ''VkDeviceSize'' ''minStorageBufferOffsetAlignment'' (Some ''noauto''),
             xml_member_of ''uint32_t'' ''subPixelInterpolationOffsetBits'' (Some ''noauto''),
             xml_member_of ''float'' ''timestampPeriod'' None,
             xml_member_of ''VkDeviceSize'' ''nonCoherentAtomSize'' (Some ''noauto''),
             xml_member_of ''uint32_t'' ''maxColorAttachments'' (Some ''bitmask''),
             xml_member_of ''float'' ''pointSizeGranularity'' (Some ''noauto''),
             xml_member_of ''float'' ''lineWidthGranularity'' (Some ''noauto''),
             xml_member_of ''VkBool32'' ''standardSampleLocations'' (Some ''bitmask''),
             xml_member_of ''VkSampleCountFlags'' ''framebufferColorSampleCounts'' (Some ''bitmask'')]\<rparr>,
         \<lparr>xt_name = ''VkPhysicalDeviceVulkan11Properties'', xt_alias = None,
          xt_structextends = Some ''VkPhysicalDeviceProperties2'',
          xt_members =
            [\<lparr>xm_name = ''sType'', xm_tail = None, xm_type = ''VkStructureType'',
              xm_limittype = None,
              xm_values = Some ''VK_STRUCTURE_TYPE_PHYSICAL_DEVICE_VULKAN_1_1_PROPERTIES''\<rparr>,
             xml_member_of ''void'' ''pNext'' None,
             xml_member_of ''uint32_t'' ''subgroupSize'' (Some ''noauto'')]\<rparr>,
         \<lparr>xt_name = ''VkPhysicalDevicePortabilitySubsetPropertiesKHR'', xt_alias = None,
          xt_structextends = Some ''VkPhysicalDeviceProperties2'',
          xt_members =
            [xml_member_of ''uint32_t'' ''minVertexInputBindingStrideAlignment'' (Some ''noauto'')]\<rparr>]\<rparr>"

text \<open>
  The table of the comparison synthesizer, as the specification has it: the limittypes it
  lists (\<open>None\<close> is an absent limittype), those that select one predicate, and the
  predicate they select for a device expression and a profile expression. \<open>then_rest\<close>
  puts the text of a member before the text of the members after it.
\<close>

definition table_limittype :: "string option \<Rightarrow> bool" where
  "table_limittype lt =
     (lt = Some ''IGNORE'' \<or> lt = Some ''bitmask'' \<or> lt = Some ''max'' \<or> lt = Some ''min''
      \<or> lt = Some ''range'' \<or> lt = Some ''noauto'' \<or> lt = Some ''struct'' \<or> lt = None)"

definition table_single :: "string option \<Rightarrow> bool" where
  "table_single lt =
     (lt = Some ''bitmask'' \<or> lt = Some ''max'' \<or> lt = Some ''min''
      \<or> lt = Some ''noauto'' \<or> lt = Some ''struct'' \<or> lt = None)"

definition table_predicate :: "string option \<Rightarrow> string \<Rightarrow> string \<Rightarrow> string" where
  "table_predicate lt device profile =
     (if lt = Some ''bitmask'' then ''(('' @ device @ '' & '' @ profile @ '') == '' @ profile @ '')''
      else if lt = Some ''max'' then ''('' @ device @ '' >= '' @ profile @ '')''
      else if lt = Some ''min'' then ''('' @ device @ '' <= '' @ profile @ '')''
      else ''('' @ device @ '' == '' @ profile @ '')'')"

definition then_rest :: "string \<Rightarrow> error + string \<Rightarrow> error + string" where
  "then_rest gen r = (case r of Inl e \<Rightarrow> Inl e | Inr gen' \<Rightarrow> Inr (gen @ gen'))"

text \<open>
  A synthetic struct with one member for each limittype of the table, a member of struct
  type, an array member and a member with a limittype that the table does not have; the
  format of a line; and values for the members \<open>mBitmask\<close> to \<open>mIgnore\<close>.
\<close>

definition member_of :: "string \<Rightarrow> string \<Rightarrow> string option \<Rightarrow> bool \<Rightarrow> string \<times> VulkanStructMember" where
  "member_of type name lt arr =
     (name, \<lparr>member_name = name, member_type = type, limittype = lt, isArray = arr\<rparr>)"

definition struct_synthetic :: VulkanStruct where
  "struct_synthetic =
     \<lparr>struct_name = ''VkSynthetic'', sType = None, extends = [], members = ''VkSynthetic'',
      aliases = ''VkSynthetic'', definedByVersion = Some ''1.0'', definedByExtensions = []\<rparr>"

definition struct_nested :: VulkanStruct where
  "struct_nested =
     \<lparr>struct_name = ''VkNested'', sType = None, extends = [], members = ''VkNested'',
      aliases = ''VkNested'', definedByVersion = Some ''1.0'', definedByExtensions = []\<rparr>"

definition registry_synthetic :: VulkanRegistry where
  "registry_synthetic =
     \<lparr>platforms = [],
      versions = [(''1.0'', \<lparr>version_name = Some ''VK_VERSION_1_0'', version_number = Some ''1.0'',
                             version_sTypeAliases = []\<rparr>)],
      extensions = [],
      structs = [(''VkSynthetic'', struct_synthetic), (''VkNested'', struct_nested)],
      member_dicts =
        (\<lambda>a. if a = ''VkSynthetic'' then
               [member_of ''VkFlags'' ''mBitmask'' (Some ''bitmask'') False,
                member_of ''uint32_t'' ''mMax'' (Some ''max'') False,
                member_of ''uint32_t'' ''mMin'' (Some ''min'') False,
                member_of ''float'' ''mRange'' (Some ''range'') True,
                member_of ''VkBool32'' ''mEq'' (Some ''noauto'') False,
                member_of ''float'' ''mIgnore'' (Some ''IGNORE'') False,
                member_of ''VkNested'' ''mNested'' (Some ''struct'') False,
                member_of ''uint32_t'' ''mArray'' (Some ''max'') True,
                member_of ''uint32_t'' ''mPlain'' None False,
                member_of ''uint32_t'' ''mOther'' (Some ''exact'') False]
             else if a = ''VkNested'' then [member_of ''uint32_t'' ''x'' (Some ''max'') False]
             else []),
      alias_lists =
        (\<lambda>a. if a = ''VkSynthetic'' then [''VkSynthetic'']
             else if a = ''VkNested'' then [''VkNested''] else [])\<rparr>"

definition fmt_supported :: "string \<times> string" where
  "fmt_supported = (''ok = ok && '', '';'' @ [CHR 0x0A])"

definition values_synthetic :: "(string \<times> json) list" where
  "values_synthetic =
     [(''mBitmask'', JInt 3), (''mMax'', JInt 16), (''mMin'', JInt 4),
      (''mRange'', JList [JFloat ''1.0'', JFloat ''64.0'']),
      (''mEq'', JBool True), (''mIgnore'', JFloat ''0.5'')]"

text \<open>
  The names that the struct type nodes declare as aliases; and the order of the alias
  declarations in which every alias is declared after the aliases it depends on: an alias
  is not its own target, and neither its name nor its target is declared as an alias by a
  later node.
\<close>

definition declared_aliases :: "xml_type list \<Rightarrow> string list" where
  "declared_aliases ts = map xt_name (filter (\<lambda>t. xt_alias t \<noteq> None) ts)"

fun aliases_in_order :: "xml_type list \<Rightarrow> bool" where
  "aliases_in_order [] = True"
| "aliases_in_order (t # ts) =
     ((case xt_alias t of
         None \<Rightarrow> True
       | Some a \<Rightarrow>
           a \<noteq> xt_name t \<and> xt_name t \<notin> set (declared_aliases ts)
           \<and> a \<notin> set (declared_aliases ts))
      \<and> aliases_in_order ts)"

text \<open>
  What \<open>parseAliases\<close> does for the alias \<open>name\<close> of \<open>alias\<close>, between the registry
  \<open>reg\<close> before and the registry \<open>reg'\<close> after: both structs are registered, the alias
  has the \<open>members\<close>, \<open>aliases\<close> and \<open>extends\<close> of its target and is in the target's
  list of aliases, and when the target has an \<open>sType\<close> the alias has the alias of that
  \<open>sType\<close> that its version or its extensions declare.
\<close>

definition alias_resolved :: "VulkanRegistry \<Rightarrow> VulkanRegistry \<Rightarrow> string \<Rightarrow> string \<Rightarrow> bool" where
  "alias_resolved reg reg' name alias =
     (\<exists>base al al0.
        map_of (structs reg') alias = Some base
        \<and> map_of (structs reg') name = Some al
        \<and> map_of (structs reg) name = Some al0
        \<and> members al = members base \<and> aliases al = aliases base \<and> extends al = extends base
        \<and> name \<in> set (alias_lists reg' (aliases base))
        \<and> (case sType base of
             None \<Rightarrow> sType al = sType al0
           | Some st \<Rightarrow> (\<exists>x. find_sTypeAlias reg' al st = Inr (Some x) \<and> sType al = Some x)))"

text \<open>
  Invariants of the struct dictionary. After \<open>parseStructInfo\<close> every struct has its own
  members dictionary and its own list of aliases, which holds its name
  (\<open>fresh_structs\<close>). While the aliases are resolved, every struct is in its list of
  aliases and every name of the list is a struct with the same members dictionary and the
  same list (\<open>alias_closed\<close>), and an alias declared by a node still to come has its own
  list, which no other struct shares (\<open>pending_fresh\<close>).
\<close>

definition fresh_structs :: "VulkanRegistry \<Rightarrow> bool" where
  "fresh_structs r =
     (\<forall>n sd. map_of (structs r) n = Some sd
        \<longrightarrow> members sd = n \<and> aliases sd = n \<and> alias_lists r n = [n])"

definition alias_closed :: "VulkanRegistry \<Rightarrow> bool" where
  "alias_closed r =
     (\<forall>n sd. map_of (structs r) n = Some sd
        \<longrightarrow> n \<in> set (alias_lists r (aliases sd))
            \<and> (\<forall>m \<in> set (alias_lists r (aliases sd)).
                  \<exists>md. map_of (structs r) m = Some md
                        \<and> members md = members sd \<and> aliases md = aliases sd))"

definition pending_fresh :: "VulkanRegistry \<Rightarrow> xml_type list \<Rightarrow> bool" where
  "pending_fresh r ts =
     (\<forall>n sd. n \<in> set (declared_aliases ts) \<longrightarrow> map_of (structs r) n = Some sd
        \<longrightarrow> aliases sd = n \<and> alias_lists r n = [n]
            \<and> (\<forall>n' sd'. map_of (structs r) n' = Some sd' \<longrightarrow> aliases sd' = n \<longrightarrow> n' = n))"

text \<open>
  What the registry holds for a struct name: the list of aliases, the names of the
  members and the \<open>sType\<close>.
\<close>

definition alias_view ::
  "VulkanRegistry \<Rightarrow> string \<Rightarrow> (string list \<times> string list \<times> string option) option" where
  "alias_view reg name =
     map_option (\<lambda>sd. (aliases_of reg sd, map fst (members_of reg sd), sType sd))
       (map_of (structs reg) name)"

text \<open>
  Registry documents with the struct \<open>VkThing\<close> and the extension \<open>VK_KHR_thing\<close>, which
  requires \<open>VkThingKHR\<close> and declares an alias of the \<open>sType\<close> of \<open>VkThing\<close>. In
  \<open>xml_alias\<close>, \<open>VkThingKHR\<close> is an alias of \<open>VkThing\<close>. In \<open>xml_chain\<close>, the node
  that declares \<open>VkThingEXT\<close> as an alias of \<open>VkThingKHR\<close> comes before the node that
  declares \<open>VkThingKHR\<close> as an alias of \<open>VkThing\<close>.
\<close>

definition xml_thing :: xml_type where
  "xml_thing =
     \<lparr>xt_name = ''VkThing'', xt_alias = None, xt_structextends = Some ''VkPhysicalDeviceFeatures2'',
      xt_members =
        [\<lparr>xm_name = ''sType'', xm_tail = None, xm_type = ''VkStructureType'',
          xm_limittype = None, xm_values = Some ''VK_STRUCTURE_TYPE_THING''\<rparr>,
         xml_member_of ''void'' ''pNext'' None,
         xml_member_of ''VkBool32'' ''thing'' None]\<rparr>"

definition xml_alias_of :: "string \<Rightarrow> string \<Rightarrow> xml_type" where
  "xml_alias_of name alias =
     \<lparr>xt_name = name, xt_alias = Some alias, xt_structextends = None, xt_members = []\<rparr>"

definition xml_extension_thing :: xml_extension where
  "xml_extension_thing =
     \<lparr>extension_name = ''VK_KHR_thing'', extension_supported = Some ''vulkan'',
      extension_type = Some ''device'', extension_platform = None,
      extension_enums =
        [\<lparr>enum_name = Some ''VK_KHR_THING_EXTENSION_NAME'',
          enum_value = Some (CHR 0x22 # ''VK_KHR_thing'' @ [CHR 0x22]), enum_alias = None\<rparr>,
         \<lparr>enum_name = Some ''VK_STRUCTURE_TYPE_THING_KHR'', enum_value = None,
          enum_alias = Some ''VK_STRUCTURE_TYPE_THING''\<rparr>],
      extension_types = [Some ''VkThingKHR'']\<rparr>"

definition xml_chain :: xml_registry where
  "xml_chain =
     xml_limits
       \<lparr>xml_extensions := xml_extensions xml_limits @ [xml_extension_thing],
        xml_types :=
          [xml_alias_of ''VkThingEXT'' ''VkThingKHR'', xml_alias_of ''VkThingKHR'' ''VkThing'',
           xml_thing] @ xml_types xml_limits\<rparr>"

definition xml_alias :: xml_registry where
  "xml_alias =
     xml_limits
       \<lparr>xml_extensions := xml_extensions xml_limits @ [xml_extension_thing],
        xml_types := [xml_alias_of ''VkThingKHR'' ''VkThing'', xml_thing] @ xml_types xml_limits\<rparr>"

section \<open>Properties\<close>

subsection \<open>Evaluation of the regular expressions\<close>

lemmas regex_defs =
  search_version_number_def search_api_version_def is_digit_def is_nonzero_digit_def
  at_dollar_def dot_star_dollar_def

lemma for_each_Cons_Inl: "f x s = Inl e \<Longrightarrow> for_each f (x # xs) s = Inl e"
  by simp

subsection \<open>C6: a feature number that is no version\<close>

text \<open>
  C6 says that a top-level feature node whose number does not match
  \<open>^[1-9][0-9]*\.[0-9]+$\<close> makes registry loading fail with the fatal error that carries the
  number. The source calls \<open>Log.f\<close> there with two arguments, so what is raised is the
  \<open>TypeError\<close> of the call, and no fatal error with any message: for every registry whose
  first feature node has such a number, loading ends with \<open>TypeError\<close>.
\<close>

theorem C6_unsupported_number_raises_TypeError:
  assumes "xml_features xml = feature # rest"
    and "feature_number feature = Some number"
    and "\<not> search_version_number number"
  shows "parseVersionInfo_step feature vs = Inl TypeError
         \<and> VulkanRegistry_init xml = Inl TypeError
         \<and> (\<forall>msg. VulkanRegistry_init xml \<noteq> Inl (Fatal msg))"
proof -
  have step: "parseVersionInfo_step feature vs = Inl TypeError" for vs
    using assms(2,3) by (simp add: parseVersionInfo_step_def)
  have "parseVersionInfo xml r = Inl TypeError" for r
    by (simp add: parseVersionInfo_def assms(1) step)
  then have "VulkanRegistry_init xml = Inl TypeError"
    by (simp add: VulkanRegistry_init_def)
  with step show ?thesis by simp
qed

theorem C6_unsupported_number_witness:
  "xml_features xml_bad_number =
     \<lparr>feature_name = Some ''VK_VERSION_1_0'', feature_number = Some ''1.0.0'',
      feature_enums = [], feature_types = []\<rparr> # []
   \<and> \<not> search_version_number ''1.0.0''
   \<and> VulkanRegistry_init xml_bad_number = Inl TypeError"
proof -
  have a: "xml_features xml_bad_number =
     \<lparr>feature_name = Some ''VK_VERSION_1_0'', feature_number = Some ''1.0.0'',
      feature_enums = [], feature_types = []\<rparr> # []"
    by (simp add: xml_bad_number_def)
  have b: "\<not> search_version_number ''1.0.0''"
    by (simp add: regex_defs)
  show ?thesis
    using a b C6_unsupported_number_raises_TypeError [OF a _ b, of "[]"] by simp
qed

subsection \<open>C10: a bare major.minor API version\<close>

lemma nonzero_is_digit: "is_nonzero_digit c \<Longrightarrow> is_digit c"
  by (auto simp: is_nonzero_digit_def is_digit_def)

lemma takeWhile_all: "\<forall>x\<in>set xs. P x \<Longrightarrow> takeWhile P xs = xs"
  by (induction xs) auto

lemma dropWhile_all: "\<forall>x\<in>set xs. P x \<Longrightarrow> dropWhile P xs = []"
  by (induction xs) auto

lemma bare_major_minor_no_match:
  assumes "bare_major_minor s"
  shows "search_api_version s = None"
proof (cases s)
  case Nil
  with assms show ?thesis by (simp add: bare_major_minor_def)
next
  case (Cons c cs)
  show ?thesis
  proof (cases "is_nonzero_digit c")
    case False
    then show ?thesis by (simp add: search_api_version_def Cons)
  next
    case True
    then have d: "is_digit c" by (rule nonzero_is_digit)
    from assms Cons d obtain ds where
      dw: "dropWhile is_digit cs = CHR ''.'' # ds" and ds: "ds \<noteq> []" "list_all is_digit ds"
      by (auto simp: bare_major_minor_def split: list.splits)
    show ?thesis
      using True ds
      by (simp add: search_api_version_def Cons dw takeWhile_all dropWhile_all list_all_iff)
  qed
qed

text \<open>
  The registry's own pattern for version numbers accepts such a string when it starts with
  a digit other than zero.
\<close>

lemma bare_major_minor_is_version:
  assumes "bare_major_minor s" and "is_nonzero_digit (hd s)"
  shows "search_version_number s"
proof (cases s)
  case Nil
  with assms show ?thesis by (simp add: bare_major_minor_def)
next
  case (Cons c cs)
  with assms(2) have nz: "is_nonzero_digit c" by simp
  then have d: "is_digit c" by (rule nonzero_is_digit)
  from assms(1) Cons d obtain ds where
    dw: "dropWhile is_digit cs = CHR ''.'' # ds" and ds: "ds \<noteq> []" "list_all is_digit ds"
    by (auto simp: bare_major_minor_def split: list.splits)
  show ?thesis
    using nz ds
    by (simp add: search_version_number_def Cons dw takeWhile_all dropWhile_all at_dollar_def
          list_all_iff)
qed

text \<open>
  C10 says that every profile whose API version is exactly a \<open>major.minor\<close> pair fails with
  the fatal error for an invalid version number. The constructor merges the capabilities
  before it looks at the version: this profile has the API version \<open>1.2\<close> and names a
  capability that the file's pool does not have, and resolving it ends with
  \<open>KeyError('name')\<close>, raised while the message for the missing capability is formatted.
\<close>

theorem C10_missing_capability_counterexample:
  "bare_major_minor (pd_api_version data_bare_version_baseline)
   \<and> VulkanProfile_init registry_example ''VP_test'' data_bare_version_baseline []
       = Inl (KeyError ''name'')"
  by (simp add: data_bare_version_baseline_def bare_major_minor_def is_digit_def
        VulkanProfile_init_def VulkanProfileCapabilities_init_def merge_capability_def)

text \<open>
  C10 as amended: when the API version of a profile is exactly a \<open>major.minor\<close> pair and
  the capabilities of the profile have been merged without an exception, the resolver's
  pattern, which asks for a character that is no digit after the pair, does not match, and
  resolving the profile ends with the fatal error for an invalid version number.
\<close>

theorem C10_bare_major_minor_is_invalid:
  assumes "bare_major_minor (pd_api_version data)"
    and "VulkanProfileCapabilities_init registry data caps = Inr c"
  shows "search_api_version (pd_api_version data) = None
         \<and> VulkanProfile_init registry name data caps =
             Inl (Fatal (''Invalid version number '' @ quoted (pd_api_version data)
                         @ '' in profile '' @ quoted name))"
  using bare_major_minor_no_match [OF assms(1)] assms(2)
  by (simp add: VulkanProfile_init_def collectCompileTimeRequirements_def require_version_def)

theorem C10_bare_major_minor_witness:
  "bare_major_minor (pd_api_version data_bare_version)
   \<and> pd_api_version data_bare_version = ''1.2''
   \<and> search_version_number ''1.2''
   \<and> VulkanProfileCapabilities_init empty_registry data_bare_version [] = Inr empty_capabilities
   \<and> VulkanProfile_init empty_registry ''VP_TEST'' data_bare_version [] =
       Inl (Fatal (''Invalid version number '' @ quoted ''1.2'' @ '' in profile ''
                   @ quoted ''VP_TEST''))"
proof -
  have a: "bare_major_minor (pd_api_version data_bare_version)"
    by (simp add: data_bare_version_def bare_major_minor_def is_digit_def)
  have b: "VulkanProfileCapabilities_init empty_registry data_bare_version [] = Inr empty_capabilities"
    by (simp add: VulkanProfileCapabilities_init_def data_bare_version_def)
  have c: "search_version_number ''1.2''"
    by (simp add: regex_defs)
  show ?thesis
    using a b c C10_bare_major_minor_is_invalid [OF a b, of "''VP_TEST''"]
    by (simp add: data_bare_version_def)
qed

subsection \<open>Resolving a profile\<close>

lemma for_each_require_extension:
  "for_each (require_extension registry) xs s = Inr s'
     \<Longrightarrow> s' = s\<lparr>requirements := requirements s @ xs\<rparr>"
proof (induction xs arbitrary: s)
  case Nil
  then show ?case by simp
next
  case (Cons x xs)
  from Cons.prems obtain s1 where
    s1: "require_extension registry x s = Inr s1"
    and rest: "for_each (require_extension registry) xs s1 = Inr s'"
    by (auto split: sum.splits)
  from s1 have "s1 = s\<lparr>requirements := requirements s @ [x]\<rparr>"
    by (auto simp: require_extension_def split: option.splits)
  with Cons.IH [OF rest] show ?case by simp
qed

lemma collectCompileTimeRequirements_result:
  assumes "collectCompileTimeRequirements registry s = Inr s'"
  shows "\<exists>number v. search_api_version (apiVersion s) = Some number
           \<and> map_of (versions registry) number = Some v
           \<and> s' = s\<lparr>requirements := requirements s @ [str_opt (version_name v)]
                                         @ map fst (cap_extensions (capabilities s))\<rparr>"
proof -
  from assms obtain s1 where
    s1: "require_version registry s = Inr s1"
    and rest: "for_each (require_extension registry) (map fst (cap_extensions (capabilities s1))) s1 = Inr s'"
    by (auto simp: collectCompileTimeRequirements_def split: sum.splits)
  from s1 obtain number v where
    nv: "search_api_version (apiVersion s) = Some number" "map_of (versions registry) number = Some v"
    and s1_eq: "s1 = s\<lparr>requirements := requirements s @ [str_opt (version_name v)]\<rparr>"
    by (auto simp: require_version_def split: option.splits)
  from for_each_require_extension [OF rest] s1_eq nv show ?thesis by simp
qed

lemma VulkanProfile_init_result:
  assumes "VulkanProfile_init registry name data caps = Inr profile"
  shows "\<exists>c number v. VulkanProfileCapabilities_init registry data caps = Inr c
           \<and> search_api_version (pd_api_version data) = Some number
           \<and> map_of (versions registry) number = Some v
           \<and> validate registry profile = Inr ()
           \<and> profile = \<lparr>profile_name = name, profile_version = pd_version data,
                         apiVersion = pd_api_version data, fallback = pd_fallback data,
                         requirements = str_opt (version_name v) # map fst (cap_extensions c),
                         capabilities = c\<rparr>"
proof -
  from assms obtain c where c: "VulkanProfileCapabilities_init registry data caps = Inr c"
    and col: "collectCompileTimeRequirements registry
                  \<lparr>profile_name = name, profile_version = pd_version data,
                   apiVersion = pd_api_version data, fallback = pd_fallback data,
                   requirements = [], capabilities = c\<rparr> = Inr profile"
    and val: "validate registry profile = Inr ()"
    by (auto simp: VulkanProfile_init_def split: sum.splits)
  from collectCompileTimeRequirements_result [OF col] c val show ?thesis by auto
qed

lemma api_1_2_0: "search_api_version ''1.2.0'' = Some ''1.2''"
  by (simp add: search_api_version_def is_digit_def is_nonzero_digit_def at_dollar_def dot_star_dollar_def)

lemma gen_profileDefs_append:
  "gen_profileDefs str_upper (before @ entry # after) =
     gen_profileDefs str_upper before @ gen_profileDef str_upper entry
       @ gen_profileDefs str_upper after"
  by (simp add: gen_profileDefs_def)

lemmas init_defs =
  VulkanProfile_init_def VulkanProfileCapabilities_init_def collectCompileTimeRequirements_def
  require_version_def validate_def validateStructDependencies_def validate_all_def keys_of_def
  empty_capabilities_def str_opt_def

lemma init_v1: "VulkanProfile_init registry_example ''VP_test'' (data_v 1) [] = Inr (profile_v 1)"
  by (simp add: init_defs registry_example_def data_v_def profile_v_def api_1_2_0)

lemma init_v2: "VulkanProfile_init registry_example ''VP_test'' (data_v 2) [] = Inr (profile_v 2)"
  by (simp add: init_defs registry_example_def data_v_def profile_v_def api_1_2_0)

lemma ext_json: "splitext_ext ''a.json'' = ''.json''" "splitext_ext ''b.json'' = ''.json''"
  by (simp_all add: splitext_ext_def)

subsection \<open>C8: the guard of a profile\<close>

text \<open>
  C8: for a profile that resolves with the API version \<open>1.2.0\<close> and no merged extension,
  the only requirement is the name of the registry version \<open>1.2\<close>; the block of the
  profile in the header starts with the guard \<open>#if defined(<name>)\<close> on one line, with no
  further conjunct, and its minimum API version is \<open>VK_MAKE_VERSION(1, 2, 0)\<close>; the block
  is the profile's part of the emitted definitions. This holds for every profile name and
  for whatever \<open>name.upper()\<close> is (\<open>str_upper name\<close>).
\<close>

theorem C8_guard_of_api_version_1_2_0:
  assumes "VulkanProfile_init registry name data caps = Inr profile"
    and "pd_api_version data = ''1.2.0''"
    and "cap_extensions (capabilities profile) = []"
    and "map_of (versions registry) ''1.2'' = Some v"
    and "version_name v = Some guard"
  shows "requirements profile = [guard]
         \<and> gen_profileDef str_upper (name, profile) =
             [CHR 0x0A]
             @ ''#if defined('' @ guard @ '')'' @ [CHR 0x0A]
             @ ''#define '' @ name @ '' 1'' @ [CHR 0x0A]
             @ ''#define '' @ str_upper name @ ''_NAME '' @ [CHR 0x22] @ name @ [CHR 0x22, CHR 0x0A]
             @ ''#define '' @ str_upper name @ ''_SPEC_VERSION '' @ str_int (pd_version data) @ [CHR 0x0A]
             @ ''#define '' @ str_upper name @ ''_MIN_API_VERSION VK_MAKE_VERSION(1, 2, 0)'' @ [CHR 0x0A]
             @ ''#endif'' @ [CHR 0x0A]
         \<and> gen_profileDefs str_upper (before @ (name, profile) # after) =
             gen_profileDefs str_upper before @ gen_profileDef str_upper (name, profile)
               @ gen_profileDefs str_upper after"
proof -
  from VulkanProfile_init_result [OF assms(1)] assms(2,4) obtain c where
    p: "profile = \<lparr>profile_name = name, profile_version = pd_version data,
                   apiVersion = ''1.2.0'', fallback = pd_fallback data,
                   requirements = str_opt (version_name v) # map fst (cap_extensions c),
                   capabilities = c\<rparr>"
    by (auto simp: api_1_2_0)
  with assms(3) have c: "cap_extensions c = []" by simp
  have r: "requirements profile = [guard]"
    by (simp add: p c assms(5) str_opt_def)
  have g: "gen_profileDef str_upper (name, profile) =
             [CHR 0x0A]
             @ ''#if defined('' @ guard @ '')'' @ [CHR 0x0A]
             @ ''#define '' @ name @ '' 1'' @ [CHR 0x0A]
             @ ''#define '' @ str_upper name @ ''_NAME '' @ [CHR 0x22] @ name @ [CHR 0x22, CHR 0x0A]
             @ ''#define '' @ str_upper name @ ''_SPEC_VERSION '' @ str_int (pd_version data) @ [CHR 0x0A]
             @ ''#define '' @ str_upper name @ ''_MIN_API_VERSION VK_MAKE_VERSION(1, 2, 0)'' @ [CHR 0x0A]
             @ ''#endif'' @ [CHR 0x0A]"
    by (simp add: gen_profileDef_def Let_def r gen_requirement_def) (simp add: p)
  from r g gen_profileDefs_append show ?thesis by simp
qed

lemma str_int_1: "str_int 1 = ''1''"
  by code_simp

theorem C8_guard_witness:
  "VulkanProfile_init registry_example ''VP_test'' (data_v 1) [] = Inr (profile_v 1)
   \<and> pd_api_version (data_v 1) = ''1.2.0''
   \<and> cap_extensions (capabilities (profile_v 1)) = []
   \<and> gen_profileDefs ascii_upper [(''VP_test'', profile_v 1)] =
       [CHR 0x0A]
       @ ''#if defined(VK_VERSION_1_2)'' @ [CHR 0x0A]
       @ ''#define VP_test 1'' @ [CHR 0x0A]
       @ ''#define VP_TEST_NAME '' @ [CHR 0x22] @ ''VP_test'' @ [CHR 0x22, CHR 0x0A]
       @ ''#define VP_TEST_SPEC_VERSION 1'' @ [CHR 0x0A]
       @ ''#define VP_TEST_MIN_API_VERSION VK_MAKE_VERSION(1, 2, 0)'' @ [CHR 0x0A]
       @ ''#endif'' @ [CHR 0x0A]"
proof -
  have a: "pd_api_version (data_v 1) = ''1.2.0''" by (simp add: data_v_def)
  have b: "cap_extensions (capabilities (profile_v 1)) = []"
    by (simp add: profile_v_def empty_capabilities_def)
  have c: "map_of (versions registry_example) ''1.2'' =
             Some \<lparr>version_name = Some ''VK_VERSION_1_2'', version_number = Some ''1.2'',
                   version_sTypeAliases = []\<rparr>"
    by (simp add: registry_example_def)
  have d: "version_name \<lparr>version_name = Some ''VK_VERSION_1_2'', version_number = Some ''1.2'',
                   version_sTypeAliases = []\<rparr> = Some ''VK_VERSION_1_2''" by simp
  have v: "str_int (pd_version (data_v 1)) = ''1''"
    by (simp add: data_v_def str_int_1)
  have g: "gen_profileDef ascii_upper (''VP_test'', profile_v 1) =
       [CHR 0x0A]
       @ ''#if defined(VK_VERSION_1_2)'' @ [CHR 0x0A]
       @ ''#define VP_test 1'' @ [CHR 0x0A]
       @ ''#define VP_TEST_NAME '' @ [CHR 0x22] @ ''VP_test'' @ [CHR 0x22, CHR 0x0A]
       @ ''#define VP_TEST_SPEC_VERSION 1'' @ [CHR 0x0A]
       @ ''#define VP_TEST_MIN_API_VERSION VK_MAKE_VERSION(1, 2, 0)'' @ [CHR 0x0A]
       @ ''#endif'' @ [CHR 0x0A]"
    using C8_guard_of_api_version_1_2_0 [OF init_v1 a b c d, of ascii_upper "[]" "[]"]
    by (simp add: v ascii_upper_def ascii_upper_char_def)
  show ?thesis
    using init_v1 a b g by (simp add: gen_profileDefs_def)
qed

subsection \<open>C5: two files that define the same profile\<close>

text \<open>
  C5 says that loading fails when two files define a profile of the same name. The loader
  has no such check: \<open>parseProfiles\<close> stores each entry with \<open>profiles[name] = ...\<close>. Here
  both files are loaded and the result holds the definition of the second file.
\<close>

theorem C5_duplicate_name_counterexample:
  "loadFromDir registry_example [file_a, file_b] = Inr [(''VP_test'', profile_v 2)]"
  by (simp add: loadFromDir_def loadFromDir_step_def file_a_def file_b_def ext_json
        parseProfiles_def parseProfiles_step_def init_v1 init_v2)

lemma for_each_append:
  "for_each f (xs @ ys) s = (case for_each f xs s of Inl e \<Rightarrow> Inl e | Inr s' \<Rightarrow> for_each f ys s')"
  by (induction xs arbitrary: s) (auto split: sum.splits)

text \<open>
  When every entry of a file resolves, \<open>parseProfiles\<close> succeeds whatever the dictionary
  already holds; afterwards every name of the file maps to the profile resolved from this
  file and the other names are unchanged.
\<close>

lemma parseProfiles_replaces:
  assumes "distinct (map fst json)"
    and "\<And>name data. (name, data) \<in> set json
           \<Longrightarrow> \<exists>p. VulkanProfile_init registry name data caps = Inr p"
  shows "\<exists>profiles'. parseProfiles registry profiles json caps = Inr profiles'
           \<and> (\<forall>name data p. (name, data) \<in> set json
                 \<longrightarrow> VulkanProfile_init registry name data caps = Inr p
                 \<longrightarrow> map_of profiles' name = Some p)
           \<and> (\<forall>name. name \<notin> fst ` set json \<longrightarrow> map_of profiles' name = map_of profiles name)"
  using assms
proof (induction json arbitrary: profiles)
  case Nil
  then show ?case by (simp add: parseProfiles_def)
next
  case (Cons entry rest)
  obtain n d where entry: "entry = (n, d)" by (cases entry)
  from Cons.prems(2) [of n d] entry obtain p0 where
    p0: "VulkanProfile_init registry n d caps = Inr p0" by auto
  from Cons.prems(1) entry have dist: "distinct (map fst rest)" and n: "n \<notin> fst ` set rest"
    by auto
  have "\<And>name data. (name, data) \<in> set rest
          \<Longrightarrow> \<exists>p. VulkanProfile_init registry name data caps = Inr p"
    using Cons.prems(2) by auto
  from Cons.IH [OF dist this, of "AList.update n p0 profiles"] obtain profiles' where
    run: "parseProfiles registry (AList.update n p0 profiles) rest caps = Inr profiles'"
    and inside: "\<forall>name data p. (name, data) \<in> set rest
                 \<longrightarrow> VulkanProfile_init registry name data caps = Inr p
                 \<longrightarrow> map_of profiles' name = Some p"
    and outside: "\<forall>name. name \<notin> fst ` set rest
                 \<longrightarrow> map_of profiles' name = map_of (AList.update n p0 profiles) name"
    by blast
  have "parseProfiles registry profiles (entry # rest) caps = Inr profiles'"
    using run by (simp add: parseProfiles_def parseProfiles_step_def entry p0)
  moreover have "map_of profiles' n = Some p0"
    using outside n by (simp add: update_conv')
  moreover have "\<forall>name. name \<notin> fst ` set (entry # rest)
                   \<longrightarrow> map_of profiles' name = map_of profiles name"
    using outside by (simp add: entry update_conv')
  ultimately show ?case
    using inside p0 by (auto simp: entry)
qed

text \<open>
  C5 as amended: a profile name that two files define is no error. When the files of the
  directory read so far load to the dictionary \<open>profiles\<close>, and the next entry of the
  directory is a \<open>.json\<close> file whose profile entries all resolve, then loading the
  directory up to and including this file succeeds; in the dictionary it returns, every
  name of this file maps to the profile resolved from this file, whether or not an earlier
  file defined the name, and every other name maps as in \<open>profiles\<close>.
\<close>

theorem C5_later_definition_replaces:
  assumes "loadFromDir registry earlier = Inr profiles"
    and "de_isfile file"
    and "splitext_ext (de_filename file) = ''.json''"
    and "distinct (map fst (pf_profiles (de_json file)))"
    and "\<And>name data. (name, data) \<in> set (pf_profiles (de_json file))
           \<Longrightarrow> \<exists>p. VulkanProfile_init registry name data (pf_capabilities (de_json file)) = Inr p"
  shows "\<exists>profiles'. loadFromDir registry (earlier @ [file]) = Inr profiles'
           \<and> (\<forall>name data p. (name, data) \<in> set (pf_profiles (de_json file))
                 \<longrightarrow> VulkanProfile_init registry name data (pf_capabilities (de_json file)) = Inr p
                 \<longrightarrow> map_of profiles' name = Some p)
           \<and> (\<forall>name. name \<notin> fst ` set (pf_profiles (de_json file))
                 \<longrightarrow> map_of profiles' name = map_of profiles name)"
proof -
  have "loadFromDir registry (earlier @ [file])
          = parseProfiles registry profiles (pf_profiles (de_json file)) (pf_capabilities (de_json file))"
    using assms(1-3)
    by (simp add: loadFromDir_def for_each_append loadFromDir_step_def split: sum.splits)
  then show ?thesis
    using parseProfiles_replaces [OF assms(4) assms(5), of profiles] by simp
qed

theorem C5_later_definition_witness:
  "loadFromDir registry_example [file_a] = Inr [(''VP_test'', profile_v 1)]
   \<and> de_isfile file_b
   \<and> splitext_ext (de_filename file_b) = ''.json''
   \<and> pf_profiles (de_json file_b) = [(''VP_test'', data_v 2)]
   \<and> VulkanProfile_init registry_example ''VP_test'' (data_v 2) (pf_capabilities (de_json file_b))
       = Inr (profile_v 2)
   \<and> loadFromDir registry_example ([file_a] @ [file_b]) = Inr [(''VP_test'', profile_v 2)]"
proof -
  have a: "loadFromDir registry_example [file_a] = Inr [(''VP_test'', profile_v 1)]"
    by (simp add: loadFromDir_def loadFromDir_step_def file_a_def ext_json
          parseProfiles_def parseProfiles_step_def init_v1)
  have b: "de_isfile file_b" by (simp add: file_b_def)
  have c: "splitext_ext (de_filename file_b) = ''.json''" by (simp add: file_b_def ext_json)
  have d: "distinct (map fst (pf_profiles (de_json file_b)))" by (simp add: file_b_def)
  have e: "\<And>name data. (name, data) \<in> set (pf_profiles (de_json file_b))
           \<Longrightarrow> \<exists>p. VulkanProfile_init registry_example name data (pf_capabilities (de_json file_b)) = Inr p"
    by (auto simp: file_b_def init_v2)
  have f: "pf_profiles (de_json file_b) = [(''VP_test'', data_v 2)]"
    and g: "pf_capabilities (de_json file_b) = []"
    by (simp_all add: file_b_def)
  have h: "loadFromDir registry_example ([file_a] @ [file_b]) = Inr [(''VP_test'', profile_v 2)]"
    by (simp add: loadFromDir_def loadFromDir_step_def file_a_def file_b_def ext_json
          parseProfiles_def parseProfiles_step_def init_v1 init_v2)
  show ?thesis
    using C5_later_definition_replaces [OF a b c d e] a b c f g h
    by (simp add: init_v2)
qed

subsection \<open>C7: instance and device extensions\<close>

lemma for_each_preserves:
  assumes "for_each f xs s = Inr s'" and "P s"
    and "\<And>x t t'. P t \<Longrightarrow> f x t = Inr t' \<Longrightarrow> P t'"
  shows "P s'"
  using assms(1,2)
proof (induction xs arbitrary: s)
  case Nil
  then show ?case by simp
next
  case (Cons x xs)
  from Cons.prems(1) obtain s1 where s1: "f x s = Inr s1" and rest: "for_each f xs s1 = Inr s'"
    by (auto split: sum.splits)
  from assms(3) [OF Cons.prems(2) s1] have "P s1" .
  from Cons.IH [OF rest this] show ?case .
qed

lemma classified_step:
  assumes "classified registry c" and "mergeProfileExtensions_step registry entry c = Inr c'"
  shows "classified registry c'"
proof -
  obtain extName specVer where entry: "entry = (extName, specVer)" by (cases entry)
  from assms(2) entry obtain x where x: "map_of (extensions registry) extName = Some x"
    by (auto simp: mergeProfileExtensions_step_def split: option.splits)
  show ?thesis
  proof (cases "ext_type x = Some ''instance''")
    case True
    with assms(2) entry x have
      "c' = c\<lparr>cap_extensions := AList.update extName specVer (cap_extensions c),
               instanceExtensions := AList.update extName specVer (instanceExtensions c)\<rparr>"
      by (simp add: mergeProfileExtensions_step_def Let_def)
    with assms(1) x True show ?thesis
      by (auto simp: classified_def update_conv')
  next
    case False
    with assms(2) entry x have dev: "ext_type x = Some ''device''"
      by (auto simp: mergeProfileExtensions_step_def Let_def split: if_splits)
    with assms(2) entry x have
      "c' = c\<lparr>cap_extensions := AList.update extName specVer (cap_extensions c),
               deviceExtensions := AList.update extName specVer (deviceExtensions c)\<rparr>"
      by (simp add: mergeProfileExtensions_step_def Let_def)
    with assms(1) x dev show ?thesis
      by (auto simp: classified_def update_conv')
  qed
qed

lemma classified_mergeCaps:
  assumes "classified registry c" and "mergeCaps registry fragment c = Inr c'"
  shows "classified registry c'"
proof -
  from assms(2) obtain s1 s2 s3 s4 s5 where
    s1: "mergeProfileExtensions registry fragment c = Inr s1"
    and s2: "mergeProfileFeatures fragment s1 = Inr s2"
    and s3: "mergeProfileProperties fragment s2 = Inr s3"
    and s4: "mergeProfileFormats fragment s3 = Inr s4"
    and s5: "mergeProfileQueueFamiliesProperties fragment s4 = Inr s5"
    and s6: "mergeProfileMemoryProperties fragment s5 = Inr c'"
    by (auto simp: mergeCaps_def split: sum.splits)
  have c1: "classified registry s1"
  proof (cases "frag_extensions fragment")
    case None
    with s1 assms(1) show ?thesis by (simp add: mergeProfileExtensions_def)
  next
    case (Some exts)
    with s1 have "for_each (mergeProfileExtensions_step registry) exts c = Inr s1"
      by (simp add: mergeProfileExtensions_def)
    from for_each_preserves [where P = "classified registry", OF this assms(1)] classified_step
    show ?thesis by blast
  qed
  from s2 have "cap_extensions s2 = cap_extensions s1 \<and> instanceExtensions s2 = instanceExtensions s1
      \<and> deviceExtensions s2 = deviceExtensions s1"
    by (auto simp: mergeProfileFeatures_def split: if_splits sum.splits)
  with c1 have c2: "classified registry s2" by (simp add: classified_def)
  from s3 have "cap_extensions s3 = cap_extensions s2 \<and> instanceExtensions s3 = instanceExtensions s2
      \<and> deviceExtensions s3 = deviceExtensions s2"
    by (auto simp: mergeProfileProperties_def split: if_splits sum.splits)
  with c2 have c3: "classified registry s3" by (simp add: classified_def)
  from s4 have "cap_extensions s4 = cap_extensions s3 \<and> instanceExtensions s4 = instanceExtensions s3
      \<and> deviceExtensions s4 = deviceExtensions s3"
    by (auto simp: mergeProfileFormats_def split: if_splits sum.splits)
  with c3 have c4: "classified registry s4" by (simp add: classified_def)
  from s5 have "cap_extensions s5 = cap_extensions s4 \<and> instanceExtensions s5 = instanceExtensions s4
      \<and> deviceExtensions s5 = deviceExtensions s4"
    by (auto simp: mergeProfileQueueFamiliesProperties_def split: option.splits)
  with c4 have c5: "classified registry s5" by (simp add: classified_def)
  from s6 have "cap_extensions c' = cap_extensions s5 \<and> instanceExtensions c' = instanceExtensions s5
      \<and> deviceExtensions c' = deviceExtensions s5"
    by (auto simp: mergeProfileMemoryProperties_def split: if_splits sum.splits)
  with c5 show ?thesis by (simp add: classified_def)
qed

lemma classified_init:
  assumes "VulkanProfileCapabilities_init registry data caps = Inr c"
  shows "classified registry c"
proof -
  have e: "classified registry empty_capabilities"
    by (simp add: classified_def empty_capabilities_def)
  have "\<And>x t t'. classified registry t \<Longrightarrow> merge_capability registry data caps x t = Inr t'
           \<Longrightarrow> classified registry t'"
    by (auto simp: merge_capability_def split: option.splits intro: classified_mergeCaps)
  from for_each_preserves [where P = "classified registry",
      OF assms [unfolded VulkanProfileCapabilities_init_def] e this]
  show ?thesis .
qed

lemma step_unclassifiable:
  assumes "unclassifiable registry extName"
  shows "\<exists>msg. mergeProfileExtensions_step registry (extName, specVer) c0 = Inl (Fatal msg)"
  using assms
  by (auto simp: unclassifiable_def mergeProfileExtensions_step_def Let_def split: option.splits)

lemma step_error_is_Fatal:
  assumes "mergeProfileExtensions_step registry entry c0 = Inl e"
  shows "\<exists>msg. e = Fatal msg"
  using assms
  by (auto simp: mergeProfileExtensions_step_def Let_def split: option.splits prod.splits if_splits)

lemma for_each_unclassifiable:
  assumes "\<exists>entry \<in> set exts. unclassifiable registry (fst entry)"
  shows "\<exists>msg. for_each (mergeProfileExtensions_step registry) exts c0 = Inl (Fatal msg)"
  using assms
proof (induction exts arbitrary: c0)
  case Nil
  then show ?case by simp
next
  case (Cons entry rest)
  show ?case
  proof (cases "mergeProfileExtensions_step registry entry c0")
    case (Inl e)
    with step_error_is_Fatal [OF Inl] show ?thesis by auto
  next
    case (Inr c1)
    have "\<not> unclassifiable registry (fst entry)"
    proof
      assume "unclassifiable registry (fst entry)"
      from step_unclassifiable [OF this, of "snd entry" c0] Inr show False by simp
    qed
    with Cons.prems have "\<exists>entry \<in> set rest. unclassifiable registry (fst entry)" by auto
    from Cons.IH [OF this, of c1] Inr show ?thesis by simp
  qed
qed

text \<open>
  C7: in a resolved profile, every merged extension is in exactly one of the instance
  dictionary and the device dictionary, the one of its kind in the registry. Merging an
  extension that the registry does not have, or whose kind is neither \<open>instance\<close> nor
  \<open>device\<close>, raises the fatal error of that case; so merging a fragment that declares
  such an extension ends with a fatal error.
\<close>

theorem C7_extension_classification:
  "(VulkanProfile_init registry name data caps = Inr profile
      \<and> map_of (cap_extensions (capabilities profile)) extName \<noteq> None
    \<longrightarrow> (\<exists>x. map_of (extensions registry) extName = Some x
           \<and> (ext_type x = Some ''instance''
                \<and> map_of (instanceExtensions (capabilities profile)) extName \<noteq> None
                \<and> map_of (deviceExtensions (capabilities profile)) extName = None
              \<or> ext_type x = Some ''device''
                \<and> map_of (deviceExtensions (capabilities profile)) extName \<noteq> None
                \<and> map_of (instanceExtensions (capabilities profile)) extName = None)))
   \<and> (map_of (extensions registry) extName = None
        \<longrightarrow> mergeProfileExtensions_step registry (extName, specVer) c0 =
              Inl (Fatal (''Extension '' @ quoted extName @ '' does not exist'')))
   \<and> (map_of (extensions registry) extName = Some extInfo
        \<and> ext_type extInfo \<noteq> Some ''instance'' \<and> ext_type extInfo \<noteq> Some ''device''
        \<longrightarrow> mergeProfileExtensions_step registry (extName, specVer) c0 =
              Inl (Fatal (''Extension '' @ quoted extName @ '' has invalid type ''
                          @ quoted (str_opt (ext_type extInfo)))))
   \<and> (frag_extensions fragment = Some exts
        \<and> (\<exists>entry \<in> set exts. unclassifiable registry (fst entry))
        \<longrightarrow> (\<exists>msg. mergeCaps registry fragment c0 = Inl (Fatal msg)))"
proof (intro conjI impI)
  assume a: "VulkanProfile_init registry name data caps = Inr profile
      \<and> map_of (cap_extensions (capabilities profile)) extName \<noteq> None"
  from VulkanProfile_init_result [of registry name data caps profile] a
  have "VulkanProfileCapabilities_init registry data caps = Inr (capabilities profile)"
    by auto
  from classified_init [OF this] have cl: "classified registry (capabilities profile)" .
  from a have "map_of (cap_extensions (capabilities profile)) extName \<noteq> None" by simp
  then show "\<exists>x. map_of (extensions registry) extName = Some x
           \<and> (ext_type x = Some ''instance''
                \<and> map_of (instanceExtensions (capabilities profile)) extName \<noteq> None
                \<and> map_of (deviceExtensions (capabilities profile)) extName = None
              \<or> ext_type x = Some ''device''
                \<and> map_of (deviceExtensions (capabilities profile)) extName \<noteq> None
                \<and> map_of (instanceExtensions (capabilities profile)) extName = None)"
  proof -
    assume ne: "map_of (cap_extensions (capabilities profile)) extName \<noteq> None"
    from cl have
      i: "map_of (instanceExtensions (capabilities profile)) extName \<noteq> None
             \<longrightarrow> (\<exists>x. map_of (extensions registry) extName = Some x \<and> ext_type x = Some ''instance'')"
      and d: "map_of (deviceExtensions (capabilities profile)) extName \<noteq> None
             \<longrightarrow> (\<exists>x. map_of (extensions registry) extName = Some x \<and> ext_type x = Some ''device'')"
      and e: "map_of (cap_extensions (capabilities profile)) extName \<noteq> None
             \<longrightarrow> map_of (instanceExtensions (capabilities profile)) extName \<noteq> None
                 \<or> map_of (deviceExtensions (capabilities profile)) extName \<noteq> None"
      unfolding classified_def by blast+
    have neq: "Some ''instance'' \<noteq> Some ''device''" by simp
    from e ne consider
      (inst) "map_of (instanceExtensions (capabilities profile)) extName \<noteq> None"
      | (dev) "map_of (deviceExtensions (capabilities profile)) extName \<noteq> None"
      by blast
    then show ?thesis
    proof cases
      case inst
      with i obtain x where x: "map_of (extensions registry) extName = Some x"
        "ext_type x = Some ''instance''" by blast
      have "map_of (deviceExtensions (capabilities profile)) extName = None"
      proof (rule ccontr)
        assume "map_of (deviceExtensions (capabilities profile)) extName \<noteq> None"
        with d x show False by auto
      qed
      with x inst show ?thesis by blast
    next
      case dev
      with d obtain x where x: "map_of (extensions registry) extName = Some x"
        "ext_type x = Some ''device''" by blast
      have "map_of (instanceExtensions (capabilities profile)) extName = None"
      proof (rule ccontr)
        assume "map_of (instanceExtensions (capabilities profile)) extName \<noteq> None"
        with i x show False by auto
      qed
      with x dev show ?thesis by blast
    qed
  qed
next
  assume "map_of (extensions registry) extName = None"
  then show "mergeProfileExtensions_step registry (extName, specVer) c0 =
              Inl (Fatal (''Extension '' @ quoted extName @ '' does not exist''))"
    by (simp add: mergeProfileExtensions_step_def)
next
  assume "map_of (extensions registry) extName = Some extInfo
        \<and> ext_type extInfo \<noteq> Some ''instance'' \<and> ext_type extInfo \<noteq> Some ''device''"
  then show "mergeProfileExtensions_step registry (extName, specVer) c0 =
              Inl (Fatal (''Extension '' @ quoted extName @ '' has invalid type ''
                          @ quoted (str_opt (ext_type extInfo))))"
    by (simp add: mergeProfileExtensions_step_def Let_def)
next
  assume a: "frag_extensions fragment = Some exts
        \<and> (\<exists>entry \<in> set exts. unclassifiable registry (fst entry))"
  then have "\<exists>entry \<in> set exts. unclassifiable registry (fst entry)" by simp
  from for_each_unclassifiable [OF this, of c0] a
  show "\<exists>msg. mergeCaps registry fragment c0 = Inl (Fatal msg)"
    by (auto simp: mergeCaps_def mergeProfileExtensions_def)
qed

lemmas mergeCaps_defs =
  mergeCaps_def mergeProfileFeatures_def mergeProfileProperties_def mergeProfileFormats_def
  mergeProfileQueueFamiliesProperties_def mergeProfileMemoryProperties_def

lemma ext_swapchain:
  "mergeProfileExtensions registry_example
     (fragment_extensions [(''VK_KHR_swapchain'', 70), (''VK_KHR_surface'', 25)]) empty_capabilities
   = Inr capabilities_swapchain"
  by (simp add: mergeProfileExtensions_def mergeProfileExtensions_step_def fragment_extensions_def
        registry_example_def empty_capabilities_def capabilities_swapchain_def)

lemma mergeCaps_fragment_extensions:
  "mergeCaps registry (fragment_extensions exts) c =
     mergeProfileExtensions registry (fragment_extensions exts) c"
  by (cases "mergeProfileExtensions registry (fragment_extensions exts) c")
     (simp_all add: mergeCaps_defs fragment_extensions_def)

lemma caps_init_swapchain:
  "VulkanProfileCapabilities_init registry_example data_baseline caps_swapchain
     = Inr capabilities_swapchain"
  by (simp add: VulkanProfileCapabilities_init_def data_baseline_def caps_swapchain_def
        merge_capability_def mergeCaps_fragment_extensions ext_swapchain)

lemma init_swapchain:
  "VulkanProfile_init registry_example ''VP_test'' data_baseline caps_swapchain =
     Inr profile_swapchain"
  by (simp add: VulkanProfile_init_def caps_init_swapchain profile_swapchain_def)
     (simp add: collectCompileTimeRequirements_def require_version_def data_baseline_def
        api_1_2_0 registry_example_def str_opt_def capabilities_swapchain_def
        require_extension_def validate_def validateStructDependencies_def validate_all_def keys_of_def)

lemma gen_ext_device:
  "gen_extensionData registry_example profile_swapchain ''device'' =
   Inr ([CHR 0x0A] @ ''static const VkExtensionProperties _deviceExtensions[] = {'' @ [CHR 0x0A]
        @ ''    VkExtensionProperties{ VK_KHR_SWAPCHAIN_EXTENSION_NAME, 70 },'' @ [CHR 0x0A]
        @ ''};'' @ [CHR 0x0A])"
proof -
  have "str_int 70 = ''70''" by code_simp
  then show ?thesis
    by (simp add: gen_extensionData_def gen_extensionData_line_def capabilities_swapchain_def
          registry_example_def profile_swapchain_def)
qed

theorem C7_extension_classification_witness:
  "VulkanProfile_init registry_example ''VP_test'' data_baseline caps_swapchain = Inr profile_swapchain
   \<and> map_of (cap_extensions (capabilities profile_swapchain)) ''VK_KHR_swapchain'' = Some 70
   \<and> map_of (deviceExtensions (capabilities profile_swapchain)) ''VK_KHR_swapchain'' = Some 70
   \<and> map_of (instanceExtensions (capabilities profile_swapchain)) ''VK_KHR_swapchain'' = None
   \<and> map_of (extensions registry_example) ''VK_KHR_missing'' = None
   \<and> mergeProfileExtensions_step registry_example (''VK_KHR_missing'', 1) empty_capabilities =
       Inl (Fatal (''Extension '' @ quoted ''VK_KHR_missing'' @ '' does not exist''))
   \<and> map_option ext_type (map_of (extensions registry_example) ''VK_EXT_untyped'') = Some None
   \<and> mergeProfileExtensions_step registry_example (''VK_EXT_untyped'', 1) empty_capabilities =
       Inl (Fatal (''Extension '' @ quoted ''VK_EXT_untyped'' @ '' has invalid type ''
                   @ quoted ''None''))
   \<and> unclassifiable registry_example ''VK_KHR_missing''
   \<and> (\<exists>msg. mergeCaps registry_example
                (fragment_extensions [(''VK_KHR_swapchain'', 70), (''VK_KHR_missing'', 1)])
                empty_capabilities = Inl (Fatal msg))"
proof -
  have sw: "map_of (cap_extensions (capabilities profile_swapchain)) ''VK_KHR_swapchain'' = Some 70"
    by (simp add: profile_swapchain_def capabilities_swapchain_def)
  have kind: "map_of (extensions registry_example) ''VK_KHR_swapchain'' =
      Some \<lparr>ext_name = ''VK_KHR_swapchain'', upperCaseName = ''VK_KHR_SWAPCHAIN'',
             ext_type = Some ''device'', ext_platform = None, ext_sTypeAliases = []\<rparr>"
    by (simp add: registry_example_def)
  have missing: "map_of (extensions registry_example) ''VK_KHR_missing'' = None"
    by (simp add: registry_example_def)
  have untyped: "map_of (extensions registry_example) ''VK_EXT_untyped'' =
      Some \<lparr>ext_name = ''VK_EXT_untyped'', upperCaseName = ''VK_EXT_UNTYPED'',
             ext_type = None, ext_platform = None, ext_sTypeAliases = []\<rparr>"
    by (simp add: registry_example_def)
  have uncl: "unclassifiable registry_example ''VK_KHR_missing''"
    by (simp add: unclassifiable_def missing)
  have frag: "frag_extensions (fragment_extensions [(''VK_KHR_swapchain'', 70), (''VK_KHR_missing'', 1)])
      = Some [(''VK_KHR_swapchain'', 70), (''VK_KHR_missing'', 1)]"
    by (simp add: fragment_extensions_def)
  note inst = C7_extension_classification
    [of registry_example "''VP_test''" data_baseline caps_swapchain profile_swapchain
        "''VK_KHR_swapchain''"]
  have one: "map_of (deviceExtensions (capabilities profile_swapchain)) ''VK_KHR_swapchain'' \<noteq> None
      \<and> map_of (instanceExtensions (capabilities profile_swapchain)) ''VK_KHR_swapchain'' = None"
    using inst init_swapchain sw kind by auto
  have dev: "map_of (deviceExtensions (capabilities profile_swapchain)) ''VK_KHR_swapchain'' = Some 70"
    by (simp add: profile_swapchain_def capabilities_swapchain_def)
  have m: "mergeProfileExtensions_step registry_example (''VK_KHR_missing'', 1) empty_capabilities =
       Inl (Fatal (''Extension '' @ quoted ''VK_KHR_missing'' @ '' does not exist''))"
    using C7_extension_classification [of registry_example _ _ _ _ "''VK_KHR_missing''"] missing
    by blast
  have u: "mergeProfileExtensions_step registry_example (''VK_EXT_untyped'', 1) empty_capabilities =
       Inl (Fatal (''Extension '' @ quoted ''VK_EXT_untyped'' @ '' has invalid type ''
                   @ quoted ''None''))"
    by (simp add: mergeProfileExtensions_step_def untyped str_opt_def)
  have f: "\<exists>msg. mergeCaps registry_example
                (fragment_extensions [(''VK_KHR_swapchain'', 70), (''VK_KHR_missing'', 1)])
                empty_capabilities = Inl (Fatal msg)"
    using C7_extension_classification
      [of registry_example _ _ _ _ _ _ _ _
          "fragment_extensions [(''VK_KHR_swapchain'', 70), (''VK_KHR_missing'', 1)]"
          "[(''VK_KHR_swapchain'', 70), (''VK_KHR_missing'', 1)]"] frag uncl
    by auto
  show ?thesis
    using init_swapchain sw dev one missing m untyped u uncl f by simp
qed

subsection \<open>C3: struct dependencies\<close>

lemma caps_init_future:
  "VulkanProfileCapabilities_init registry_future data_baseline [(''baseline'', fragment_future)]
     = Inr (capabilities profile_future)"
  by (simp add: VulkanProfileCapabilities_init_def data_baseline_def merge_capability_def
        mergeCaps_defs mergeProfileExtensions_def fragment_future_def empty_capabilities_def
        profile_future_def)

lemma not_at_most: "\<not> version_at_most ''1.10'' ''1.2.0''"
  by (simp add: version_at_most_def version_pair_def is_digit_def digits_value_def digit_value_def)

lemma at_most_ok: "version_at_most ''1.1'' ''1.2.0''"
  by (simp add: version_at_most_def version_pair_def is_digit_def digits_value_def digit_value_def)

text \<open>
  C3 says that every struct of a resolved profile is defined by a version that is at most
  the profile's API version, or by a merged extension. \<open>validateStructDependency\<close>
  compares the two version strings with Python's \<open>\<le>\<close> on strings, so \<open>1.10\<close> counts as at
  most \<open>1.2.0\<close>: the profile below, for the API version \<open>1.2.0\<close> and with no extension,
  requires a struct that version 1.10 defines, and it resolves.
\<close>

theorem C3_later_version_is_accepted:
  "map_option definedByVersion (map_of (structs registry_future) ''VkPhysicalDeviceVulkan110Features'')
     = Some (Some ''1.10'')
   \<and> \<not> version_at_most ''1.10'' ''1.2.0''
   \<and> ''1.10'' \<le> ''1.2.0''
   \<and> pd_api_version data_baseline = ''1.2.0''
   \<and> VulkanProfile_init registry_future ''VP_test'' data_baseline [(''baseline'', fragment_future)]
       = Inr profile_future
   \<and> cap_extensions (capabilities profile_future) = []
   \<and> keys_of (features (capabilities profile_future)) = [''VkPhysicalDeviceVulkan110Features'']"
proof -
  have v: "validateStructDependency registry_future profile_future ''VkPhysicalDeviceVulkan110Features''
      = Inr ()"
    by (simp add: validateStructDependency_def registry_future_def profile_future_def)
  have i: "VulkanProfile_init registry_future ''VP_test'' data_baseline [(''baseline'', fragment_future)]
       = Inr profile_future"
    by (simp add: VulkanProfile_init_def caps_init_future)
       (simp add: collectCompileTimeRequirements_def require_version_def data_baseline_def
          api_1_2_0 registry_future_def str_opt_def profile_future_def
          validate_def validateStructDependencies_def validate_all_def keys_of_def
          validateStructDependency_def)
  show ?thesis
    using i not_at_most
    by (simp add: registry_future_def data_baseline_def profile_future_def keys_of_def)
qed

text \<open>
  What the validation does establish: every struct named in the features, the properties, a
  queue family record or the memory properties of a resolved profile is registered, and its
  defining version is at most the API version in the order of strings, or one of its
  defining extensions is merged.
\<close>

lemma for_each_unit:
  assumes "for_each (\<lambda>x u. g x) xs () = Inr u"
  shows "\<forall>x \<in> set xs. g x = Inr ()"
  using assms
proof (induction xs)
  case Nil
  then show ?case by simp
next
  case (Cons x xs)
  then show ?case by (cases "g x") auto
qed

lemma validateStructDependency_Inr:
  assumes "validateStructDependency registry self structName = Inr u"
  shows "\<exists>structDef. map_of (structs registry) structName = Some structDef
           \<and> ((\<exists>dv. definedByVersion structDef = Some dv \<and> dv \<le> apiVersion self)
               \<or> (\<exists>e \<in> set (definedByExtensions structDef).
                     map_of (cap_extensions (capabilities self)) e \<noteq> None))"
  using assms
  by (auto simp: validateStructDependency_def Let_def split: option.splits if_splits)

lemma validated_struct_names:
  assumes "VulkanProfile_init registry name data caps = Inr profile"
    and "structName \<in> set (keys_of (features (capabilities profile)))
           \<union> set (keys_of (properties (capabilities profile)))
           \<union> (\<Union>q \<in> set (queueFamiliesProperties (capabilities profile)). fst ` set q)
           \<union> set (keys_of (memoryProperties (capabilities profile)))"
  shows "\<exists>structDef. map_of (structs registry) structName = Some structDef
           \<and> ((\<exists>dv. definedByVersion structDef = Some dv \<and> dv \<le> apiVersion profile)
               \<or> (\<exists>e \<in> set (definedByExtensions structDef).
                     map_of (cap_extensions (capabilities profile)) e \<noteq> None))"
proof -
  from VulkanProfile_init_result [OF assms(1)] have "validate registry profile = Inr ()" by auto
  then have "\<forall>x \<in> set (keys_of (features (capabilities profile))
        @ keys_of (properties (capabilities profile))
        @ concat (map (map fst) (queueFamiliesProperties (capabilities profile)))
        @ keys_of (memoryProperties (capabilities profile))).
      validateStructDependency registry profile x = Inr ()"
    unfolding validate_def validateStructDependencies_def validate_all_def by (rule for_each_unit)
  with assms(2) have "validateStructDependency registry profile structName = Inr ()"
    by auto
  then show ?thesis by (rule validateStructDependency_Inr)
qed

subsection \<open>C2: merging capability data\<close>

text \<open>
  The cases of the merge that the source handles as C2 says: a scalar replaces the value of
  its key, after the check of the types; a list is appended to the list of its key; an object
  is merged into the object of its key; a scalar on a value of another type, and an object on
  a value that is no object, raise the conflict error.
\<close>

lemma merge_scalar_overwrites:
  assumes "type_of val \<noteq> T_dict" and "type_of val \<noteq> T_list"
    and "map_of dst key = None \<or> (\<exists>old. map_of dst key = Some old \<and> type_of old = type_of val)"
  shows "merge_items dst ((key, val) # rest) = merge_items (AList.update key val dst) rest"
  using assms by (cases val) auto

lemma merge_scalar_conflict:
  assumes "type_of val \<noteq> T_dict" and "type_of val \<noteq> T_list"
    and "map_of dst key = Some old" and "type_of old \<noteq> type_of val"
  shows "merge_items dst ((key, val) # rest) = Inl (Fatal (conflict_msg val old))"
  using assms by (cases val) auto

lemma merge_list_concatenates:
  "map_of dst key = None
     \<Longrightarrow> merge_items dst ((key, JList vs) # rest) = merge_items (AList.update key (JList vs) dst) rest"
  "map_of dst key = Some (JList old)
     \<Longrightarrow> merge_items dst ((key, JList vs) # rest) =
           merge_items (AList.update key (JList (old @ vs)) dst) rest"
  by simp_all

lemma merge_object_recurses:
  "map_of dst key = None \<Longrightarrow> merge_items [] kvs = Inr m
     \<Longrightarrow> merge_items dst ((key, JObj kvs) # rest) = merge_items (AList.update key (JObj m) dst) rest"
  "map_of dst key = Some (JObj old) \<Longrightarrow> merge_items old kvs = Inr m
     \<Longrightarrow> merge_items dst ((key, JObj kvs) # rest) = merge_items (AList.update key (JObj m) dst) rest"
  by simp_all

lemma merge_object_conflict:
  assumes "map_of dst key = Some old" and "type_of old \<noteq> T_dict"
  shows "merge_items dst ((key, JObj kvs) # rest) = Inl (Fatal (conflict_msg (JObj kvs) old))"
  using assms by (cases old) auto

text \<open>
  C2 says that any mismatch of types between the existing and the incoming value is the
  conflict error. For an incoming list the source does not compare the types: it calls
  \<open>dst[key].extend(val)\<close>, and when the existing value is no list Python raises
  \<open>AttributeError\<close>, not the conflict error of \<open>Log.f\<close>.
\<close>

theorem C2_list_onto_other_type_raises_AttributeError:
  assumes "map_of dst key = Some old" and "type_of old \<noteq> T_list"
  shows "merge_items dst ((key, JList vs) # rest) = Inl AttributeError
         \<and> mergeProfileCapData (JObj dst) (JObj ((key, JList vs) # rest)) = Inl AttributeError"
  using assms by (cases old) auto

lemma merge_first:
  "mergeCaps registry (fragment_properties v) c =
     (if v \<noteq> JNull then
        (case mergeProfileCapData (properties c) v of
           Inl e \<Rightarrow> Inl e | Inr m \<Rightarrow> Inr (c\<lparr>properties := m\<rparr>))
      else Inr c)"
  by (simp add: mergeCaps_defs mergeProfileExtensions_def fragment_properties_def split: sum.splits)

theorem C2_list_onto_scalar_witness:
  "map_of [(''maxViewportDimensions'', JInt 4096)] ''maxViewportDimensions'' = Some (JInt 4096)
   \<and> type_of (JInt 4096) \<noteq> T_list
   \<and> mergeProfileCapData (JObj [(''maxViewportDimensions'', JInt 4096)])
        (JObj [(''maxViewportDimensions'', JList [JInt 4096, JInt 4096])]) = Inl AttributeError
   \<and> VulkanProfileCapabilities_init registry_example data_two_fragments caps_scalar_then_list
        = Inl AttributeError"
proof -
  have a: "map_of [(''maxViewportDimensions'', JInt 4096)] ''maxViewportDimensions'' = Some (JInt 4096)"
    by simp
  have b: "type_of (JInt 4096) \<noteq> T_list" by simp
  note inner = C2_list_onto_other_type_raises_AttributeError [OF a b, of "[JInt 4096, JInt 4096]" "[]"]
  have "VulkanProfileCapabilities_init registry_example data_two_fragments caps_scalar_then_list
        = Inl AttributeError"
    using inner
    by (simp add: VulkanProfileCapabilities_init_def data_two_fragments_def caps_scalar_then_list_def
          merge_capability_def merge_first empty_capabilities_def)
  with a b inner show ?thesis by simp
qed

subsection \<open>C9: the workaround pass\<close>

lemma patch_member_idem: "patch_member (patch_member md) = patch_member md"
  by (simp add: patch_member_def)

lemma patch_members_idem: "patch_members (patch_members d) = patch_members d"
  by (induction d) (auto simp: patch_members_def patch_member_idem)

lemma map_of_patch_members: "map_of (patch_members d) m = map_option patch_member (map_of d m)"
  by (induction d) (auto simp: patch_members_def)

lemma patch_dicts_idem: "patch_dicts A (patch_dicts A h) = patch_dicts A h"
  by (rule ext) (simp add: patch_dicts_def patch_members_idem)

lemma patch_dicts_insert:
  "patch_dicts A (h(a := patch_members (h a))) = patch_dicts (insert a A) h"
  by (rule ext) (simp add: patch_dicts_def patch_members_idem)

lemma fold_patch_struct:
  "fold patch_struct ss reg =
     reg\<lparr>member_dicts :=
           patch_dicts ((\<lambda>entry. members (snd entry)) ` set ss) (member_dicts reg)\<rparr>"
proof (induction ss arbitrary: reg)
  case Nil
  have "patch_dicts {} (member_dicts reg) = member_dicts reg"
    by (rule ext) (simp add: patch_dicts_def)
  then show ?case by simp
next
  case (Cons entry ss)
  let ?a = "members (snd entry)"
  let ?S = "(\<lambda>entry. members (snd entry)) ` set ss"
  let ?h = "(member_dicts reg)(?a := patch_members (member_dicts reg ?a))"
  have p: "patch_struct entry reg = reg\<lparr>member_dicts := ?h\<rparr>"
    by (simp add: patch_struct_def members_of_def)
  have "fold patch_struct (entry # ss) reg = fold patch_struct ss (reg\<lparr>member_dicts := ?h\<rparr>)"
    by (simp add: p)
  also have "\<dots> = reg\<lparr>member_dicts := patch_dicts ?S ?h\<rparr>"
    by (simp add: Cons.IH del: fun_upd_apply)
  also have "\<dots> = reg\<lparr>member_dicts := patch_dicts (insert ?a ?S) (member_dicts reg)\<rparr>"
    by (simp only: patch_dicts_insert)
  finally show ?case by simp
qed

lemma patch_bool_bitmasks_eq:
  "patch_bool_bitmasks reg =
     reg\<lparr>member_dicts :=
           patch_dicts ((\<lambda>entry. members (snd entry)) ` set (structs reg)) (member_dicts reg)\<rparr>"
  by (simp add: patch_bool_bitmasks_def fold_patch_struct)

lemma structs_patch [simp]: "structs (patch_bool_bitmasks reg) = structs reg"
  by (simp add: patch_bool_bitmasks_eq)

lemma patch_bool_bitmasks_idem:
  "patch_bool_bitmasks (patch_bool_bitmasks reg) = patch_bool_bitmasks reg"
  by (simp add: patch_bool_bitmasks_eq patch_dicts_idem)

lemma has_limittype_patch:
  assumes "has_limittype reg (s, m, lt)" and "lt \<noteq> ''bitmask''"
  shows "has_limittype (patch_bool_bitmasks reg) (s, m, lt)"
proof -
  from assms(1) obtain sd md where
    sd: "map_of (structs reg) s = Some sd" and md: "map_of (member_dicts reg (members sd)) m = Some md"
    and lt: "limittype md = Some lt"
    by (auto simp: has_limittype_def members_of_def split: option.splits)
  from lt assms(2) have same: "patch_member md = md" by (simp add: patch_member_def)
  from sd have "(s, sd) \<in> set (structs reg)" by (rule map_of_SomeD)
  then have "members sd \<in> (\<lambda>entry. members (snd entry)) ` set (structs reg)" by force
  then have "member_dicts (patch_bool_bitmasks reg) (members sd)
               = patch_members (member_dicts reg (members sd))"
    by (simp add: patch_bool_bitmasks_eq patch_dicts_def)
  with sd md lt same show ?thesis
    by (simp add: has_limittype_def members_of_def map_of_patch_members)
qed

lemma set_limittype_structs:
  "set_limittype w reg = Inr reg' \<Longrightarrow> structs reg' = structs reg"
  by (auto simp: set_limittype_def split: prod.splits option.splits)

lemma set_limittype_has:
  assumes "set_limittype w reg = Inr reg'"
  shows "has_limittype reg' w"
  using assms
  by (auto simp: set_limittype_def has_limittype_def members_of_def update_conv'
      split: prod.splits option.splits)

lemma set_limittype_keeps:
  assumes "set_limittype w reg = Inr reg'" and "has_limittype reg w'"
    and "fst (snd w') \<noteq> fst (snd w)"
  shows "has_limittype reg' w'"
proof -
  obtain s m lt where w: "w = (s, m, lt)" by (cases w)
  obtain s' m' lt' where w': "w' = (s', m', lt')" by (cases w')
  from assms(3) w w' have neq: "m' \<noteq> m" by simp
  from assms(1) w obtain sd md where
    sd: "map_of (structs reg) s = Some sd"
    and reg': "reg' = reg\<lparr>member_dicts :=
                 (member_dicts reg)
                   (members sd :=
                      AList.update m (md\<lparr>limittype := Some lt\<rparr>) (member_dicts reg (members sd)))\<rparr>"
    by (auto simp: set_limittype_def members_of_def split: option.splits)
  from assms(2) w' obtain sd' md' where
    sd': "map_of (structs reg) s' = Some sd'"
    and md': "map_of (member_dicts reg (members sd')) m' = Some md'"
    and lt': "limittype md' = Some lt'"
    by (auto simp: has_limittype_def members_of_def split: option.splits)
  have "map_of (member_dicts reg' (members sd')) m' = Some md'"
    using md' neq by (auto simp: reg' update_conv')
  with sd' lt' show ?thesis
    by (simp add: has_limittype_def members_of_def w' reg')
qed

lemma set_limittype_same:
  assumes "has_limittype reg w"
  shows "set_limittype w reg = Inr reg"
proof -
  obtain s m lt where w: "w = (s, m, lt)" by (cases w)
  from assms w obtain sd md where
    sd: "map_of (structs reg) s = Some sd" and md: "map_of (member_dicts reg (members sd)) m = Some md"
    and lt: "limittype md = Some lt"
    by (auto simp: has_limittype_def members_of_def split: option.splits)
  from lt have "md\<lparr>limittype := Some lt\<rparr> = md" by simp
  with md have "AList.update m (md\<lparr>limittype := Some lt\<rparr>) (member_dicts reg (members sd))
      = member_dicts reg (members sd)"
    by (simp add: update_triv)
  then show ?thesis
    by (simp add: set_limittype_def w sd md members_of_def)
qed

lemma for_each_set_limittype_keeps:
  assumes "for_each set_limittype ws reg = Inr reg'" and "has_limittype reg w0"
    and "fst (snd w0) \<notin> set (map (\<lambda>w. fst (snd w)) ws)"
  shows "has_limittype reg' w0"
  using assms
proof (induction ws arbitrary: reg)
  case Nil
  then show ?case by simp
next
  case (Cons w ws)
  from Cons.prems(1) obtain reg1 where
    r1: "set_limittype w reg = Inr reg1" and rest: "for_each set_limittype ws reg1 = Inr reg'"
    by (auto split: sum.splits)
  from Cons.prems(3) have "fst (snd w0) \<noteq> fst (snd w)" by simp
  from set_limittype_keeps [OF r1 Cons.prems(2) this] have "has_limittype reg1 w0" .
  from Cons.IH [OF rest this] Cons.prems(3) show ?case by simp
qed

lemma for_each_set_limittype_has:
  assumes "for_each set_limittype ws reg = Inr reg'" and "distinct (map (\<lambda>w. fst (snd w)) ws)"
  shows "\<forall>w \<in> set ws. has_limittype reg' w"
  using assms
proof (induction ws arbitrary: reg)
  case Nil
  then show ?case by simp
next
  case (Cons w ws)
  from Cons.prems(1) obtain reg1 where
    r1: "set_limittype w reg = Inr reg1" and rest: "for_each set_limittype ws reg1 = Inr reg'"
    by (auto split: sum.splits)
  from Cons.prems(2) have d: "distinct (map (\<lambda>w. fst (snd w)) ws)"
    and n: "fst (snd w) \<notin> set (map (\<lambda>w. fst (snd w)) ws)" by simp_all
  from for_each_set_limittype_keeps [OF rest set_limittype_has [OF r1] n]
  have "has_limittype reg' w" .
  with Cons.IH [OF rest d] show ?case by simp
qed

lemma for_each_set_limittype_same:
  assumes "\<forall>w \<in> set ws. has_limittype reg w"
  shows "for_each set_limittype ws reg = Inr reg"
  using assms by (induction ws) (simp_all add: set_limittype_same)

lemma workaround_table_distinct: "distinct (map (\<lambda>w. fst (snd w)) workaround_table)"
  by (simp add: workaround_table_def)

lemma workaround_table_no_bitmask: "\<forall>w \<in> set workaround_table. snd (snd w) \<noteq> ''bitmask''"
  by (simp add: workaround_table_def)

text \<open>
  After a pass every member of the table has the limittype of the table (the member names
  of the table are distinct, and none of its limittypes is \<open>bitmask\<close>, so the second part
  leaves them), and no \<open>VkBool32\<close> member of a struct has \<open>bitmask\<close>. So a second pass
  assigns what is there and patches nothing.
\<close>

lemma applyWorkarounds_idem:
  assumes "applyWorkarounds reg0 = Inr reg"
  shows "applyWorkarounds reg = Inr reg"
proof -
  from assms obtain reg1 where
    r1: "for_each set_limittype workaround_table reg0 = Inr reg1"
    and reg: "reg = patch_bool_bitmasks reg1"
    by (auto simp: applyWorkarounds_def split: sum.splits)
  from for_each_set_limittype_has [OF r1 workaround_table_distinct]
  have h1: "\<forall>w \<in> set workaround_table. has_limittype reg1 w" .
  have "\<forall>w \<in> set workaround_table. has_limittype reg w"
  proof
    fix w assume w: "w \<in> set workaround_table"
    obtain s m lt where e: "w = (s, m, lt)" by (cases w)
    from w e workaround_table_no_bitmask have "lt \<noteq> ''bitmask''" by fastforce
    from has_limittype_patch [OF _ this, of reg1 s m] h1 w e reg
    show "has_limittype reg w" by auto
  qed
  then have "for_each set_limittype workaround_table reg = Inr reg"
    by (rule for_each_set_limittype_same)
  moreover have "patch_bool_bitmasks reg = reg"
    by (simp add: reg patch_bool_bitmasks_idem)
  ultimately show ?thesis by (simp add: applyWorkarounds_def)
qed

text \<open>
  C9: the workaround pass is idempotent. A pass that succeeds gives a registry on which the
  pass succeeds again and changes nothing; a loaded registry is the result of a pass, so a
  second pass leaves it, and with it the limittype of every member, as it is.
\<close>

theorem C9_workarounds_idempotent:
  "(applyWorkarounds reg0 = Inr reg \<longrightarrow> applyWorkarounds reg = Inr reg)
   \<and> (VulkanRegistry_init xml = Inr reg \<longrightarrow> applyWorkarounds reg = Inr reg)"
proof (intro conjI impI)
  assume "applyWorkarounds reg0 = Inr reg"
  then show "applyWorkarounds reg = Inr reg" by (rule applyWorkarounds_idem)
next
  assume "VulkanRegistry_init xml = Inr reg"
  then obtain r4 where "applyWorkarounds r4 = Inr reg"
    by (auto simp: VulkanRegistry_init_def split: sum.splits)
  then show "applyWorkarounds reg = Inr reg" by (rule applyWorkarounds_idem)
qed

lemmas loader_defs =
  VulkanRegistry_init_def parsePlatformInfo_def parseVersionInfo_def parseVersionInfo_step_def
  new_VulkanVersion_def scope_parseAliases_def scope_alias_step_def
  parseExtensionInfo_def parseExtensionInfo_step_def new_VulkanExtension_def endswith_def
  parseStructInfo_def parseStructInfo_step_def parseStructInfo_member_def
  parsePrerequisites_def require_type_version_def require_type_extension_def update_struct_def
  parseAliases_def parseAliases_step_def empty_registry_def Let_def

lemma load_xml_limits:
  "\<exists>reg. VulkanRegistry_init xml_limits = Inr reg
   \<and> map_option limittype (map_of (member_dicts reg ''VkPhysicalDeviceLimits'') ''maxColorAttachments'')
       = Some (Some ''max'')
   \<and> map_option limittype (map_of (member_dicts reg ''VkPhysicalDeviceLimits'') ''standardSampleLocations'')
       = Some (Some ''noauto'')
   \<and> map_option limittype
        (map_of (member_dicts reg ''VkPhysicalDeviceLimits'') ''framebufferColorSampleCounts'')
       = Some (Some ''bitmask'')"
  by (simp add: loader_defs xml_limits_def xml_member_of_def regex_defs
        applyWorkarounds_def workaround_table_def set_limittype_def members_of_def
        patch_bool_bitmasks_def patch_struct_def patch_members_def patch_member_def)

theorem C9_workarounds_witness:
  "\<exists>reg. VulkanRegistry_init xml_limits = Inr reg
     \<and> applyWorkarounds reg = Inr reg
     \<and> map_option limittype (map_of (member_dicts reg ''VkPhysicalDeviceLimits'') ''maxColorAttachments'')
         = Some (Some ''max'')
     \<and> map_option limittype (map_of (member_dicts reg ''VkPhysicalDeviceLimits'') ''standardSampleLocations'')
         = Some (Some ''noauto'')
     \<and> map_option limittype
          (map_of (member_dicts reg ''VkPhysicalDeviceLimits'') ''framebufferColorSampleCounts'')
         = Some (Some ''bitmask'')"
proof -
  from load_xml_limits obtain reg where
    l: "VulkanRegistry_init xml_limits = Inr reg"
    and m: "map_option limittype (map_of (member_dicts reg ''VkPhysicalDeviceLimits'') ''maxColorAttachments'')
         = Some (Some ''max'')"
      "map_option limittype (map_of (member_dicts reg ''VkPhysicalDeviceLimits'') ''standardSampleLocations'')
         = Some (Some ''noauto'')"
      "map_option limittype
          (map_of (member_dicts reg ''VkPhysicalDeviceLimits'') ''framebufferColorSampleCounts'')
         = Some (Some ''bitmask'')"
    by blast
  from C9_workarounds_idempotent [of reg reg xml_limits] l
  have "applyWorkarounds reg = Inr reg" by blast
  with l m show ?thesis by blast
qed

subsection \<open>C1: the predicates of the comparison synthesizer\<close>

lemma select_single:
  assumes "table_single lt"
  shows "\<exists>f. select_comparePredFmt lt member structDef = Inr (Str_fmt f)
           \<and> (\<forall>d p. pred_format f d p = table_predicate lt d p)"
  using assms
  by (auto simp: table_single_def select_comparePredFmt_def table_predicate_def)

lemma select_range:
  "select_comparePredFmt (Some ''range'') member structDef = Inr (List_fmt [Fmt_le, Fmt_ge])"
  by (simp add: select_comparePredFmt_def)

lemma single_not_IGNORE: "table_single lt \<Longrightarrow> lt \<noteq> Some ''IGNORE''"
  by (auto simp: table_single_def)

lemma single_not_range: "table_single lt \<Longrightarrow> lt \<noteq> Some ''range''"
  by (auto simp: table_single_def)

lemma format_indices_single:
  assumes "lt \<noteq> Some ''range''"
  shows "format_indices lt (Str_fmt f) fmt dv pv member idx =
           Inr (concat (map (\<lambda>i. fmt_format fmt
                               (pred_format f (dv @ member @ ''['' @ str_nat i @ '']'')
                                              (pv @ member @ ''['' @ str_nat i @ '']''))) idx))"
  using assms by (induction idx) (simp_all add: format_index_def format_direct_def Let_def)

lemma str_nat_0: "str_nat 0 = ''0''" by (simp add: str_nat.simps)
lemma str_nat_1: "str_nat 1 = ''1''" by (simp add: str_nat.simps)
lemma str_nat_Suc_0: "str_nat (Suc 0) = ''1''" by (simp add: str_nat.simps)

lemma format_indices_range:
  assumes "n \<le> 2"
  shows "format_indices (Some ''range'') (List_fmt [Fmt_le, Fmt_ge]) fmt dv pv member [0 ..< n] =
           Inr (concat (take n
                  [fmt_format fmt (''('' @ dv @ member @ ''[0]'' @ '' <= '' @ pv @ member @ ''[0]'' @ '')''),
                   fmt_format fmt (''('' @ dv @ member @ ''[1]'' @ '' >= '' @ pv @ member @ ''[1]'' @ '')'')]))"
proof -
  from assms consider "n = 0" | "n = 1" | "n = 2" by linarith
  then show ?thesis
  proof cases
    case 1
    then show ?thesis by simp
  next
    case 2
    then show ?thesis by (simp add: format_index_def Let_def str_nat_0)
  next
    case 3
    have "[0 ..< 2] = [0, Suc 0]" by (simp add: upt_rec)
    with 3 show ?thesis by (simp add: format_index_def Let_def str_nat_0 str_nat_Suc_0)
  qed
qed

lemma format_indices_range_long:
  assumes "2 < n"
  shows "format_indices (Some ''range'') (List_fmt [Fmt_le, Fmt_ge]) fmt dv pv member [0 ..< n]
           = Inl IndexError"
proof -
  from assms obtain k where n: "n = Suc (Suc (Suc k))"
    by (metis Suc_lessE less_nat_zero_code not_less_eq numeral_2_eq_2 old.nat.exhaust)
  have "[0 ..< n] = 0 # Suc 0 # Suc (Suc 0) # [Suc (Suc (Suc 0)) ..< n]"
    unfolding n by (simp add: upt_rec)
  then show ?thesis
    by (simp add: format_index_def Let_def)
qed

text \<open>
  C1 as amended. For a member that the struct has, the text for the pair of the member and
  its value, in front of the text for the pairs after it, is:
  nothing for \<open>IGNORE\<close>;
  the fatal error for a limittype that the table does not have;
  for an object value (and a limittype of the table other than \<open>IGNORE\<close>), the text of the
  nested struct for the nested values, with the member name and a dot appended to both
  variables;
  for \<open>bitmask\<close>, \<open>max\<close>, \<open>min\<close>, \<open>noauto\<close>, \<open>struct\<close> and an absent limittype, the one
  predicate of the table on the member, when the value is no object and not a list on an
  array member, and one predicate of the table per index of the list, when the value is a
  list on an array member;
  for \<open>range\<close> on an array member with a list of at most two elements, the first
  \<open>length vs\<close> of \<open>device[0] <= profile[0]\<close> and \<open>device[1] >= profile[1]\<close>.
\<close>

theorem C1_predicates_by_limittype:
  assumes "map_of (members_of registry structDef) member = Some md"
  shows
    "(limittype md = Some ''IGNORE'' \<longrightarrow>
        gen_compareStructVar registry fmt structDef dv pv ((member, value) # rest) =
          gen_compareStructVar registry fmt structDef dv pv rest)
     \<and> (\<not> table_limittype (limittype md) \<longrightarrow>
        gen_compareStructVar registry fmt structDef dv pv ((member, value) # rest) =
          Inl (Fatal (''Unsupported limittype '' @ quoted (str_opt (limittype md))
                      @ '' in member '' @ quoted member @ '' of structure ''
                      @ quoted (struct_name structDef))))
     \<and> (table_limittype (limittype md) \<and> limittype md \<noteq> Some ''IGNORE''
          \<and> value = JObj nested \<and> map_of (structs registry) (member_type md) = Some memberDef \<longrightarrow>
        gen_compareStructVar registry fmt structDef dv pv ((member, value) # rest) =
          (case gen_compareStructVar registry fmt memberDef (dv @ member @ ''.'')
                  (pv @ member @ ''.'') nested of
             Inl e \<Rightarrow> Inl e
           | Inr gen \<Rightarrow> then_rest gen (gen_compareStructVar registry fmt structDef dv pv rest)))
     \<and> (table_single (limittype md) \<and> type_of value \<noteq> T_dict
          \<and> \<not> (type_of value = T_list \<and> isArray md) \<longrightarrow>
        gen_compareStructVar registry fmt structDef dv pv ((member, value) # rest) =
          then_rest (fmt_format fmt (table_predicate (limittype md) (dv @ member) (pv @ member)))
            (gen_compareStructVar registry fmt structDef dv pv rest))
     \<and> (table_single (limittype md) \<and> value = JList vs \<and> isArray md \<longrightarrow>
        gen_compareStructVar registry fmt structDef dv pv ((member, value) # rest) =
          then_rest
            (concat (map (\<lambda>i. fmt_format fmt
                                (table_predicate (limittype md)
                                   (dv @ member @ ''['' @ str_nat i @ '']'')
                                   (pv @ member @ ''['' @ str_nat i @ '']'')))
                         [0 ..< length vs]))
            (gen_compareStructVar registry fmt structDef dv pv rest))
     \<and> (limittype md = Some ''range'' \<and> value = JList vs \<and> isArray md \<and> length vs \<le> 2 \<longrightarrow>
        gen_compareStructVar registry fmt structDef dv pv ((member, value) # rest) =
          then_rest
            (concat (take (length vs)
               [fmt_format fmt (''('' @ dv @ member @ ''[0]'' @ '' <= '' @ pv @ member @ ''[0]'' @ '')''),
                fmt_format fmt (''('' @ dv @ member @ ''[1]'' @ '' >= '' @ pv @ member @ ''[1]'' @ '')'')]))
            (gen_compareStructVar registry fmt structDef dv pv rest))"
proof (intro conjI impI)
  assume "limittype md = Some ''IGNORE''"
  then show "gen_compareStructVar registry fmt structDef dv pv ((member, value) # rest) =
          gen_compareStructVar registry fmt structDef dv pv rest"
    by (simp add: assms)
next
  assume "\<not> table_limittype (limittype md)"
  then show "gen_compareStructVar registry fmt structDef dv pv ((member, value) # rest) =
          Inl (Fatal (''Unsupported limittype '' @ quoted (str_opt (limittype md))
                      @ '' in member '' @ quoted member @ '' of structure ''
                      @ quoted (struct_name structDef)))"
    by (auto simp: assms table_limittype_def select_comparePredFmt_def)
next
  assume a: "table_limittype (limittype md) \<and> limittype md \<noteq> Some ''IGNORE''
          \<and> value = JObj nested \<and> map_of (structs registry) (member_type md) = Some memberDef"
  then obtain cf where "select_comparePredFmt (limittype md) member structDef = Inr cf"
    by (auto simp: table_limittype_def select_comparePredFmt_def)
  with a show "gen_compareStructVar registry fmt structDef dv pv ((member, value) # rest) =
          (case gen_compareStructVar registry fmt memberDef (dv @ member @ ''.'')
                  (pv @ member @ ''.'') nested of
             Inl e \<Rightarrow> Inl e
           | Inr gen \<Rightarrow> then_rest gen (gen_compareStructVar registry fmt structDef dv pv rest))"
    by (simp add: assms then_rest_def split: sum.splits)
next
  assume a: "table_single (limittype md) \<and> type_of value \<noteq> T_dict
          \<and> \<not> (type_of value = T_list \<and> isArray md)"
  then have s: "table_single (limittype md)" by simp
  from select_single [OF s, of member structDef] obtain f where
    f: "select_comparePredFmt (limittype md) member structDef = Inr (Str_fmt f)"
    and t: "\<And>d p. pred_format f d p = table_predicate (limittype md) d p" by blast
  from a show "gen_compareStructVar registry fmt structDef dv pv ((member, value) # rest) =
          then_rest (fmt_format fmt (table_predicate (limittype md) (dv @ member) (pv @ member)))
            (gen_compareStructVar registry fmt structDef dv pv rest)"
    by (cases "value")
       (simp_all add: assms single_not_IGNORE [OF s] f t format_direct_def then_rest_def)
next
  assume a: "table_single (limittype md) \<and> value = JList vs \<and> isArray md"
  then have s: "table_single (limittype md)" by simp
  from select_single [OF s, of member structDef] obtain f where
    f: "select_comparePredFmt (limittype md) member structDef = Inr (Str_fmt f)"
    and t: "\<And>d p. pred_format f d p = table_predicate (limittype md) d p" by blast
  from a show "gen_compareStructVar registry fmt structDef dv pv ((member, value) # rest) =
          then_rest
            (concat (map (\<lambda>i. fmt_format fmt
                                (table_predicate (limittype md)
                                   (dv @ member @ ''['' @ str_nat i @ '']'')
                                   (pv @ member @ ''['' @ str_nat i @ '']'')))
                         [0 ..< length vs]))
            (gen_compareStructVar registry fmt structDef dv pv rest)"
    by (simp add: assms single_not_IGNORE [OF s] f t
          format_indices_single [OF single_not_range [OF s]] then_rest_def)
next
  assume a: "limittype md = Some ''range'' \<and> value = JList vs \<and> isArray md \<and> length vs \<le> 2"
  then have n: "length vs \<le> 2" by simp
  from a show "gen_compareStructVar registry fmt structDef dv pv ((member, value) # rest) =
          then_rest
            (concat (take (length vs)
               [fmt_format fmt (''('' @ dv @ member @ ''[0]'' @ '' <= '' @ pv @ member @ ''[0]'' @ '')''),
                fmt_format fmt (''('' @ dv @ member @ ''[1]'' @ '' >= '' @ pv @ member @ ''[1]'' @ '')'')]))
            (gen_compareStructVar registry fmt structDef dv pv rest)"
    by (simp add: assms select_range format_indices_range [OF n] then_rest_def)
qed

lemmas synthetic_defs =
  registry_synthetic_def struct_synthetic_def struct_nested_def member_of_def members_of_def
  fmt_supported_def fmt_format_def select_comparePredFmt_def format_direct_def format_index_def
  Let_def

text \<open>
  C1 says that for every value tree a \<open>range\<close> array member gets the predicates of
  index 0 and index 1, and an array member one predicate per index. The list of formats for
  \<open>range\<close> has two elements: with three values the third index is out of its range, and
  the run ends with \<open>IndexError\<close>, with no predicate and no fatal emitter error.
\<close>

theorem C1_long_range_counterexample:
  "gen_compareStructVar registry_synthetic fmt_supported struct_synthetic ''d.'' ''p.''
     [(''mRange'', JList [JFloat ''1.0'', JFloat ''64.0'', JFloat ''128.0''])] = Inl IndexError"
proof -
  have "[0 ..< 3] = [0, Suc 0, Suc (Suc 0)]" by (simp add: upt_rec)
  then show ?thesis
    by (simp add: synthetic_defs str_nat_0 str_nat_Suc_0)
qed

lemma eval_synthetic:
  "gen_compareStructVar registry_synthetic fmt_supported struct_synthetic ''d.'' ''p.''
       values_synthetic =
     Inr (''ok = ok && ((d.mBitmask & p.mBitmask) == p.mBitmask);'' @ [CHR 0x0A]
          @ ''ok = ok && (d.mMax >= p.mMax);'' @ [CHR 0x0A]
          @ ''ok = ok && (d.mMin <= p.mMin);'' @ [CHR 0x0A]
          @ ''ok = ok && (d.mRange[0] <= p.mRange[0]);'' @ [CHR 0x0A]
          @ ''ok = ok && (d.mRange[1] >= p.mRange[1]);'' @ [CHR 0x0A]
          @ ''ok = ok && (d.mEq == p.mEq);'' @ [CHR 0x0A])"
proof -
  have "[0 ..< 2] = [0, Suc 0]" by (simp add: upt_rec)
  then show ?thesis
    by (simp add: values_synthetic_def synthetic_defs str_nat_0 str_nat_Suc_0)
qed

lemma eval_nested:
  "gen_compareStructVar registry_synthetic fmt_supported struct_synthetic ''d.'' ''p.''
       [(''mNested'', JObj [(''x'', JInt 1)]), (''mPlain'', JStr ''VK_TRUE'')] =
     Inr (''ok = ok && (d.mNested.x >= p.mNested.x);'' @ [CHR 0x0A]
          @ ''ok = ok && (d.mPlain == p.mPlain);'' @ [CHR 0x0A])"
  by (simp add: synthetic_defs)

lemma eval_array:
  "gen_compareStructVar registry_synthetic fmt_supported struct_synthetic ''d.'' ''p.''
       [(''mArray'', JList [JInt 1, JInt 2, JInt 3])] =
     Inr (''ok = ok && (d.mArray[0] >= p.mArray[0]);'' @ [CHR 0x0A]
          @ ''ok = ok && (d.mArray[1] >= p.mArray[1]);'' @ [CHR 0x0A]
          @ ''ok = ok && (d.mArray[2] >= p.mArray[2]);'' @ [CHR 0x0A])"
proof -
  have "[0 ..< 3] = [0, Suc 0, Suc (Suc 0)]" by (simp add: upt_rec)
  moreover have "str_nat (Suc (Suc 0)) = ''2''" by (simp add: str_nat.simps)
  ultimately show ?thesis
    by (simp add: synthetic_defs str_nat_0 str_nat_Suc_0)
qed

lemma eval_other:
  "gen_compareStructVar registry_synthetic fmt_supported struct_synthetic ''d.'' ''p.''
       [(''mOther'', JInt 1)] =
     Inl (Fatal (''Unsupported limittype '' @ quoted ''exact'' @ '' in member '' @ quoted ''mOther''
                 @ '' of structure '' @ quoted ''VkSynthetic''))"
  by (simp add: synthetic_defs str_opt_def)

theorem C1_predicates_witness:
  "map_of (members_of registry_synthetic struct_synthetic) ''mRange'' =
     Some (snd (member_of ''float'' ''mRange'' (Some ''range'') True))
   \<and> gen_compareStructVar registry_synthetic fmt_supported struct_synthetic ''d.'' ''p.''
        [(''mRange'', JList [JFloat ''1.0'', JFloat ''64.0''])] =
       Inr (''ok = ok && (d.mRange[0] <= p.mRange[0]);'' @ [CHR 0x0A]
            @ ''ok = ok && (d.mRange[1] >= p.mRange[1]);'' @ [CHR 0x0A])
   \<and> gen_compareStructVar registry_synthetic fmt_supported struct_synthetic ''d.'' ''p.''
       values_synthetic =
     Inr (''ok = ok && ((d.mBitmask & p.mBitmask) == p.mBitmask);'' @ [CHR 0x0A]
          @ ''ok = ok && (d.mMax >= p.mMax);'' @ [CHR 0x0A]
          @ ''ok = ok && (d.mMin <= p.mMin);'' @ [CHR 0x0A]
          @ ''ok = ok && (d.mRange[0] <= p.mRange[0]);'' @ [CHR 0x0A]
          @ ''ok = ok && (d.mRange[1] >= p.mRange[1]);'' @ [CHR 0x0A]
          @ ''ok = ok && (d.mEq == p.mEq);'' @ [CHR 0x0A])
   \<and> gen_compareStructVar registry_synthetic fmt_supported struct_synthetic ''d.'' ''p.''
       [(''mNested'', JObj [(''x'', JInt 1)]), (''mPlain'', JStr ''VK_TRUE'')] =
     Inr (''ok = ok && (d.mNested.x >= p.mNested.x);'' @ [CHR 0x0A]
          @ ''ok = ok && (d.mPlain == p.mPlain);'' @ [CHR 0x0A])
   \<and> gen_compareStructVar registry_synthetic fmt_supported struct_synthetic ''d.'' ''p.''
       [(''mArray'', JList [JInt 1, JInt 2, JInt 3])] =
     Inr (''ok = ok && (d.mArray[0] >= p.mArray[0]);'' @ [CHR 0x0A]
          @ ''ok = ok && (d.mArray[1] >= p.mArray[1]);'' @ [CHR 0x0A]
          @ ''ok = ok && (d.mArray[2] >= p.mArray[2]);'' @ [CHR 0x0A])
   \<and> gen_compareStructVar registry_synthetic fmt_supported struct_synthetic ''d.'' ''p.''
       [(''mOther'', JInt 1)] =
     Inl (Fatal (''Unsupported limittype '' @ quoted ''exact'' @ '' in member '' @ quoted ''mOther''
                 @ '' of structure '' @ quoted ''VkSynthetic''))"
proof -
  have l: "map_of (members_of registry_synthetic struct_synthetic) ''mRange'' =
     Some (snd (member_of ''float'' ''mRange'' (Some ''range'') True))"
    by (simp add: synthetic_defs)
  have r: "gen_compareStructVar registry_synthetic fmt_supported struct_synthetic ''d.'' ''p.''
        [(''mRange'', JList [JFloat ''1.0'', JFloat ''64.0''])] =
       Inr (''ok = ok && (d.mRange[0] <= p.mRange[0]);'' @ [CHR 0x0A]
            @ ''ok = ok && (d.mRange[1] >= p.mRange[1]);'' @ [CHR 0x0A])"
    using C1_predicates_by_limittype [OF l, of fmt_supported "''d.''" "''p.''"
        "JList [JFloat ''1.0'', JFloat ''64.0'']" "[]" _ _ "[JFloat ''1.0'', JFloat ''64.0'']"]
    by (simp add: member_of_def then_rest_def fmt_supported_def fmt_format_def)
  from l r eval_synthetic eval_nested eval_array eval_other show ?thesis by blast
qed

subsection \<open>C4: struct aliases\<close>

lemma find_sTypeAlias_cong:
  assumes "definedByVersion s1 = definedByVersion s2"
    and "definedByExtensions s1 = definedByExtensions s2"
    and "versions r1 = versions r2" and "extensions r1 = extensions r2"
  shows "find_sTypeAlias r1 s1 st = find_sTypeAlias r2 s2 st"
  unfolding find_sTypeAlias_def assms ..

lemma parseAliases_step_no_alias:
  "xt_alias t = None \<Longrightarrow> parseAliases_step t r = Inr r"
  by (simp add: parseAliases_step_def)

lemma parseAliases_step_frame:
  assumes "parseAliases_step t r = Inr r'"
  shows "versions r' = versions r" and "extensions r' = extensions r"
    and "member_dicts r' = member_dicts r"
    and "n \<noteq> xt_name t \<Longrightarrow> map_of (structs r') n = map_of (structs r) n"
    and "set (alias_lists r a) \<subseteq> set (alias_lists r' a)"
  using assms
  by (auto simp: parseAliases_step_def Let_def update_conv'
      split: option.splits sum.splits if_splits)

lemma parseAliases_frame:
  assumes "for_each parseAliases_step ts r = Inr r'"
  shows "versions r' = versions r \<and> extensions r' = extensions r
         \<and> member_dicts r' = member_dicts r
         \<and> (\<forall>n. n \<notin> set (declared_aliases ts) \<longrightarrow> map_of (structs r') n = map_of (structs r) n)
         \<and> (\<forall>a. set (alias_lists r a) \<subseteq> set (alias_lists r' a))"
  using assms
proof (induction ts arbitrary: r)
  case Nil
  then show ?case by simp
next
  case (Cons t ts)
  from Cons.prems obtain r1 where
    s: "parseAliases_step t r = Inr r1" and rest: "for_each parseAliases_step ts r1 = Inr r'"
    by (auto split: sum.splits)
  note ih = Cons.IH [OF rest]
  show ?case
  proof (cases "xt_alias t")
    case None
    with s have "r1 = r" by (simp add: parseAliases_step_no_alias)
    with ih None show ?thesis by (simp add: declared_aliases_def)
  next
    case (Some a)
    have "\<forall>n. n \<notin> set (declared_aliases (t # ts)) \<longrightarrow> map_of (structs r') n = map_of (structs r) n"
    proof (intro allI impI)
      fix n assume n: "n \<notin> set (declared_aliases (t # ts))"
      with Some have "n \<noteq> xt_name t" "n \<notin> set (declared_aliases ts)"
        by (auto simp: declared_aliases_def)
      with ih parseAliases_step_frame(4) [OF s] show "map_of (structs r') n = map_of (structs r) n"
        by simp
    qed
    moreover have "\<forall>a. set (alias_lists r a) \<subseteq> set (alias_lists r' a)"
      using ih parseAliases_step_frame(5) [OF s] by blast
    ultimately show ?thesis
      using ih parseAliases_step_frame(1,2,3) [OF s] by simp
  qed
qed

lemma parseAliases_step_effect:
  assumes "parseAliases_step t r = Inr r'" and "xt_alias t = Some a" and "a \<noteq> xt_name t"
  shows "alias_resolved r r' (xt_name t) a"
proof -
  from assms(1,2) obtain base al0 where
    base: "map_of (structs r) a = Some base" and al0: "map_of (structs r) (xt_name t) = Some al0"
    by (auto simp: parseAliases_step_def split: option.splits)
  let ?al = "al0\<lparr>extends := extends base, members := members base, aliases := aliases base\<rparr>"
  let ?lists = "(alias_lists r)(aliases base := alias_lists r (aliases base) @ [xt_name t])"
  show ?thesis
  proof (cases "sType base")
    case None
    with assms(1,2) base al0 have
      r': "r' = r\<lparr>structs := AList.update (xt_name t) ?al (structs r), alias_lists := ?lists\<rparr>"
      by (simp add: parseAliases_step_def Let_def)
    have "map_of (structs r') a = Some base" "map_of (structs r') (xt_name t) = Some ?al"
      "xt_name t \<in> set (alias_lists r' (aliases base))"
      by (simp_all add: r' update_conv' base assms(3))
    moreover have "members ?al = members base" "aliases ?al = aliases base"
      "extends ?al = extends base" "sType ?al = sType al0" by simp_all
    ultimately show ?thesis
      unfolding alias_resolved_def using al0 None by (intro exI [of _ base] exI [of _ ?al] exI [of _ al0]) simp
  next
    case (Some st)
    with assms(1,2) base al0 obtain x where
      x: "find_sTypeAlias r ?al st = Inr (Some x)"
      and r': "r' = r\<lparr>structs := AList.update (xt_name t) (?al\<lparr>sType := Some x\<rparr>) (structs r),
                      alias_lists := ?lists\<rparr>"
      by (auto simp: parseAliases_step_def Let_def split: sum.splits option.splits)
    let ?al' = "?al\<lparr>sType := Some x\<rparr>"
    have "find_sTypeAlias r' ?al' st = find_sTypeAlias r ?al st"
      by (rule find_sTypeAlias_cong) (simp_all add: r')
    with x have f: "find_sTypeAlias r' ?al' st = Inr (Some x)" by simp
    have "map_of (structs r') a = Some base" "map_of (structs r') (xt_name t) = Some ?al'"
      "xt_name t \<in> set (alias_lists r' (aliases base))"
      by (simp_all add: r' update_conv' base assms(3))
    moreover have "members ?al' = members base" "aliases ?al' = aliases base"
      "extends ?al' = extends base" "sType ?al' = Some x" by simp_all
    ultimately show ?thesis
      unfolding alias_resolved_def using al0 Some f
      by (intro exI [of _ base] exI [of _ ?al'] exI [of _ al0]) simp
  qed
qed

lemma alias_resolved_later:
  assumes "alias_resolved r r1 name a"
    and "for_each parseAliases_step ts r1 = Inr r'"
    and "name \<notin> set (declared_aliases ts)" and "a \<notin> set (declared_aliases ts)"
  shows "alias_resolved r r' name a"
proof -
  from assms(1) obtain base al al0 where
    f: "map_of (structs r1) a = Some base" "map_of (structs r1) name = Some al"
       "map_of (structs r) name = Some al0"
       "members al = members base" "aliases al = aliases base" "extends al = extends base"
       "name \<in> set (alias_lists r1 (aliases base))"
    and st: "case sType base of
             None \<Rightarrow> sType al = sType al0
           | Some st \<Rightarrow> (\<exists>x. find_sTypeAlias r1 al st = Inr (Some x) \<and> sType al = Some x)"
    unfolding alias_resolved_def by blast
  note fr = parseAliases_frame [OF assms(2)]
  from fr assms(3,4) f have
    g: "map_of (structs r') a = Some base" "map_of (structs r') name = Some al"
       "name \<in> set (alias_lists r' (aliases base))"
    by auto
  have "find_sTypeAlias r' al s = find_sTypeAlias r1 al s" for s
    by (rule find_sTypeAlias_cong) (simp_all add: fr)
  with st have "case sType base of
             None \<Rightarrow> sType al = sType al0
           | Some st \<Rightarrow> (\<exists>x. find_sTypeAlias r' al st = Inr (Some x) \<and> sType al = Some x)"
    by (simp split: option.splits)
  with f g show ?thesis unfolding alias_resolved_def by blast
qed

lemma alias_resolved_earlier:
  assumes "alias_resolved r1 r' name a"
    and "map_of (structs r1) name = map_of (structs r) name"
  shows "alias_resolved r r' name a"
  using assms unfolding alias_resolved_def by auto

lemma parseAliases_resolves:
  assumes "for_each parseAliases_step ts r = Inr r'" and "aliases_in_order ts"
    and "t \<in> set ts" and "xt_alias t = Some a"
  shows "alias_resolved r r' (xt_name t) a"
  using assms
proof (induction ts arbitrary: r)
  case Nil
  then show ?case by simp
next
  case (Cons h ts)
  from Cons.prems(1) obtain r1 where
    s: "parseAliases_step h r = Inr r1" and rest: "for_each parseAliases_step ts r1 = Inr r'"
    by (auto split: sum.splits)
  from Cons.prems(2) have ord: "aliases_in_order ts" by simp
  show ?case
  proof (cases "t = h")
    case True
    with Cons.prems(2,4) have
      c: "a \<noteq> xt_name h" "xt_name h \<notin> set (declared_aliases ts)" "a \<notin> set (declared_aliases ts)"
      by simp_all
    from parseAliases_step_effect [OF s] True Cons.prems(4) c(1)
    have "alias_resolved r r1 (xt_name h) a" by simp
    from alias_resolved_later [OF this rest c(2,3)] True show ?thesis by simp
  next
    case False
    with Cons.prems(3) have t: "t \<in> set ts" by simp
    from Cons.IH [OF rest ord t Cons.prems(4)] have ih: "alias_resolved r1 r' (xt_name t) a" .
    from t Cons.prems(4) have d: "xt_name t \<in> set (declared_aliases ts)"
      by (auto simp: declared_aliases_def)
    have "map_of (structs r1) (xt_name t) = map_of (structs r) (xt_name t)"
    proof (cases "xt_alias h")
      case None
      with s show ?thesis by (simp add: parseAliases_step_no_alias)
    next
      case (Some b)
      with Cons.prems(2) d have "xt_name t \<noteq> xt_name h" by auto
      from parseAliases_step_frame(4) [OF s this] show ?thesis .
    qed
    from alias_resolved_earlier [OF ih this] show ?thesis .
  qed
qed

lemma fold_preserves:
  assumes "P s" and "\<And>x t. P t \<Longrightarrow> P (f x t)"
  shows "P (fold f xs s)"
  using assms(1) by (induction xs arbitrary: s) (simp_all add: assms(2))

lemma fresh_parseStructInfo_step:
  assumes "fresh_structs r" and "parseStructInfo_step struct r = Inr r'"
  shows "fresh_structs r'"
proof -
  from assms(2) obtain sd md where
    r': "r' = r\<lparr>structs := AList.update (xt_name struct) sd (structs r),
                  member_dicts := (member_dicts r)(xt_name struct := md),
                  alias_lists := (alias_lists r)(xt_name struct := [xt_name struct])\<rparr>"
    and sd: "members sd = xt_name struct" "aliases sd = xt_name struct"
    by (auto simp: parseStructInfo_step_def Let_def split: sum.splits)
  show ?thesis
    unfolding fresh_structs_def
  proof (intro allI impI)
    fix n s assume l: "map_of (structs r') n = Some s"
    show "members s = n \<and> aliases s = n \<and> alias_lists r' n = [n]"
    proof (cases "n = xt_name struct")
      case True
      with l sd show ?thesis by (simp add: r' update_conv')
    next
      case False
      with l have "map_of (structs r) n = Some s" by (simp add: r' update_conv')
      with assms(1) False show ?thesis by (simp add: fresh_structs_def r')
    qed
  qed
qed

lemma fresh_parseStructInfo:
  assumes "parseStructInfo xml r0 = Inr r"
  shows "fresh_structs r"
proof -
  have e: "fresh_structs (r0\<lparr>structs := []\<rparr>)" by (simp add: fresh_structs_def)
  from for_each_preserves [where P = fresh_structs, OF assms [unfolded parseStructInfo_def] e]
    fresh_parseStructInfo_step
  show ?thesis by blast
qed

lemma fresh_update_struct:
  assumes "fresh_structs r" and "\<And>sd. members (f sd) = members sd \<and> aliases (f sd) = aliases sd"
  shows "fresh_structs (update_struct n f r)"
  using assms
  by (auto simp: fresh_structs_def update_struct_def map_of_map_entry split: option.splits if_splits)

lemma fresh_parsePrerequisites:
  assumes "fresh_structs r"
  shows "fresh_structs (parsePrerequisites xml r)"
proof -
  have v: "fresh_structs (require_type_version number tn t)" if "fresh_structs t" for number tn t
    using that by (auto simp: require_type_version_def fresh_update_struct split: option.splits)
  have e: "fresh_structs (require_type_extension ename tn t)" if "fresh_structs t" for ename tn t
    using that by (auto simp: require_type_extension_def fresh_update_struct split: option.splits)
  have vs: "fresh_structs (fold (require_type_version number) tns t)"
    if "fresh_structs t" for number tns t
    using that v by (rule fold_preserves [where P = fresh_structs])
  have es: "fresh_structs (fold (require_type_extension ename) tns t)"
    if "fresh_structs t" for ename tns t
    using that e by (rule fold_preserves [where P = fresh_structs])
  have "fresh_structs (fold (\<lambda>feature. fold (require_type_version (feature_number feature))
                                       (feature_types feature)) (xml_features xml) r)"
    using assms vs by (rule fold_preserves [where P = fresh_structs])
  then show ?thesis
    unfolding parsePrerequisites_def Let_def
    using es by (rule fold_preserves [where P = fresh_structs])
qed

lemma fresh_closed: "fresh_structs r \<Longrightarrow> alias_closed r"
  unfolding fresh_structs_def alias_closed_def by (metis empty_iff empty_set list.set_intros(1) set_ConsD)

lemma fresh_pending: "fresh_structs r \<Longrightarrow> pending_fresh r ts"
  unfolding fresh_structs_def pending_fresh_def by metis

lemma pending_freshD:
  assumes "pending_fresh r ts" and "n \<in> set (declared_aliases ts)"
    and "map_of (structs r) n = Some sd"
  shows "aliases sd = n" and "alias_lists r n = [n]"
    and "\<And>n' sd'. map_of (structs r) n' = Some sd' \<Longrightarrow> aliases sd' = n \<Longrightarrow> n' = n"
proof -
  note c = assms(1) [unfolded pending_fresh_def, rule_format, OF assms(2) assms(3)]
  from c show "aliases sd = n" by simp
  from c show "alias_lists r n = [n]" by simp
  fix n' sd' assume "map_of (structs r) n' = Some sd'" "aliases sd' = n"
  with c show "n' = n" by simp
qed

lemma pending_fresh_tail:
  assumes "pending_fresh r (t # ts)"
  shows "pending_fresh r ts"
  unfolding pending_fresh_def
proof (intro allI impI)
  fix n sd assume d: "n \<in> set (declared_aliases ts)" and l: "map_of (structs r) n = Some sd"
  from d have d': "n \<in> set (declared_aliases (t # ts))" by (simp add: declared_aliases_def)
  show "aliases sd = n \<and> alias_lists r n = [n]
            \<and> (\<forall>n' sd'. map_of (structs r) n' = Some sd' \<longrightarrow> aliases sd' = n \<longrightarrow> n' = n)"
    using assms [unfolded pending_fresh_def, rule_format, OF d' l] .
qed

lemma alias_closedD:
  assumes "alias_closed r" and "map_of (structs r) n = Some sd"
  shows "n \<in> set (alias_lists r (aliases sd))"
    and "\<And>m. m \<in> set (alias_lists r (aliases sd))
           \<Longrightarrow> \<exists>md. map_of (structs r) m = Some md
                    \<and> members md = members sd \<and> aliases md = aliases sd"
proof -
  note c = assms(1) [unfolded alias_closed_def, rule_format, OF assms(2)]
  from c show "n \<in> set (alias_lists r (aliases sd))" by simp
  fix m assume "m \<in> set (alias_lists r (aliases sd))"
  with c show "\<exists>md. map_of (structs r) m = Some md
                    \<and> members md = members sd \<and> aliases md = aliases sd" by simp
qed

lemma parseAliases_step_shape:
  assumes "parseAliases_step t r = Inr r'" and "xt_alias t = Some a"
  shows "\<exists>base al0 al'. map_of (structs r) a = Some base
           \<and> map_of (structs r) (xt_name t) = Some al0
           \<and> members al' = members base \<and> aliases al' = aliases base
           \<and> structs r' = AList.update (xt_name t) al' (structs r)
           \<and> alias_lists r' =
               (alias_lists r)(aliases base := alias_lists r (aliases base) @ [xt_name t])"
proof -
  from assms obtain base al0 where
    base: "map_of (structs r) a = Some base" and al0: "map_of (structs r) (xt_name t) = Some al0"
    by (auto simp: parseAliases_step_def split: option.splits)
  let ?al = "al0\<lparr>extends := extends base, members := members base, aliases := aliases base\<rparr>"
  show ?thesis
  proof (cases "sType base")
    case None
    with assms base al0 have
      r': "r' = r\<lparr>structs := AList.update (xt_name t) ?al (structs r),
                    alias_lists := (alias_lists r)
                      (aliases base := alias_lists r (aliases base) @ [xt_name t])\<rparr>"
      by (simp add: parseAliases_step_def Let_def)
    show ?thesis
      by (intro exI [of _ base] exI [of _ al0] exI [of _ ?al]) (simp add: base al0 r')
  next
    case (Some st)
    with assms base al0 obtain x where
      r': "r' = r\<lparr>structs := AList.update (xt_name t) (?al\<lparr>sType := Some x\<rparr>) (structs r),
                    alias_lists := (alias_lists r)
                      (aliases base := alias_lists r (aliases base) @ [xt_name t])\<rparr>"
      by (auto simp: parseAliases_step_def Let_def split: sum.splits option.splits)
    show ?thesis
      by (intro exI [of _ base] exI [of _ al0] exI [of _ "?al\<lparr>sType := Some x\<rparr>"])
         (simp add: base al0 r')
  qed
qed

lemma closed_step:
  assumes step: "parseAliases_step t r = Inr r'"
    and ord: "aliases_in_order (t # ts)"
    and closed: "alias_closed r"
    and pend: "pending_fresh r (t # ts)"
  shows "alias_closed r' \<and> pending_fresh r' ts"
proof (cases "xt_alias t")
  case None
  with step have "r' = r" by (simp add: parseAliases_step_no_alias)
  with closed pend show ?thesis by (simp add: pending_fresh_tail)
next
  case (Some a)
  let ?S = "xt_name t"
  from ord Some have aS: "a \<noteq> ?S" and S_later: "?S \<notin> set (declared_aliases ts)"
    and a_later: "a \<notin> set (declared_aliases ts)" by simp_all
  from parseAliases_step_shape [OF step Some] obtain base al0 al' where
    base: "map_of (structs r) a = Some base" and al0: "map_of (structs r) ?S = Some al0"
    and al': "members al' = members base" "aliases al' = aliases base"
    and r'_structs: "structs r' = AList.update ?S al' (structs r)"
    and r'_lists: "alias_lists r' =
               (alias_lists r)(aliases base := alias_lists r (aliases base) @ [?S])"
    by blast
  let ?cB = "aliases base"
  have look: "map_of (structs r') n = (if n = ?S then Some al' else map_of (structs r) n)" for n
    by (simp add: r'_structs update_conv')
  have lists: "alias_lists r' c = (if c = ?cB then alias_lists r ?cB @ [?S] else alias_lists r c)" for c
    by (simp add: r'_lists)
  have S_decl: "?S \<in> set (declared_aliases (t # ts))"
    using Some by (simp add: declared_aliases_def)
  note S_own = pending_freshD(1) [OF pend S_decl al0]
    and S_list = pending_freshD(2) [OF pend S_decl al0]
    and S_uniq = pending_freshD(3) [OF pend S_decl al0]
  have cB: "?cB \<noteq> ?S"
  proof
    assume "?cB = ?S"
    from S_uniq [OF base this] aS show False by simp
  qed
  note closedD1 = alias_closedD(1) [OF closed]
    and closedD2 = alias_closedD(2) [OF closed]
  have S_not_listed: "?S \<notin> set (alias_lists r (aliases sd))"
    if "map_of (structs r) n = Some sd" "n \<noteq> ?S" for n sd
  proof
    assume "?S \<in> set (alias_lists r (aliases sd))"
    from closedD2 [OF that(1) this] al0 have "aliases al0 = aliases sd" by auto
    with S_own have "aliases sd = ?S" by simp
    from S_uniq [OF that(1) this] that(2) show False by simp
  qed
  have c': "alias_closed r'"
    unfolding alias_closed_def
  proof (intro allI impI conjI ballI)
    fix n sd assume n: "map_of (structs r') n = Some sd"
    show "n \<in> set (alias_lists r' (aliases sd))"
    proof (cases "n = ?S")
      case True
      with n al' show ?thesis by (simp add: look lists)
    next
      case False
      with n have "map_of (structs r) n = Some sd" by (simp add: look)
      from closedD1 [OF this] show ?thesis by (auto simp: lists)
    qed
  next
    fix n sd m assume n: "map_of (structs r') n = Some sd"
      and m: "m \<in> set (alias_lists r' (aliases sd))"
    show "\<exists>md. map_of (structs r') m = Some md \<and> members md = members sd \<and> aliases md = aliases sd"
    proof (cases "n = ?S")
      case True
      with n have sd: "sd = al'" by (simp add: look)
      from m sd al' have "m = ?S \<or> m \<in> set (alias_lists r ?cB)" by (auto simp: lists)
      then show ?thesis
      proof
        assume "m = ?S"
        with sd show ?thesis by (simp add: look)
      next
        assume old: "m \<in> set (alias_lists r ?cB)"
        from closedD2 [OF base old] obtain md where
          md: "map_of (structs r) m = Some md" "members md = members base" "aliases md = ?cB"
          by blast
        from S_not_listed [OF base aS] old have "m \<noteq> ?S" by auto
        with md sd al' show ?thesis by (simp add: look)
      qed
    next
      case False
      with n have nr: "map_of (structs r) n = Some sd" by (simp add: look)
      show ?thesis
      proof (cases "m = ?S")
        case True
        have "?S \<notin> set (alias_lists r (aliases sd))" by (rule S_not_listed [OF nr False])
        with m True have c: "aliases sd = ?cB" by (auto simp: lists split: if_splits)
        from closedD1 [OF base] c have "a \<in> set (alias_lists r (aliases sd))" by simp
        from closedD2 [OF nr this] base have "members base = members sd" by auto
        with True c al' show ?thesis by (simp add: look)
      next
        case mS: False
        with m have "m \<in> set (alias_lists r (aliases sd))" by (auto simp: lists split: if_splits)
        from closedD2 [OF nr this] mS show ?thesis by (simp add: look)
      qed
    qed
  qed
  have p': "pending_fresh r' ts"
    unfolding pending_fresh_def
  proof (intro allI impI)
    fix n sd assume d: "n \<in> set (declared_aliases ts)" and n: "map_of (structs r') n = Some sd"
    from d S_later have nS: "n \<noteq> ?S" by auto
    from d a_later have na: "n \<noteq> a" by auto
    from n nS have nr: "map_of (structs r) n = Some sd" by (simp add: look)
    from d have d': "n \<in> set (declared_aliases (t # ts))" by (simp add: declared_aliases_def)
    note own = pending_freshD(1) [OF pend d' nr]
      and l = pending_freshD(2) [OF pend d' nr]
      and uniq = pending_freshD(3) [OF pend d' nr]
    have ncB: "n \<noteq> ?cB"
    proof
      assume "n = ?cB"
      then have "aliases base = n" by simp
      from uniq [OF base this] na show False by simp
    qed
    have "\<forall>n' sd'. map_of (structs r') n' = Some sd' \<longrightarrow> aliases sd' = n \<longrightarrow> n' = n"
    proof (intro allI impI)
      fix n' sd' assume a1: "map_of (structs r') n' = Some sd'" and a2: "aliases sd' = n"
      show "n' = n"
      proof (cases "n' = ?S")
        case True
        with a1 have "sd' = al'" by (simp add: look)
        with a2 al' ncB show ?thesis by simp
      next
        case False
        with a1 have "map_of (structs r) n' = Some sd'" by (simp add: look)
        from uniq [OF this a2] show ?thesis .
      qed
    qed
    with own l ncB show "aliases sd = n \<and> alias_lists r' n = [n]
        \<and> (\<forall>n' sd'. map_of (structs r') n' = Some sd' \<longrightarrow> aliases sd' = n \<longrightarrow> n' = n)"
      by (simp add: lists)
  qed
  from c' p' show ?thesis ..
qed

lemma parseAliases_closed:
  assumes "for_each parseAliases_step ts r = Inr r'" and "aliases_in_order ts"
    and "alias_closed r" and "pending_fresh r ts"
  shows "alias_closed r'"
  using assms
proof (induction ts arbitrary: r)
  case Nil
  then show ?case by simp
next
  case (Cons t ts)
  from Cons.prems(1) obtain r1 where
    s: "parseAliases_step t r = Inr r1" and rest: "for_each parseAliases_step ts r1 = Inr r'"
    by (auto split: sum.splits)
  from closed_step [OF s Cons.prems(2,3,4)] have "alias_closed r1" "pending_fresh r1 ts" by simp_all
  with Cons.IH [OF rest] Cons.prems(2) show ?case by simp
qed

lemma applyWorkarounds_frame:
  assumes "applyWorkarounds r = Inr r'"
  shows "structs r' = structs r \<and> alias_lists r' = alias_lists r
         \<and> versions r' = versions r \<and> extensions r' = extensions r"
proof -
  from assms obtain r1 where
    r1: "for_each set_limittype workaround_table r = Inr r1" and r': "r' = patch_bool_bitmasks r1"
    by (auto simp: applyWorkarounds_def split: sum.splits)
  let ?P = "\<lambda>t. structs t = structs r \<and> alias_lists t = alias_lists r
         \<and> versions t = versions r \<and> extensions t = extensions r"
  have "?P r1"
  proof (rule for_each_preserves [where P = ?P, OF r1])
    show "?P r" by simp
  next
    fix x t t' assume "?P t" and "set_limittype x t = Inr t'"
    then show "?P t'"
      by (auto simp: set_limittype_def split: prod.splits option.splits)
  qed
  then show ?thesis by (simp add: r' patch_bool_bitmasks_eq)
qed

lemmas eval_defs =
  loader_defs xml_limits_def xml_member_of_def regex_defs
  applyWorkarounds_def workaround_table_def set_limittype_def members_of_def aliases_of_def
  patch_bool_bitmasks_def patch_struct_def patch_members_def patch_member_def
  xml_thing_def xml_alias_of_def xml_extension_thing_def alias_view_def
  find_sTypeAlias_def startswith_def

text \<open>
  C4 says that after loading, the aliases of a struct share its members. In this document
  the alias \<open>VkThingEXT\<close> of \<open>VkThingKHR\<close> is resolved while \<open>VkThingKHR\<close> is not yet
  resolved itself. Loading succeeds; \<open>VkThingKHR\<close> is in the list of aliases of
  \<open>VkThingEXT\<close>, but \<open>VkThingEXT\<close> has no members and no \<open>sType\<close>, while
  \<open>VkThingKHR\<close> has the member and an \<open>sType\<close>, and the two have different lists.
\<close>

theorem C4_alias_chain_counterexample:
  "map_sum id (\<lambda>reg. (alias_view reg ''VkThingEXT'', alias_view reg ''VkThingKHR''))
     (VulkanRegistry_init xml_chain) =
   Inr (Some ([''VkThingKHR'', ''VkThingEXT''], [], None),
        Some ([''VkThing'', ''VkThingKHR''], [''thing''], Some ''VK_STRUCTURE_TYPE_THING_KHR''))"
  by (simp add: xml_chain_def eval_defs)

lemma load_xml_alias:
  "map_sum id (\<lambda>reg. (alias_view reg ''VkThing'', alias_view reg ''VkThingKHR''))
     (VulkanRegistry_init xml_alias) =
   Inr (Some ([''VkThing'', ''VkThingKHR''], [''thing''], Some ''VK_STRUCTURE_TYPE_THING''),
        Some ([''VkThing'', ''VkThingKHR''], [''thing''], Some ''VK_STRUCTURE_TYPE_THING_KHR''))"
  by (simp add: xml_alias_def eval_defs)

text \<open>
  C4 as amended: when a registry document loads and its alias declarations are in order,
  then in the registry every name in the list of aliases of a struct is a struct with the
  same members and the same list of aliases; and for every alias declaration, the target
  and the alias are structs of the registry, the alias is in the target's list of
  aliases, it has the members and the \<open>extends\<close> of the target, and when the target has
  an \<open>sType\<close>, the \<open>sType\<close> of the alias is the alias of the target's \<open>sType\<close> that
  the alias's defining version or extensions declare.
\<close>

theorem C4_aliases_share_members:
  assumes "VulkanRegistry_init xml = Inr reg" and "aliases_in_order (xml_types xml)"
  shows
    "(\<forall>n sd m. map_of (structs reg) n = Some sd \<longrightarrow> m \<in> set (aliases_of reg sd)
        \<longrightarrow> (\<exists>md. map_of (structs reg) m = Some md
                  \<and> members_of reg md = members_of reg sd
                  \<and> aliases_of reg md = aliases_of reg sd))
     \<and> (\<forall>struct alias. struct \<in> set (xml_types xml) \<longrightarrow> xt_alias struct = Some alias
        \<longrightarrow> (\<exists>base al. map_of (structs reg) alias = Some base
                  \<and> map_of (structs reg) (xt_name struct) = Some al
                  \<and> xt_name struct \<in> set (aliases_of reg base)
                  \<and> members_of reg al = members_of reg base
                  \<and> extends al = extends base
                  \<and> (\<forall>st. sType base = Some st
                        \<longrightarrow> (\<exists>x. find_sTypeAlias reg al st = Inr (Some x) \<and> sType al = Some x))))"
proof -
  from assms(1) obtain r2 r3 r4 where
    r3: "parseStructInfo xml r2 = Inr r3"
    and r4: "parseAliases xml (parsePrerequisites xml r3) = Inr r4"
    and reg: "applyWorkarounds r4 = Inr reg"
    by (auto simp: VulkanRegistry_init_def split: sum.splits)
  let ?r = "parsePrerequisites xml r3"
  have fresh: "fresh_structs ?r"
    by (rule fresh_parsePrerequisites) (rule fresh_parseStructInfo [OF r3])
  from r4 have run: "for_each parseAliases_step (xml_types xml) ?r = Inr r4"
    by (simp add: parseAliases_def)
  have c4: "alias_closed r4"
    by (rule parseAliases_closed [OF run assms(2) fresh_closed [OF fresh] fresh_pending [OF fresh]])
  note fr = applyWorkarounds_frame [OF reg]
  from c4 fr have c: "alias_closed reg" by (simp add: alias_closed_def)
  have one: "\<forall>n sd m. map_of (structs reg) n = Some sd \<longrightarrow> m \<in> set (aliases_of reg sd)
        \<longrightarrow> (\<exists>md. map_of (structs reg) m = Some md
                  \<and> members_of reg md = members_of reg sd
                  \<and> aliases_of reg md = aliases_of reg sd)"
  proof (intro allI impI)
    fix n sd m assume n: "map_of (structs reg) n = Some sd" and m: "m \<in> set (aliases_of reg sd)"
    from m have "m \<in> set (alias_lists reg (aliases sd))" by (simp add: aliases_of_def)
    from alias_closedD(2) [OF c n this] obtain md where
      "map_of (structs reg) m = Some md" "members md = members sd" "aliases md = aliases sd"
      by blast
    then show "\<exists>md. map_of (structs reg) m = Some md
                  \<and> members_of reg md = members_of reg sd
                  \<and> aliases_of reg md = aliases_of reg sd"
      by (simp add: members_of_def aliases_of_def)
  qed
  have two: "\<forall>struct alias. struct \<in> set (xml_types xml) \<longrightarrow> xt_alias struct = Some alias
        \<longrightarrow> (\<exists>base al. map_of (structs reg) alias = Some base
                  \<and> map_of (structs reg) (xt_name struct) = Some al
                  \<and> xt_name struct \<in> set (aliases_of reg base)
                  \<and> members_of reg al = members_of reg base
                  \<and> extends al = extends base
                  \<and> (\<forall>st. sType base = Some st
                        \<longrightarrow> (\<exists>x. find_sTypeAlias reg al st = Inr (Some x) \<and> sType al = Some x)))"
  proof (intro allI impI)
    fix ty target assume s: "ty \<in> set (xml_types xml)" and a: "xt_alias ty = Some target"
    from parseAliases_resolves [OF run assms(2) s a] obtain base al where
      f: "map_of (structs r4) target = Some base" "map_of (structs r4) (xt_name ty) = Some al"
         "members al = members base" "aliases al = aliases base" "extends al = extends base"
         "xt_name ty \<in> set (alias_lists r4 (aliases base))"
      and st: "case sType base of
             None \<Rightarrow> True
           | Some st \<Rightarrow> (\<exists>x. find_sTypeAlias r4 al st = Inr (Some x) \<and> sType al = Some x)"
      unfolding alias_resolved_def by (auto split: option.splits)
    have "find_sTypeAlias reg al s = find_sTypeAlias r4 al s" for s
      by (rule find_sTypeAlias_cong) (simp_all add: fr)
    with st have "\<forall>st. sType base = Some st
                        \<longrightarrow> (\<exists>x. find_sTypeAlias reg al st = Inr (Some x) \<and> sType al = Some x)"
      by (simp split: option.splits)
    with f fr show "\<exists>base al. map_of (structs reg) target = Some base
                  \<and> map_of (structs reg) (xt_name ty) = Some al
                  \<and> xt_name ty \<in> set (aliases_of reg base)
                  \<and> members_of reg al = members_of reg base
                  \<and> extends al = extends base
                  \<and> (\<forall>st. sType base = Some st
                        \<longrightarrow> (\<exists>x. find_sTypeAlias reg al st = Inr (Some x) \<and> sType al = Some x))"
      by (intro exI [of _ base] exI [of _ al]) (simp add: members_of_def aliases_of_def)
  qed
  from one two show ?thesis ..
qed

lemma xml_alias_in_order: "aliases_in_order (xml_types xml_alias)"
  by (simp add: xml_alias_def xml_limits_def xml_alias_of_def xml_thing_def declared_aliases_def)

lemma xml_chain_not_in_order: "\<not> aliases_in_order (xml_types xml_chain)"
  by (simp add: xml_chain_def xml_limits_def xml_alias_of_def xml_thing_def declared_aliases_def)

theorem C4_aliases_witness:
  "aliases_in_order (xml_types xml_alias)
   \<and> (\<exists>reg. VulkanRegistry_init xml_alias = Inr reg
         \<and> alias_view reg ''VkThing'' =
             Some ([''VkThing'', ''VkThingKHR''], [''thing''], Some ''VK_STRUCTURE_TYPE_THING'')
         \<and> alias_view reg ''VkThingKHR'' =
             Some ([''VkThing'', ''VkThingKHR''], [''thing''], Some ''VK_STRUCTURE_TYPE_THING_KHR'')
         \<and> (\<exists>base al. map_of (structs reg) ''VkThing'' = Some base
                  \<and> map_of (structs reg) ''VkThingKHR'' = Some al
                  \<and> ''VkThingKHR'' \<in> set (aliases_of reg base)
                  \<and> members_of reg al = members_of reg base))"
proof -
  from load_xml_alias obtain reg where
    l: "VulkanRegistry_init xml_alias = Inr reg"
    and v: "alias_view reg ''VkThing'' =
             Some ([''VkThing'', ''VkThingKHR''], [''thing''], Some ''VK_STRUCTURE_TYPE_THING'')"
       "alias_view reg ''VkThingKHR'' =
             Some ([''VkThing'', ''VkThingKHR''], [''thing''], Some ''VK_STRUCTURE_TYPE_THING_KHR'')"
    by (cases "VulkanRegistry_init xml_alias") auto
  have s: "xml_alias_of ''VkThingKHR'' ''VkThing'' \<in> set (xml_types xml_alias)"
    by (simp add: xml_alias_def)
  have a: "xt_alias (xml_alias_of ''VkThingKHR'' ''VkThing'') = Some ''VkThing''"
    by (simp add: xml_alias_of_def)
  have n: "xt_name (xml_alias_of ''VkThingKHR'' ''VkThing'') = ''VkThingKHR''"
    by (simp add: xml_alias_of_def)
  note inst = C4_aliases_share_members [OF l xml_alias_in_order, THEN conjunct2, rule_format, OF s a]
  from inst obtain base al where
    "map_of (structs reg) ''VkThing'' = Some base"
    "map_of (structs reg) ''VkThingKHR'' = Some al"
    "''VkThingKHR'' \<in> set (aliases_of reg base)"
    "members_of reg al = members_of reg base"
    unfolding n by blast
  then have "\<exists>base al. map_of (structs reg) ''VkThing'' = Some base
                  \<and> map_of (structs reg) ''VkThingKHR'' = Some al
                  \<and> ''VkThingKHR'' \<in> set (aliases_of reg base)
                  \<and> members_of reg al = members_of reg base"
    by (intro exI [of _ base] exI [of _ al] conjI)
  with l v have "\<exists>reg. VulkanRegistry_init xml_alias = Inr reg
         \<and> alias_view reg ''VkThing'' =
             Some ([''VkThing'', ''VkThingKHR''], [''thing''], Some ''VK_STRUCTURE_TYPE_THING'')
         \<and> alias_view reg ''VkThingKHR'' =
             Some ([''VkThing'', ''VkThingKHR''], [''thing''], Some ''VK_STRUCTURE_TYPE_THING_KHR'')
         \<and> (\<exists>base al. map_of (structs reg) ''VkThing'' = Some base
                  \<and> map_of (structs reg) ''VkThingKHR'' = Some al
                  \<and> ''VkThingKHR'' \<in> set (aliases_of reg base)
                  \<and> members_of reg al = members_of reg base)"
    by (intro exI [of _ reg] conjI)
  with xml_alias_in_order show ?thesis by (rule conjI)
qed

end
